theory Spec2Isabelle
  imports Main "HOL-Library.AList" "HOL-Library.Sublist"
begin

section \<open>Strings, numbers and paths\<close>

text \<open>
  The server is \<^verbatim>\<open>resources/serverless/code-web.js\<close>. A JavaScript string is modelled
  as a \<^typ>\<open>string\<close>: the bytes of its UTF-8 encoding, so an ASCII text has one
  \<^typ>\<open>char\<close> per character. Equality, concatenation, \<^verbatim>\<open>substr\<close> past an ASCII
  prefix and the test \<^verbatim>\<open>s.indexOf(t) === 0\<close> (here \<^const>\<open>prefix\<close>) agree with
  JavaScript on this representation (a string with a lone surrogate has none). The value
  \<^verbatim>\<open>undefined\<close> of an optional string is \<^const>\<open>None\<close>.

  The functions of Node's \<^verbatim>\<open>path\<close> module are those of a POSIX host, where the
  separator \<^verbatim>\<open>path.sep\<close> is \<^verbatim>\<open>/\<close>.
\<close>

text \<open>\<^verbatim>\<open>Array.prototype.join\<close> on an array of strings.\<close>

fun join_with :: "string \<Rightarrow> string list \<Rightarrow> string" where
  "join_with sep [] = []"
| "join_with sep [x] = x"
| "join_with sep (x # y # ys) = x @ sep @ join_with sep (y # ys)"

text \<open>\<^verbatim>\<open>String.prototype.split\<close> at a single character: never the empty list.\<close>

fun split_at :: "char \<Rightarrow> string \<Rightarrow> string list" where
  "split_at c [] = [[]]"
| "split_at c (x # xs) =
     (if x = c then [] # split_at c xs
      else (case split_at c xs of
              [] \<Rightarrow> [[x]]
            | s # ss \<Rightarrow> (x # s) # ss))"

subsection \<open>\<^verbatim>\<open>Number.prototype.toString\<close>\<close>

text \<open>
  The numbers the server turns into text are integers: an inode number, a byte size, a
  count of milliseconds, a number of a descriptor. An integer becomes a Number by rounding
  to the nearest double, to the even mantissa on a tie (\<^verbatim>\<open>static_cast<double>\<close> in
  Node's \<^verbatim>\<open>stat\<close>, \<^verbatim>\<open>JSON.parse\<close>); from \<^verbatim>\<open>2^1024 - 2^970\<close> on the Number is
  \<^verbatim>\<open>Infinity\<close>.
\<close>

definition digit_char :: "nat \<Rightarrow> char" where
  "digit_char d = char_of (48 + d)"

function string_of_nat :: "nat \<Rightarrow> string" where
  "string_of_nat n =
     (if n < 10 then [digit_char n]
      else string_of_nat (n div 10) @ [digit_char (n mod 10)])"
  by pat_completeness auto
termination
  by (relation "measure (\<lambda>n. n)") auto

declare string_of_nat.simps [simp del]

function bit_length :: "nat \<Rightarrow> nat" where
  "bit_length n = (if n = 0 then 0 else Suc (bit_length (n div 2)))"
  by pat_completeness auto
termination
  by (relation "measure (\<lambda>n. n)") auto

declare bit_length.simps [simp del]

definition round_to_double :: "nat \<Rightarrow> nat" where
  "round_to_double n =
     (let b = bit_length n
      in if b \<le> 53 then n
         else
           let u = 2 ^ (b - 53);
               r = n mod u;
               below = n - r
           in if u < 2 * r \<or> (2 * r = u \<and> odd (below div u)) then below + u else below)"

text \<open>
  The text of a Number \<open>v\<close> has the fewest digits \<open>s\<close> such that \<open>s\<close> times a power of ten
  reads back as \<open>v\<close>; of several such \<open>s\<close> the one nearest to \<open>v\<close>, the even one on a tie.
  \<open>rounds_to v c\<close>: the integer \<open>c\<close> reads back as the double \<open>v\<close>, for \<open>v\<close> from
  \<^verbatim>\<open>2^53\<close> on, where the doubles are \<open>2 ^ (bit_length v - 53)\<close> apart (and half as far
  below a power of two). \<open>shortest_from v j\<close> tries the multiples of \<open>10 ^ j\<close> next to
  \<open>v\<close>, then those of the lower powers.
\<close>

definition rounds_to :: "nat \<Rightarrow> nat \<Rightarrow> bool" where
  "rounds_to v c =
     (let u = 2 ^ (bit_length v - 53);
          m = v div u;
          down = (if m = 2 ^ 52 then u div 2 else u)
      in if v \<le> c then 2 * (c - v) < u \<or> (2 * (c - v) = u \<and> even m)
         else 2 * (v - c) < down \<or> (2 * (v - c) = down \<and> even m))"

fun shortest_from :: "nat \<Rightarrow> nat \<Rightarrow> nat" where
  "shortest_from v j =
     (if j = 0 then v
      else
        let p = 10 ^ j;
            c1 = (v div p) * p;
            c2 = c1 + p
        in if rounds_to v c1 \<and> rounds_to v c2 then
             (if v - c1 < c2 - v then c1
              else if c2 - v < v - c1 then c2
              else if even (v div p) then c1 else c2)
           else if rounds_to v c1 then c1
           else if rounds_to v c2 then c2
           else shortest_from v (j - 1))"

declare shortest_from.simps [simp del]

text \<open>
  Up to 21 digits are written out; a longer number is written with an exponent, as
  \<^verbatim>\<open>1.1805916207174113e+21\<close>.
\<close>

definition digits_text :: "nat \<Rightarrow> string" where
  "digits_text c =
     (let ds = string_of_nat c;
          n = length ds
      in if n \<le> 21 then ds
         else
           let s = rev (dropWhile (\<lambda>d. d = CHR ''0'') (rev ds))
           in hd s # (if tl s = [] then [] else CHR ''.'' # tl s) @ ''e+''
                @ string_of_nat (n - 1))"

definition nat_toString :: "nat \<Rightarrow> string" where
  "nat_toString n =
     (let v = round_to_double n
      in if 2 ^ 1024 \<le> v then ''Infinity''
         else if v < 2 ^ 53 then string_of_nat v
         else digits_text (shortest_from v (length (string_of_nat v) - 1)))"

definition Number_toString :: "int \<Rightarrow> string" where
  "Number_toString i =
     (if i < 0 then CHR ''-'' # nat_toString (nat (- i)) else nat_toString (nat i))"

text \<open>
  \<^verbatim>\<open>new Date(t).getTime()\<close> for a whole number \<open>t\<close> of milliseconds: beyond 8.64e15
  either way the Date is invalid and the result is \<^verbatim>\<open>NaN\<close>, here \<^const>\<open>None\<close>.
\<close>

definition getTime :: "int \<Rightarrow> int option" where
  "getTime t = (if \<bar>t\<bar> \<le> 8640000000000000 then Some t else None)"

subsection \<open>\<^verbatim>\<open>path.normalize\<close>, \<^verbatim>\<open>path.join\<close> and \<^verbatim>\<open>path.extname\<close>\<close>

text \<open>
  Node's \<^verbatim>\<open>normalizeString\<close> walks the path once and keeps the segments it has
  accepted; here a step per segment. An empty segment and \<^verbatim>\<open>.\<close> are dropped;
  \<^verbatim>\<open>..\<close> removes the last accepted segment unless there is none or it is \<^verbatim>\<open>..\<close>
  itself, in which case it is kept when \<^verbatim>\<open>allowAboveRoot\<close> holds and dropped
  otherwise.
\<close>

definition normalize_step :: "bool \<Rightarrow> string list \<Rightarrow> string \<Rightarrow> string list" where
  "normalize_step allowAboveRoot res seg =
     (if seg = [] \<or> seg = ''.'' then res
      else if seg = ''..'' then
        (if res \<noteq> [] \<and> last res \<noteq> ''..'' then butlast res
         else if allowAboveRoot then res @ [''..'']
         else res)
      else res @ [seg])"

definition normalizeString :: "string \<Rightarrow> bool \<Rightarrow> string" where
  "normalizeString path allowAboveRoot =
     join_with ''/'' (foldl (normalize_step allowAboveRoot) [] (split_at CHR ''/'' path))"

definition path_normalize :: "string \<Rightarrow> string" where
  "path_normalize path =
     (if path = [] then ''.''
      else
        let isAbsolute = (hd path = CHR ''/'');
            trailingSeparator = (last path = CHR ''/'');
            p = normalizeString path (\<not> isAbsolute)
        in if p = [] then
             (if isAbsolute then ''/'' else if trailingSeparator then ''./'' else ''.'')
           else
             let p' = (if trailingSeparator then p @ ''/'' else p)
             in if isAbsolute then CHR ''/'' # p' else p')"

definition path_join :: "string list \<Rightarrow> string" where
  "path_join args =
     (let parts = filter (\<lambda>a. a \<noteq> []) args
      in if parts = [] then ''.'' else path_normalize (join_with ''/'' parts))"

text \<open>
  \<^verbatim>\<open>path.extname\<close>: the part of the last segment (trailing separators ignored) from
  its last dot on; empty when there is no dot, when the dot is the segment's first
  character, and for the segment \<^verbatim>\<open>..\<close>.
\<close>

definition path_extname :: "string \<Rightarrow> string" where
  "path_extname path =
     (let trimmed = rev (dropWhile (\<lambda>c. c = CHR ''/'') (rev path));
          base = rev (takeWhile (\<lambda>c. c \<noteq> CHR ''/'') (rev trimmed));
          ext = CHR ''.'' # rev (takeWhile (\<lambda>c. c \<noteq> CHR ''.'') (rev base))
      in if CHR ''.'' \<notin> set base \<or> length ext = length base \<or> base = ''..'' then []
         else ext)"

text \<open>
  \<^verbatim>\<open>String.prototype.toLowerCase\<close>, on the ASCII letters. The result is only
  compared with the keys of \<^verbatim>\<open>mapExtToMediaMimes\<close>, ASCII texts whose letters no
  character outside ASCII lowers into.
\<close>

definition lower_char :: "char \<Rightarrow> char" where
  "lower_char c =
     (let n = (of_char c :: nat) in if 65 \<le> n \<and> n \<le> 90 then char_of (n + 32) else c)"

definition toLowerCase :: "string \<Rightarrow> string" where
  "toLowerCase s = map lower_char s"


subsection \<open>\<^verbatim>\<open>decodeURIComponent\<close>\<close>

text \<open>
  The ECMAScript built-in. A character other than \<^verbatim>\<open>%\<close> is copied. An escape
  \<^verbatim>\<open>%XX\<close> needs two hexadecimal digits. An octet below 128 is the character itself.
  Any other octet starts a UTF-8 sequence of \<open>n\<close> octets, \<open>n\<close> the number of its leading
  one bits: \<open>n\<close> must be 2, 3 or 4, the other \<open>n - 1\<close> octets must follow as escapes, and
  the octets must be the UTF-8 encoding of a code point; the decoded character is, in this
  model's representation of strings, those octets. Everything else throws
  \<^verbatim>\<open>URIError\<close>: the result \<^const>\<open>None\<close>.
\<close>

definition hexval :: "char \<Rightarrow> nat option" where
  "hexval c =
     (let n = (of_char c :: nat)
      in if 48 \<le> n \<and> n \<le> 57 then Some (n - 48)
         else if 65 \<le> n \<and> n \<le> 70 then Some (n - 55)
         else if 97 \<le> n \<and> n \<le> 102 then Some (n - 87)
         else None)"

fun take_escape :: "string \<Rightarrow> (nat \<times> string) option" where
  "take_escape (p # h1 # h2 # rest) =
     (if p = CHR ''%'' then
        (case hexval h1 of
           None \<Rightarrow> None
         | Some a \<Rightarrow> (case hexval h2 of None \<Rightarrow> None | Some b \<Rightarrow> Some (16 * a + b, rest)))
      else None)"
| "take_escape s = None"

fun take_escapes :: "nat \<Rightarrow> string \<Rightarrow> (nat list \<times> string) option" where
  "take_escapes 0 s = Some ([], s)"
| "take_escapes (Suc k) s =
     (case take_escape s of
        None \<Rightarrow> None
      | Some (b, rest) \<Rightarrow>
          (case take_escapes k rest of
             None \<Rightarrow> None
           | Some (bs, r) \<Rightarrow> Some (b # bs, r)))"

text \<open>The number of leading one bits of an octet; 5 stands for five or more.\<close>

definition leading_ones :: "nat \<Rightarrow> nat" where
  "leading_ones b =
     (if b < 128 then 0 else if b < 192 then 1 else if b < 224 then 2
      else if b < 240 then 3 else if b < 248 then 4 else 5)"

definition continuation :: "nat \<Rightarrow> bool" where
  "continuation b = (128 \<le> b \<and> b < 192)"

text \<open>
  The octets encode one code point in UTF-8: no overlong form, no surrogate, nothing
  above \<^verbatim>\<open>U+10FFFF\<close>.
\<close>

fun valid_utf8 :: "nat list \<Rightarrow> bool" where
  "valid_utf8 [a, b] = (194 \<le> a \<and> a \<le> 223 \<and> continuation b)"
| "valid_utf8 [a, b, c] =
     (224 \<le> a \<and> a \<le> 239 \<and> (if a = 224 then 160 else 128) \<le> b
      \<and> b \<le> (if a = 237 then 159 else 191) \<and> continuation c)"
| "valid_utf8 [a, b, c, d] =
     (240 \<le> a \<and> a \<le> 244 \<and> (if a = 240 then 144 else 128) \<le> b
      \<and> b \<le> (if a = 244 then 143 else 191) \<and> continuation c \<and> continuation d)"
| "valid_utf8 bs = False"

lemma take_escape_shorter:
  "take_escape s = Some (b, rest) \<Longrightarrow> length rest < length s"
  by (induction s rule: take_escape.induct) (auto split: if_splits option.splits)

lemma take_escapes_shorter:
  "take_escapes k s = Some (bs, rest) \<Longrightarrow> length rest \<le> length s"
proof (induction k arbitrary: s bs rest)
  case 0
  then show ?case by simp
next
  case (Suc k)
  from Suc.prems obtain b r bs' where e: "take_escape s = Some (b, r)"
    and t: "take_escapes k r = Some (bs', rest)"
    by (auto split: option.splits)
  from take_escape_shorter [OF e] Suc.IH [OF t] show ?case by simp
qed

function decodeURIComponent :: "string \<Rightarrow> string option" where
  "decodeURIComponent [] = Some []"
| "decodeURIComponent (c # cs) =
     (if c \<noteq> CHR ''%'' then map_option ((#) c) (decodeURIComponent cs)
      else
        (case take_escape (c # cs) of
           None \<Rightarrow> None
         | Some (b, rest) \<Rightarrow>
             let n = leading_ones b
             in if n = 0 then map_option ((#) (char_of b)) (decodeURIComponent rest)
                else if n = 1 \<or> n > 4 then None
                else
                  (case take_escapes (n - 1) rest of
                     None \<Rightarrow> None
                   | Some (more, rest') \<Rightarrow>
                       if valid_utf8 (b # more)
                       then map_option ((@) (map char_of (b # more))) (decodeURIComponent rest')
                       else None)))"
  by pat_completeness auto
termination
proof (relation "measure length", goal_cases)
  case 1
  then show ?case by simp
next
  case (2 c cs)
  then show ?case by simp
next
  case (3 c cs x b rest n)
  then show ?case using take_escape_shorter [of "c # cs" b rest] by simp
next
  case (4 c cs x b rest n y more rest')
  then show ?case
    using take_escape_shorter [of "c # cs" b rest]
      take_escapes_shorter [of "n - 1" rest more rest']
    by simp
qed

section \<open>The host, requests and responses\<close>

text \<open>
  What the process reads from its surroundings. \<open>dirname\<close> is \<^verbatim>\<open>__dirname\<close>;
  \<open>SCHEME\<close> and \<open>AUTHORITY\<close> are the constants of that name, set once from the command
  line and the environment. The file system is read through functions: each gives
  \<^const>\<open>None\<close> where the call of Node fails (the promise rejects).
  \<open>fs_readJSON p\<close> stands for \<^verbatim>\<open>JSON.parse((await readFile(p)).toString())\<close>.
\<close>

record stats =
  ino :: int
  fsize :: int
  mtime :: int

text \<open>
  What \<^verbatim>\<open>serveFile\<close> reads of a \<^verbatim>\<open>Stats\<close> object. \<open>ino\<close> and \<open>fsize\<close> are the
  inode number and the byte size as the file system reports them; \<^verbatim>\<open>stat.ino\<close> and
  \<^verbatim>\<open>stat.size\<close> are the Numbers made of them. \<open>mtime\<close> is the whole number of
  milliseconds that the Date \<^verbatim>\<open>stat.mtime\<close> is made of: Node rounds the file's
  modification time to it, so a change of the file's time within a millisecond is no
  change of \<open>mtime\<close>. What else a \<^verbatim>\<open>Stats\<close> object holds (the access time, the mode)
  is the record's extension.
\<close>

datatype json =
  JNull
| JBool bool
| JNum int
| JStr string
| JArr "json list"
| JObj "(string \<times> json) list"

record host =
  dirname :: string
  SCHEME :: string
  AUTHORITY :: string
  fs_stat :: "string \<Rightarrow> stats option"
  fs_readFile :: "string \<Rightarrow> string option"
  fs_exists :: "string \<Rightarrow> bool"
  fs_readdir :: "string \<Rightarrow> string list option"
  fs_readdirWithFileTypes :: "string \<Rightarrow> (string \<times> bool) list option"
  fs_readJSON :: "string \<Rightarrow> json option"

definition APP_ROOT :: "host \<Rightarrow> string" where
  "APP_ROOT h = path_join [dirname h, ''..'', ''..'']"

definition EXTENSIONS_ROOT :: "host \<Rightarrow> string" where
  "EXTENSIONS_ROOT h = path_join [APP_ROOT h, ''extensions'']"

definition WEB_MAIN :: "host \<Rightarrow> string" where
  "WEB_MAIN h =
     path_join [APP_ROOT h, ''src'', ''vs'', ''code'', ''browser'', ''workbench'',
       ''workbench-dev.html'']"

text \<open>
  A response is what \<^verbatim>\<open>res.writeHead\<close> and \<^verbatim>\<open>res.end\<close> were given. The body is a
  text, or the bytes of a file piped from \<^verbatim>\<open>fs.createReadStream\<close> (what the stream
  delivers, and that it fails for a directory, is outside the model). Every handler also
  returns the file system calls it made, in order.
\<close>

datatype body = Text string | FileStream string

record response =
  status :: nat
  headers :: "(string \<times> string) list"
  body :: body

datatype fs_call = Stat string | CreateReadStream string | ReadFile string

record request =
  req_url :: string
  req_headers :: "string \<rightharpoonup> string"

section \<open>The file server\<close>

definition serveError :: "nat \<Rightarrow> string \<Rightarrow> response" where
  "serveError errorCode errorMessage =
     \<lparr>status = errorCode, headers = [(''Content-Type'', ''text/plain'')],
      body = Text errorMessage\<rparr>"

definition textMimeType :: "(string \<times> string) list" where
  "textMimeType =
     [(''.html'', ''text/html''),
      (''.js'', ''text/javascript''),
      (''.json'', ''application/json''),
      (''.css'', ''text/css''),
      (''.svg'', ''image/svg+xml'')]"

definition mapExtToMediaMimes :: "(string \<times> string) list" where
  "mapExtToMediaMimes =
     [(''.bmp'', ''image/bmp''),
      (''.gif'', ''image/gif''),
      (''.ico'', ''image/x-icon''),
      (''.jpe'', ''image/jpg''),
      (''.jpeg'', ''image/jpg''),
      (''.jpg'', ''image/jpg''),
      (''.png'', ''image/png''),
      (''.tga'', ''image/x-tga''),
      (''.tif'', ''image/tiff''),
      (''.tiff'', ''image/tiff''),
      (''.woff'', ''application/font-woff'')]"

definition getMediaMime :: "string \<Rightarrow> string option" where
  "getMediaMime forPath = map_of mapExtToMediaMimes (toLowerCase (path_extname forPath))"

text \<open>
  The weak validator of \<^verbatim>\<open>serveFile\<close>:
  \<^verbatim>\<open>`W/"${[stat.ino, stat.size, stat.mtime.getTime()].join('-')}"`\<close>.
\<close>

definition etag_of :: "'a stats_scheme \<Rightarrow> string" where
  "etag_of stat =
     ''W/'' @ [CHR 0x22]
       @ join_with ''-''
           [Number_toString (ino stat), Number_toString (fsize stat),
            (case getTime (mtime stat) of None \<Rightarrow> ''NaN'' | Some t \<Rightarrow> Number_toString t)]
       @ [CHR 0x22]"

definition contentType :: "string \<Rightarrow> string" where
  "contentType filePath =
     (case map_of textMimeType (path_extname filePath) of
        Some t \<Rightarrow> t
      | None \<Rightarrow> (case getMediaMime filePath of Some t \<Rightarrow> t | None \<Rightarrow> ''text/plain''))"

text \<open>
  \<^verbatim>\<open>serveFile(req, res, filePath, responseHeaders)\<close>. The whole body stands in a
  \<^verbatim>\<open>try\<close>: a failing \<^verbatim>\<open>fs.stat\<close> is the 404 of the \<^verbatim>\<open>catch\<close>, so the promise
  always resolves. The result is the response and the file system calls.
\<close>

definition serveFile ::
  "host \<Rightarrow> request \<Rightarrow> string \<Rightarrow> (string \<times> string) list \<Rightarrow> response \<times> fs_call list" where
  "serveFile h req filePath0 responseHeaders =
     (let filePath = path_normalize filePath0
      in if \<not> prefix (APP_ROOT h @ ''/'') filePath then
           (serveError 400 ''Bad request.'', [])
         else
           (case fs_stat h filePath of
              None \<Rightarrow>
                (\<lparr>status = 404, headers = [(''Content-Type'', ''text/plain'')],
                  body = Text ''Not found''\<rparr>,
                 [Stat filePath])
            | Some stat \<Rightarrow>
                let etag = etag_of stat
                in if req_headers req ''if-none-match'' = Some etag then
                     (\<lparr>status = 304, headers = [], body = Text []\<rparr>, [Stat filePath])
                   else
                     (\<lparr>status = 200,
                       headers =
                         AList.update ''Etag'' etag
                           (AList.update ''Content-Type'' (contentType filePath)
                              responseHeaders),
                       body = FileStream filePath\<rparr>,
                      [Stat filePath, CreateReadStream filePath])))"

text \<open>
  The result of \<^verbatim>\<open>url.parse(req.url, true)\<close>, as far as the handlers read it. The
  \<open>query\<close> object lists its properties in the order \<^verbatim>\<open>for ... in\<close> enumerates them;
  a property holds one string, or an array of strings when the key occurs more than once
  in the URL.
\<close>

datatype qvalue = Single string | Multiple "string list"

record parsedUrl =
  pathname :: string
  query :: "(string \<times> qvalue) list"

text \<open>
  \<^verbatim>\<open>handleStatic\<close> and \<^verbatim>\<open>handleStaticExtension\<close> are not \<^verbatim>\<open>async\<close>: a
  \<^verbatim>\<open>URIError\<close> of \<^verbatim>\<open>decodeURIComponent\<close> is thrown to the caller, the result
  \<^const>\<open>None\<close>. \<^verbatim>\<open>'/static/'.length\<close> is 8 and \<^verbatim>\<open>'/static-extension/'.length\<close>
  is 18.
\<close>

definition handleStatic ::
  "host \<Rightarrow> request \<Rightarrow> parsedUrl \<Rightarrow> (response \<times> fs_call list) option" where
  "handleStatic h req parsed =
     (case decodeURIComponent (drop (length ''/static/'') (pathname parsed)) of
        None \<Rightarrow> None
      | Some decoded \<Rightarrow>
          let relativeFilePath = path_normalize decoded
          in Some (serveFile h req (path_join [APP_ROOT h, relativeFilePath]) []))"

definition handleStaticExtension ::
  "host \<Rightarrow> request \<Rightarrow> parsedUrl \<Rightarrow> (response \<times> fs_call list) option" where
  "handleStaticExtension h req parsed =
     (case decodeURIComponent (drop (length ''/static-extension/'') (pathname parsed)) of
        None \<Rightarrow> None
      | Some decoded \<Rightarrow>
          let relativeFilePath = path_normalize decoded;
              filePath = path_join [EXTENSIONS_ROOT h, relativeFilePath]
          in Some (serveFile h req filePath []))"

section \<open>The callback relay\<close>

subsection \<open>\<^verbatim>\<open>JSON.stringify\<close>\<close>

definition hex_digit :: "nat \<Rightarrow> char" where
  "hex_digit n = ''0123456789abcdef'' ! n"

text \<open>
  \<^verbatim>\<open>QuoteJSONString\<close> of ECMAScript: the quote, the backslash and the control
  characters are escaped.
\<close>

definition json_escape :: "char \<Rightarrow> string" where
  "json_escape c =
     (let n = (of_char c :: nat)
      in if n = 34 then [CHR 0x5C, CHR 0x22]
         else if n = 92 then [CHR 0x5C, CHR 0x5C]
         else if n = 8 then [CHR 0x5C, CHR ''b'']
         else if n = 12 then [CHR 0x5C, CHR ''f'']
         else if n = 10 then [CHR 0x5C, CHR ''n'']
         else if n = 13 then [CHR 0x5C, CHR ''r'']
         else if n = 9 then [CHR 0x5C, CHR ''t'']
         else if n < 32 then [CHR 0x5C, CHR ''u'', CHR ''0'', CHR ''0'', hex_digit (n div 16),
           hex_digit (n mod 16)]
         else [c])"

definition QuoteJSONString :: "string \<Rightarrow> string" where
  "QuoteJSONString s = CHR 0x22 # concat (map json_escape s) @ [CHR 0x22]"

fun JSON_stringify :: "json \<Rightarrow> string" where
  "JSON_stringify JNull = ''null''"
| "JSON_stringify (JBool b) = (if b then ''true'' else ''false'')"
| "JSON_stringify (JNum n) =
     (if 2 ^ 1024 \<le> round_to_double (nat \<bar>n\<bar>) then ''null'' else Number_toString n)"
| "JSON_stringify (JStr s) = QuoteJSONString s"
| "JSON_stringify (JArr xs) = ''['' @ join_with '','' (map JSON_stringify xs) @ '']''"
| "JSON_stringify (JObj ms) =
     ''{''
       @ join_with '',''
           (map (\<lambda>m. QuoteJSONString (fst m) @ '':'' @ JSON_stringify (snd m)) ms)
       @ ''}''"

text \<open>
  An object literal whose property values may be \<^verbatim>\<open>undefined\<close>:
  \<^verbatim>\<open>JSON.stringify\<close> leaves those properties out.
\<close>

definition object_literal :: "(string \<times> json option) list \<Rightarrow> json" where
  "object_literal ps =
     JObj (List.map_filter (\<lambda>p. map_option (Pair (fst p)) (snd p)) ps)"

subsection \<open>The query of a request\<close>

text \<open>
  \<^verbatim>\<open>url.parse(req.url, true)\<close> makes the query object with \<^verbatim>\<open>querystring.parse\<close>,
  which goes through the pairs of the query from left to right, at most 1000 of them,
  and gives the decoded key and value of each to \<^verbatim>\<open>addKeyValue\<close>: a new key becomes a
  property that holds the value, and a key that is a property already holds the array of
  its values from then on. The object is the list of its properties in the order of
  their creation.
\<close>

definition addKeyValue :: "(string \<times> qvalue) list \<Rightarrow> string \<times> string \<Rightarrow> (string \<times> qvalue) list" where
  "addKeyValue obj kv =
     (case map_of obj (fst kv) of
        None \<Rightarrow> obj @ [(fst kv, Single (snd kv))]
      | Some curValue \<Rightarrow>
          (case curValue of
             Single s \<Rightarrow> AList.update (fst kv) (Multiple [s, snd kv]) obj
           | Multiple ss \<Rightarrow> AList.update (fst kv) (Multiple (ss @ [snd kv])) obj))"

text \<open>
  An array index is a key that is the canonical decimal text of a number below
  \<^verbatim>\<open>2^32 - 1\<close>. \<^verbatim>\<open>for ... in\<close> enumerates the properties of an ordinary object whose
  key is an array index first, in ascending numeric order, and then the others in the
  order of their creation.
\<close>

definition decimal_digit :: "char \<Rightarrow> nat option" where
  "decimal_digit c =
     map_of
       [(CHR ''0'', 0), (CHR ''1'', 1), (CHR ''2'', 2), (CHR ''3'', 3), (CHR ''4'', 4),
        (CHR ''5'', 5), (CHR ''6'', 6), (CHR ''7'', 7), (CHR ''8'', 8), (CHR ''9'', 9)] c"

fun decimal_value :: "string \<Rightarrow> nat \<Rightarrow> nat option" where
  "decimal_value [] acc = Some acc"
| "decimal_value (c # cs) acc =
     (case decimal_digit c of
        None \<Rightarrow> None
      | Some d \<Rightarrow> decimal_value cs (10 * acc + d))"

definition array_index :: "string \<Rightarrow> nat option" where
  "array_index key =
     (if key = [] \<or> (hd key = CHR ''0'' \<and> tl key \<noteq> []) then None
      else
        (case decimal_value key 0 of
           None \<Rightarrow> None
         | Some n \<Rightarrow> if n < 4294967295 then Some n else None))"

definition own_properties :: "(string \<times> 'a) list \<Rightarrow> (string \<times> 'a) list" where
  "own_properties obj =
     sort_key (\<lambda>p. case array_index (fst p) of None \<Rightarrow> 0 | Some n \<Rightarrow> n)
       (filter (\<lambda>p. array_index (fst p) \<noteq> None) obj)
       @ filter (\<lambda>p. array_index (fst p) = None) obj"

text \<open>
  The query object of a URL whose query has the decoded pairs \<open>pairs\<close>, from left to
  right, as \<^verbatim>\<open>for ... in\<close> enumerates it.
\<close>

definition querystring_parse :: "(string \<times> string) list \<Rightarrow> (string \<times> qvalue) list" where
  "querystring_parse pairs = own_properties (foldl addKeyValue [] pairs)"

definition wellKnownKeys :: "string list" where
  "wellKnownKeys =
     [''vscode-requestId'', ''vscode-scheme'', ''vscode-authority'', ''vscode-path'',
      ''vscode-query'', ''vscode-fragment'']"

text \<open>\<^verbatim>\<open>Array.isArray(result) ? result[0] : result\<close>.\<close>

definition first_of :: "qvalue \<Rightarrow> string option" where
  "first_of result =
     (case result of
        Single s \<Rightarrow> Some s
      | Multiple ss \<Rightarrow> (case ss of [] \<Rightarrow> None | s # rest \<Rightarrow> Some s))"

definition getFirstQueryValue :: "parsedUrl \<Rightarrow> string \<Rightarrow> string option" where
  "getFirstQueryValue parsed key =
     (case map_of (query parsed) key of
        None \<Rightarrow> None
      | Some result \<Rightarrow> first_of result)"

text \<open>
  The result is a \<^verbatim>\<open>Map\<close>: an association list in insertion order, where setting a
  key that is present keeps its place.
\<close>

definition getFirstQueryValues ::
  "parsedUrl \<Rightarrow> string list option \<Rightarrow> (string \<times> string) list" where
  "getFirstQueryValues parsed ignoreKeys =
     foldl
       (\<lambda>queryValues key.
          if (case ignoreKeys of None \<Rightarrow> False | Some ks \<Rightarrow> key \<in> set ks) then queryValues
          else
            (case getFirstQueryValue parsed key of
               None \<Rightarrow> queryValues
             | Some v \<Rightarrow> AList.update key v queryValues))
       [] (map fst (query parsed))"

text \<open>Whether an optional string is truthy: defined and not empty.\<close>

definition truthy :: "string option \<Rightarrow> bool" where
  "truthy v = (case v of None \<Rightarrow> False | Some s \<Rightarrow> s \<noteq> [])"

text \<open>
  The function mapped over \<^verbatim>\<open>wellKnownKeys\<close> in \<^verbatim>\<open>handleCallback\<close>: a truthy value
  goes through \<^verbatim>\<open>decodeURIComponent\<close>, any other is returned as it is. The outer
  \<^const>\<open>None\<close> is the \<^verbatim>\<open>URIError\<close>.
\<close>

definition decodeQueryValue :: "parsedUrl \<Rightarrow> string \<Rightarrow> string option option" where
  "decodeQueryValue parsed key =
     (let v = getFirstQueryValue parsed key
      in case v of
           None \<Rightarrow> Some v
         | Some s \<Rightarrow> if s \<noteq> [] then map_option Some (decodeURIComponent s) else Some v)"

text \<open>
  \<^verbatim>\<open>wellKnownKeys.map(...)\<close>, the first statement of \<^verbatim>\<open>handleCallback\<close>: the six
  values in the order of the keys, or the \<^verbatim>\<open>URIError\<close> of the first that fails.
\<close>

definition decodeWellKnown :: "parsedUrl \<Rightarrow> string option list option" where
  "decodeWellKnown parsed = those (map (decodeQueryValue parsed) wellKnownKeys)"

text \<open>
  The \<^verbatim>\<open>forEach\<close> that merges the other query values into \<^verbatim>\<open>query\<close>: a falsy
  \<^verbatim>\<open>query\<close> becomes the empty string, then \<^verbatim>\<open>`${prefix}${key}=${value}`\<close> is
  appended, the prefix empty at index 0 and \<^verbatim>\<open>&\<close> afterwards.
\<close>

fun appendQueryValues :: "(string \<times> string) list \<Rightarrow> string option \<Rightarrow> nat \<Rightarrow> string option" where
  "appendQueryValues [] q index = q"
| "appendQueryValues (kv # rest) q index =
     (let q0 = (case q of None \<Rightarrow> [] | Some s \<Rightarrow> s);
          sep = (if index = 0 then [] else ''&'')
      in appendQueryValues rest (Some (q0 @ sep @ fst kv @ ''='' @ snd kv)) (index + 1))"

subsection \<open>\<^verbatim>\<open>handleCallback\<close> and \<^verbatim>\<open>handleFetchCallback\<close>\<close>

record descriptor =
  uri_scheme :: string
  uri_authority :: "string option"
  uri_path :: "string option"
  uri_query :: "string option"
  uri_fragment :: "string option"

text \<open>
  The object \<^verbatim>\<open>{ scheme, authority, path, query, fragment }\<close> that \<^verbatim>\<open>handleCallback\<close>
  gives to \<^verbatim>\<open>JSON.stringify\<close>.
\<close>

definition descriptor_json :: "descriptor \<Rightarrow> json" where
  "descriptor_json d =
     object_literal
       [(''scheme'', Some (JStr (uri_scheme d))),
        (''authority'', map_option JStr (uri_authority d)),
        (''path'', map_option JStr (uri_path d)),
        (''query'', map_option JStr (uri_query d)),
        (''fragment'', map_option JStr (uri_fragment d))]"

text \<open>
  The state of the relay is \<^verbatim>\<open>mapCallbackUriToRequestId\<close>, a map from request ids to
  serialized descriptors. Both handlers are \<^verbatim>\<open>async\<close>: an exception rejects the
  promise they return, which nothing handles, so no response is written; that is the
  result \<^const>\<open>None\<close>.
\<close>

type_synonym callbacks = "string \<rightharpoonup> string"

definition handleCallback ::
  "host \<Rightarrow> request \<Rightarrow> parsedUrl \<Rightarrow> callbacks \<Rightarrow> (response \<times> fs_call list) option \<times> callbacks" where
  "handleCallback h req parsed mapCallbackUriToRequestId =
     (case decodeWellKnown parsed of
        None \<Rightarrow> (None, mapCallbackUriToRequestId)
      | Some decoded \<Rightarrow>
          let requestId = decoded ! 0;
              vscodeScheme = decoded ! 1;
              vscodeAuthority = decoded ! 2;
              vscodePath = decoded ! 3;
              vscodeQuery = decoded ! 4;
              vscodeFragment = decoded ! 5
          in case requestId of
               None \<Rightarrow> (Some (serveError 400 ''Bad request.'', []), mapCallbackUriToRequestId)
             | Some rid \<Rightarrow>
                 if rid = [] then
                   (Some (serveError 400 ''Bad request.'', []), mapCallbackUriToRequestId)
                 else
                   let q = appendQueryValues
                             (getFirstQueryValues parsed (Some wellKnownKeys)) vscodeQuery 0;
                       d = \<lparr>uri_scheme =
                              (case vscodeScheme of
                                 None \<Rightarrow> ''code-oss''
                               | Some s \<Rightarrow> if s = [] then ''code-oss'' else s),
                            uri_authority = vscodeAuthority,
                            uri_path = vscodePath,
                            uri_query = q,
                            uri_fragment = vscodeFragment\<rparr>
                   in (Some
                         (serveFile h req
                            (path_join [APP_ROOT h, ''resources'', ''serverless'', ''callback.html''])
                            [(''Content-Type'', ''text/html'')]),
                       mapCallbackUriToRequestId(rid \<mapsto> JSON_stringify (descriptor_json d))))"

definition handleFetchCallback ::
  "parsedUrl \<Rightarrow> callbacks \<Rightarrow> response option \<times> callbacks" where
  "handleFetchCallback parsed mapCallbackUriToRequestId =
     (case getFirstQueryValue parsed ''vscode-requestId'' of
        None \<Rightarrow> (Some (serveError 400 ''Bad request.''), mapCallbackUriToRequestId)
      | Some requestId \<Rightarrow>
          if requestId = [] then
            (Some (serveError 400 ''Bad request.''), mapCallbackUriToRequestId)
          else
            let knownCallbackUri = mapCallbackUriToRequestId requestId
            in (Some
                  \<lparr>status = 200, headers = [(''Content-Type'', ''text/json'')],
                   body = Text (case knownCallbackUri of None \<Rightarrow> [] | Some s \<Rightarrow> s)\<rparr>,
                if truthy knownCallbackUri
                then mapCallbackUriToRequestId(requestId := None)
                else mapCallbackUriToRequestId))"

text \<open>
  For comparison with the loop of \<^verbatim>\<open>handleCallback\<close>, in the words of the
  specification: the query parameters outside the well-known set, in the order in which
  the query object is enumerated, each with its first value; and the pairs written
  \<^verbatim>\<open>key=value\<close> and joined with \<^verbatim>\<open>&\<close>.
\<close>

definition extra_pairs :: "parsedUrl \<Rightarrow> (string \<times> string) list" where
  "extra_pairs parsed =
     List.map_filter
       (\<lambda>p. if fst p \<in> set wellKnownKeys then None
            else map_option (Pair (fst p)) (first_of (snd p)))
       (query parsed)"

definition joined_pairs :: "(string \<times> string) list \<Rightarrow> string" where
  "joined_pairs kvs = join_with ''&'' (map (\<lambda>kv. fst kv @ ''='' @ snd kv) kvs)"

text \<open>
  The same in terms of the pairs of the URL: every key keeps its first pair
  (\<^const>\<open>AList.clearjunk\<close>), the pairs are put in the order of enumeration, and those
  with a well-known key are left out.
\<close>

definition extra_parameters :: "(string \<times> string) list \<Rightarrow> (string \<times> string) list" where
  "extra_parameters pairs =
     filter (\<lambda>p. fst p \<notin> set wellKnownKeys) (own_properties (AList.clearjunk pairs))"

text \<open>
  The text of a descriptor written out: the members that are defined, each
  \<^verbatim>\<open>"key":"value"\<close>, in the order scheme, authority, path, query, fragment, separated
  by commas and enclosed in braces.
\<close>

definition member_text :: "string \<Rightarrow> string option \<Rightarrow> string list" where
  "member_text key v =
     (case v of None \<Rightarrow> [] | Some s \<Rightarrow> [QuoteJSONString key @ '':'' @ QuoteJSONString s])"

definition descriptor_text :: "descriptor \<Rightarrow> string" where
  "descriptor_text d =
     ''{''
       @ join_with '',''
           (member_text ''scheme'' (Some (uri_scheme d))
            @ member_text ''authority'' (uri_authority d)
            @ member_text ''path'' (uri_path d)
            @ member_text ''query'' (uri_query d)
            @ member_text ''fragment'' (uri_fragment d))
       @ ''}''"

section \<open>Extension discovery\<close>

text \<open>
  A descriptor is the \<^typ>\<open>json\<close> value that \<^verbatim>\<open>JSON.parse\<close> returned; a number is
  the integer that the file holds, of which the Number is the nearest double (of a number
  only its being zero is looked at, and its text when \<^verbatim>\<open>JSON.stringify\<close> writes it
  back). Reading the property \<^verbatim>\<open>main\<close> or \<^verbatim>\<open>browser\<close>
  throws \<^verbatim>\<open>TypeError\<close> on \<^verbatim>\<open>null\<close> (the outer \<^const>\<open>None\<close>), and gives
  \<^verbatim>\<open>undefined\<close> (the inner \<^const>\<open>None\<close>) on an object without the property and on a
  boolean, a number, a string or an array, which have no property of either name.
\<close>

definition json_get :: "json \<Rightarrow> string \<Rightarrow> json option option" where
  "json_get j key =
     (case j of
        JNull \<Rightarrow> None
      | JObj ms \<Rightarrow> Some (map_of ms key)
      | _ \<Rightarrow> Some None)"

fun json_truthy :: "json option \<Rightarrow> bool" where
  "json_truthy None = False"
| "json_truthy (Some JNull) = False"
| "json_truthy (Some (JBool b)) = b"
| "json_truthy (Some (JNum n)) = (n \<noteq> 0)"
| "json_truthy (Some (JStr s)) = (s \<noteq> [])"
| "json_truthy (Some (JArr xs)) = True"
| "json_truthy (Some (JObj ms)) = True"

text \<open>
  An assignment to a property: on an object the property is set, in place when it exists
  and after the others when it is new. On an array it adds a property that
  \<^verbatim>\<open>JSON.stringify\<close> does not write, and on a boolean, a number or a string it does
  nothing (the script is not in strict mode): the value stays as it is.
\<close>

definition json_set :: "json \<Rightarrow> string \<Rightarrow> json \<Rightarrow> json" where
  "json_set j key v = (case j of JObj ms \<Rightarrow> JObj (AList.update key v ms) | _ \<Rightarrow> j)"

text \<open>
  An entry of the catalog: the object with the properties \<^verbatim>\<open>extensionPath\<close>,
  \<^verbatim>\<open>packageJSON\<close>, \<^verbatim>\<open>packageNLSPath\<close>, \<^verbatim>\<open>readmePath\<close> and
  \<^verbatim>\<open>changelogPath\<close>.
\<close>

record extension =
  ext_extensionPath :: string
  ext_packageJSON :: json
  ext_packageNLSPath :: "string option"
  ext_readmePath :: "string option"
  ext_changelogPath :: "string option"

text \<open>
  The tests \<^verbatim>\<open>/^readme(\.txt|\.md|)$/i\<close> and \<^verbatim>\<open>/^changelog(\.txt|\.md|)$/i\<close>; without
  the \<^verbatim>\<open>u\<close> flag only the ASCII letters match regardless of case.
\<close>

definition isReadme :: "string \<Rightarrow> bool" where
  "isReadme child = (toLowerCase child \<in> {''readme.txt'', ''readme.md'', ''readme''})"

definition isChangelog :: "string \<Rightarrow> bool" where
  "isChangelog child =
     (toLowerCase child \<in> {''changelog.txt'', ''changelog.md'', ''changelog''})"

text \<open>
  The body of the function mapped over the folders in \<^verbatim>\<open>initialize\<close>: the entry it
  pushes to \<^verbatim>\<open>builtinExtensions\<close>, or \<^const>\<open>None\<close> when it pushes nothing (the folder
  cannot be read, there is no \<^verbatim>\<open>package.json\<close>, the extension is unsupported, or the
  \<^verbatim>\<open>try\<close> block throws: reading or parsing the file, a property of \<^verbatim>\<open>null\<close>, or
  \<^verbatim>\<open>path.join\<close> with a \<^verbatim>\<open>browser\<close> that is not a string). The list
  \<^verbatim>\<open>unbuiltExensions\<close> feeds a console warning only and is not modelled.
\<close>

definition discoverExtension :: "host \<Rightarrow> string \<Rightarrow> extension option" where
  "discoverExtension h folderName =
     (let extensionPath = path_join [EXTENSIONS_ROOT h, folderName]
      in case fs_readdir h extensionPath of
           None \<Rightarrow> None
         | Some children \<Rightarrow>
             let readme = List.find isReadme children;
                 readmePath = map_option (\<lambda>r. path_join [extensionPath, r]) readme;
                 changelog = List.find isChangelog children;
                 changelogPath = map_option (\<lambda>c. path_join [extensionPath, c]) changelog;
                 packageJSONPath = path_join [EXTENSIONS_ROOT h, folderName, ''package.json'']
             in if \<not> fs_exists h packageJSONPath then None
                else
                  (case fs_readJSON h packageJSONPath of
                     None \<Rightarrow> None
                   | Some packageJSON \<Rightarrow>
                       (case json_get packageJSON ''main'' of
                          None \<Rightarrow> None
                        | Some main \<Rightarrow>
                            (case json_get packageJSON ''browser'' of
                               None \<Rightarrow> None
                             | Some browser \<Rightarrow>
                                 if json_truthy main \<and> \<not> json_truthy browser then None
                                 else if json_truthy browser
                                         \<and> (case browser of Some (JStr s) \<Rightarrow> False | _ \<Rightarrow> True)
                                 then None
                                 else
                                   let packageJSON1 =
                                         (case browser of
                                            Some b \<Rightarrow>
                                              if json_truthy browser
                                              then json_set packageJSON ''main'' b
                                              else packageJSON
                                          | None \<Rightarrow> packageJSON);
                                       packageJSON2 =
                                         json_set packageJSON1 ''extensionKind''
                                           (JArr [JStr ''web'']);
                                       packageNLSPath = path_join [folderName, ''package.nls.json''];
                                       packageNLSExists =
                                         fs_exists h (path_join [EXTENSIONS_ROOT h, packageNLSPath])
                                   in Some
                                        \<lparr>ext_extensionPath = folderName,
                                         ext_packageJSON = packageJSON2,
                                         ext_packageNLSPath =
                                           (if packageNLSExists then Some packageNLSPath else None),
                                         ext_readmePath = readmePath,
                                         ext_changelogPath = changelogPath\<rparr>))))"

text \<open>
  \<^verbatim>\<open>initialize\<close>. The folders are the entries that are not files. They are processed
  concurrently, so the order of the catalog is the order in which their reads complete;
  the model keeps the order of the listing, and the theorems speak of which extensions
  the catalog holds. A failing read of the extensions root rejects the promise:
  \<^const>\<open>None\<close>.
\<close>

definition initialize :: "host \<Rightarrow> extension list option" where
  "initialize h =
     (case fs_readdirWithFileTypes h (EXTENSIONS_ROOT h) of
        None \<Rightarrow> None
      | Some children \<Rightarrow>
          let folders = filter (\<lambda>c. \<not> snd c) children
          in Some (List.map_filter (\<lambda>folder. discoverExtension h (fst folder)) folders))"

section \<open>The document root\<close>

subsection \<open>\<^verbatim>\<open>URLSearchParams\<close>\<close>

text \<open>
  The decoder of \<^verbatim>\<open>application/x-www-form-urlencoded\<close>: the percent-decoding is
  lenient (a \<^verbatim>\<open>%\<close> that two hexadecimal digits do not follow stays), and the bytes
  are decoded as UTF-8 with \<^verbatim>\<open>U+FFFD\<close> in place of every ill-formed sequence. In this
  model's representation a string is its UTF-8 encoding, so the well-formed bytes stay
  and \<^verbatim>\<open>U+FFFD\<close> is the bytes \<^verbatim>\<open>EF BF BD\<close>.
\<close>

fun percent_decode :: "string \<Rightarrow> string" where
  "percent_decode (p # h1 # h2 # rest) =
     (case take_escape (p # h1 # h2 # rest) of
        Some (b, r) \<Rightarrow> char_of b # percent_decode rest
      | None \<Rightarrow> p # percent_decode (h1 # h2 # rest))"
| "percent_decode (c # cs) = c # percent_decode cs"
| "percent_decode [] = []"

definition replacement_character :: string where
  "replacement_character = [CHR 0xEF, CHR 0xBF, CHR 0xBD]"

text \<open>
  The state of the UTF-8 decoder: the bytes of the sequence seen so far, the number of
  bytes still needed, and the bounds for the next byte. \<open>utf8_first\<close> is the step from
  the state in which no byte is needed.
\<close>

type_synonym utf8_state = "string \<times> nat \<times> nat \<times> nat"

definition utf8_idle :: utf8_state where
  "utf8_idle = ([], 0, 128, 191)"

definition utf8_first :: "char \<Rightarrow> string \<times> utf8_state" where
  "utf8_first c =
     (let b = (of_char c :: nat)
      in if b < 128 then ([c], utf8_idle)
         else if 194 \<le> b \<and> b \<le> 223 then ([], ([c], 1, 128, 191))
         else if 224 \<le> b \<and> b \<le> 239 then
           ([], ([c], 2, if b = 224 then 160 else 128, if b = 237 then 159 else 191))
         else if 240 \<le> b \<and> b \<le> 244 then
           ([], ([c], 3, if b = 240 then 144 else 128, if b = 244 then 143 else 191))
         else (replacement_character, utf8_idle))"

fun utf8_decode :: "utf8_state \<Rightarrow> string \<Rightarrow> string" where
  "utf8_decode (seen, needed, lower, upper) [] =
     (if needed \<noteq> 0 then replacement_character else [])"
| "utf8_decode (seen, needed, lower, upper) (c # cs) =
     (if needed = 0 then
        (case utf8_first c of (out, st) \<Rightarrow> out @ utf8_decode st cs)
      else if lower \<le> of_char c \<and> of_char c \<le> upper then
        (if needed = 1 then seen @ [c] @ utf8_decode utf8_idle cs
         else utf8_decode (seen @ [c], needed - 1, 128, 191) cs)
      else
        (case utf8_first c of (out, st) \<Rightarrow> replacement_character @ out @ utf8_decode st cs))"

definition form_decode :: "string \<Rightarrow> string" where
  "form_decode s =
     utf8_decode utf8_idle
       (percent_decode (map (\<lambda>c. if c = CHR ''+'' then CHR '' '' else c) s))"

text \<open>
  \<^verbatim>\<open>new URLSearchParams(init)\<close> for a string: a leading \<^verbatim>\<open>?\<close> is dropped, the rest is
  split at \<^verbatim>\<open>&\<close>, empty pieces are skipped, and each piece is split at its first
  \<^verbatim>\<open>=\<close> into name and value. \<^verbatim>\<open>get\<close> is the value of the first pair with the
  name, or \<^verbatim>\<open>null\<close>: \<^const>\<open>map_of\<close>.
\<close>

definition URLSearchParams :: "string \<Rightarrow> (string \<times> string) list" where
  "URLSearchParams init =
     (let input = (case init of c # cs \<Rightarrow> if c = CHR ''?'' then cs else init | [] \<Rightarrow> init)
      in map
           (\<lambda>piece.
              (form_decode (takeWhile (\<lambda>c. c \<noteq> CHR ''='') piece),
               form_decode (drop 1 (dropWhile (\<lambda>c. c \<noteq> CHR ''='') piece))))
           (filter (\<lambda>piece. piece \<noteq> []) (split_at CHR ''&'' input)))"

subsection \<open>\<^verbatim>\<open>handleRoot\<close>\<close>

text \<open>
  \<^verbatim>\<open>req.url.match(/\?([^#]+)/)\<close>, its first group: what follows the first \<^verbatim>\<open>?\<close>
  that is followed by a character other than \<^verbatim>\<open>#\<close>, up to the next \<^verbatim>\<open>#\<close>.
\<close>

fun match_query :: "string \<Rightarrow> string option" where
  "match_query [] = None"
| "match_query (c # cs) =
     (if c = CHR ''?'' \<and> takeWhile (\<lambda>x. x \<noteq> CHR ''#'') cs \<noteq> []
      then Some (takeWhile (\<lambda>x. x \<noteq> CHR ''#'') cs)
      else match_query cs)"

definition ghPath_of :: "request \<Rightarrow> string option" where
  "ghPath_of req =
     (case match_query (req_url req) of
        None \<Rightarrow> None
      | Some m \<Rightarrow>
          (case map_of (URLSearchParams m) ''gh'' of
             None \<Rightarrow> None
           | Some gh \<Rightarrow> if gh \<noteq> [] \<and> \<not> prefix ''/'' gh then Some (CHR ''/'' # gh) else Some gh))"

text \<open>\<^verbatim>\<open>value.replace(/"/g, '&quot;')\<close>.\<close>

definition escapeAttribute :: "string \<Rightarrow> string" where
  "escapeAttribute s = concat (map (\<lambda>c. if c = CHR 0x22 then ''&quot;'' else [c]) s)"

text \<open>
  \<^verbatim>\<open>String.prototype.replace\<close> with a string pattern that is not empty: the first
  occurrence is replaced, by the text as it is (a replace function, or the empty string).
\<close>

fun replace_first :: "string \<Rightarrow> string \<Rightarrow> string \<Rightarrow> string" where
  "replace_first pat rep [] = []"
| "replace_first pat rep (c # cs) =
     (if prefix pat (c # cs) then rep @ drop (length pat) (c # cs)
      else c # replace_first pat rep cs)"

definition folderUri :: "string option \<Rightarrow> json" where
  "folderUri ghPath =
     (case ghPath of
        None \<Rightarrow> JObj [(''scheme'', JStr ''memfs''), (''path'', JStr ''/sample-folder'')]
      | Some p \<Rightarrow>
          if p = [] then JObj [(''scheme'', JStr ''memfs''), (''path'', JStr ''/sample-folder'')]
          else JObj [(''scheme'', JStr ''github''), (''authority'', JStr ''HEAD''),
                     (''path'', JStr p)])"

definition webConfig :: "host \<Rightarrow> string option \<Rightarrow> json" where
  "webConfig h ghPath =
     JObj [(''folderUri'', folderUri ghPath),
           (''builtinExtensionsServiceUrl'',
            JStr (SCHEME h @ ''://'' @ AUTHORITY h @ ''/static-extension''))]"

definition extension_json :: "extension \<Rightarrow> json" where
  "extension_json e =
     object_literal
       [(''extensionPath'', Some (JStr (ext_extensionPath e))),
        (''packageJSON'', Some (ext_packageJSON e)),
        (''packageNLSPath'', map_option JStr (ext_packageNLSPath e)),
        (''readmePath'', map_option JStr (ext_readmePath e)),
        (''changelogPath'', map_option JStr (ext_changelogPath e))]"

text \<open>The chain of \<^verbatim>\<open>replace\<close> calls on the template.\<close>

definition renderDocument :: "string \<Rightarrow> string \<Rightarrow> string \<Rightarrow> string" where
  "renderDocument template webConfigJSON builtinExtensionsJSON =
     replace_first ''{{REMOTE_USER_DATA_URI}}'' []
       (replace_first ''{{WEBVIEW_ENDPOINT}}'' []
          (replace_first ''{{WORKBENCH_BUILTIN_EXTENSIONS}}'' builtinExtensionsJSON
             (replace_first ''{{WORKBENCH_WEB_CONFIGURATION}}'' webConfigJSON template)))"

text \<open>
  \<^verbatim>\<open>handleRoot\<close> awaits \<^verbatim>\<open>builtinExtensionsPromise\<close>, the result of
  \<^const>\<open>initialize\<close>, and reads the template; when either fails the promise of the
  handler rejects and no response is written: \<^const>\<open>None\<close>.
\<close>

definition handleRoot ::
  "host \<Rightarrow> request \<Rightarrow> extension list option \<Rightarrow> (response \<times> fs_call list) option" where
  "handleRoot h req builtinExtensionsPromise =
     (let ghPath = ghPath_of req
      in case builtinExtensionsPromise of
           None \<Rightarrow> None
         | Some builtinExtensions \<Rightarrow>
             let webConfigJSON = escapeAttribute (JSON_stringify (webConfig h ghPath))
             in case fs_readFile h (WEB_MAIN h) of
                  None \<Rightarrow> None
                | Some template \<Rightarrow>
                    let data =
                          renderDocument template webConfigJSON
                            (escapeAttribute
                               (JSON_stringify (JArr (map extension_json builtinExtensions))))
                    in Some
                         (\<lparr>status = 200, headers = [(''Content-Type'', ''text/html'')],
                           body = Text data\<rparr>,
                          [ReadFile (WEB_MAIN h)]))"

section \<open>The request router\<close>

text \<open>
  The listener of \<^verbatim>\<open>http.createServer\<close>, for a request and its parsed URL. Its
  \<^verbatim>\<open>try\<close> block catches what a handler throws before it returns (the
  \<^verbatim>\<open>URIError\<close> of the two static handlers) and answers 500; a promise that rejects
  later is not caught, and the request stays without a response: \<^const>\<open>None\<close>.
\<close>

definition manifest :: json where
  "manifest =
     JObj [(''name'', JStr ''Code Web - OSS''),
           (''short_name'', JStr ''Code Web - OSS''),
           (''start_url'', JStr ''/''),
           (''lang'', JStr ''en-US''),
           (''display'', JStr ''standalone'')]"

definition requestListener ::
  "host \<Rightarrow> extension list option \<Rightarrow> request \<Rightarrow> parsedUrl \<Rightarrow> callbacks
     \<Rightarrow> (response \<times> fs_call list) option \<times> callbacks" where
  "requestListener h builtinExtensionsPromise req parsed mapCallbackUriToRequestId =
     (if pathname parsed = ''/favicon.ico'' then
        (Some (serveFile h req (path_join [APP_ROOT h, ''resources'', ''win32'', ''code.ico'']) []),
         mapCallbackUriToRequestId)
      else if pathname parsed = ''/manifest.json'' then
        (Some
           (\<lparr>status = 200, headers = [(''Content-Type'', ''application/json'')],
             body = Text (JSON_stringify manifest)\<rparr>, []),
         mapCallbackUriToRequestId)
      else if prefix ''/static/'' (pathname parsed) then
        (case handleStatic h req parsed of
           None \<Rightarrow> (Some (serveError 500 ''Internal Server Error.'', []), mapCallbackUriToRequestId)
         | Some r \<Rightarrow> (Some r, mapCallbackUriToRequestId))
      else if prefix ''/static-extension/'' (pathname parsed) then
        (case handleStaticExtension h req parsed of
           None \<Rightarrow> (Some (serveError 500 ''Internal Server Error.'', []), mapCallbackUriToRequestId)
         | Some r \<Rightarrow> (Some r, mapCallbackUriToRequestId))
      else if pathname parsed = ''/'' then
        (handleRoot h req builtinExtensionsPromise, mapCallbackUriToRequestId)
      else if pathname parsed = ''/callback'' then
        handleCallback h req parsed mapCallbackUriToRequestId
      else if pathname parsed = ''/fetch-callback'' then
        (case handleFetchCallback parsed mapCallbackUriToRequestId of
           (r, m) \<Rightarrow> (map_option (\<lambda>x. (x, [])) r, m))
      else (Some (serveError 404 ''Not found.'', []), mapCallbackUriToRequestId))"

section \<open>Example hosts\<close>

text \<open>
  A checkout at \<^verbatim>\<open>/app\<close>: the script is
  \<^verbatim>\<open>/app/resources/serverless/code-web.js\<close>, and the only file the example file
  system knows is \<^verbatim>\<open>/app/package.json\<close>.
\<close>

definition example_stats :: stats where
  "example_stats = \<lparr>ino = 7, fsize = 10, mtime = 1600000000000\<rparr>"

definition example_host :: host where
  "example_host =
     \<lparr>dirname = ''/app/resources/serverless'',
      SCHEME = ''http'',
      AUTHORITY = ''localhost:8080'',
      fs_stat = (\<lambda>p. if p = ''/app/package.json'' then Some example_stats else None),
      fs_readFile = (\<lambda>p. None),
      fs_exists = (\<lambda>p. False),
      fs_readdir = (\<lambda>p. None),
      fs_readdirWithFileTypes = (\<lambda>p. None),
      fs_readJSON = (\<lambda>p. None)\<rparr>"

definition plain_request :: request where
  "plain_request = \<lparr>req_url = ''/'', req_headers = Map.empty\<rparr>"

definition revalidating_request :: request where
  "revalidating_request =
     \<lparr>req_url = ''/static/package.json'',
      req_headers = [''if-none-match'' \<mapsto> ''W/'' @ [CHR 0x22] @ ''7-10-1600000000000'' @ [CHR 0x22]]\<rparr>"

text \<open>
  The parsed URL of
  \<^verbatim>\<open>/callback?b=1&vscode-requestId=r&vscode-query=k%253Dv&a=x&a=y\<close> and of
  \<^verbatim>\<open>/fetch-callback?vscode-requestId=r\<close>.
\<close>

definition example_registration :: parsedUrl where
  "example_registration =
     \<lparr>pathname = ''/callback'',
      query =
        [(''b'', Single ''1''),
         (''vscode-requestId'', Single ''r''),
         (''vscode-query'', Single ''k%3Dv''),
         (''a'', Multiple [''x'', ''y''])]\<rparr>"

definition example_retrieval :: parsedUrl where
  "example_retrieval =
     \<lparr>pathname = ''/fetch-callback'', query = [(''vscode-requestId'', Single ''r'')]\<rparr>"

text \<open>
  The decoded pairs of the query of
  \<^verbatim>\<open>/callback?b=1&vscode-requestId=r&vscode-query=k%253Dv&a=x\<close>, and the parsed URL.
\<close>

definition forwarding_pairs :: "(string \<times> string) list" where
  "forwarding_pairs =
     [(''b'', ''1''), (''vscode-requestId'', ''r''), (''vscode-query'', ''k%3Dv''),
      (''a'', ''x'')]"

definition forwarding_registration :: parsedUrl where
  "forwarding_registration =
     \<lparr>pathname = ''/callback'', query = querystring_parse forwarding_pairs\<rparr>"

text \<open>
  The decoded pairs of the queries of \<^verbatim>\<open>/callback?b=1&2=x&1=y&vscode-requestId=r\<close> and
  of \<^verbatim>\<open>/callback?a=x&vscode-requestId=r&a=y\<close>, and the parsed URLs.
\<close>

definition numbered_pairs :: "(string \<times> string) list" where
  "numbered_pairs = [(''b'', ''1''), (''2'', ''x''), (''1'', ''y''), (''vscode-requestId'', ''r'')]"

definition numbered_registration :: parsedUrl where
  "numbered_registration =
     \<lparr>pathname = ''/callback'', query = querystring_parse numbered_pairs\<rparr>"

definition repeated_pairs :: "(string \<times> string) list" where
  "repeated_pairs = [(''a'', ''x''), (''vscode-requestId'', ''r''), (''a'', ''y'')]"

definition repeated_registration :: parsedUrl where
  "repeated_registration =
     \<lparr>pathname = ''/callback'', query = querystring_parse repeated_pairs\<rparr>"

text \<open>
  The parsed URLs of \<^verbatim>\<open>/callback?vscode-requestId=a%2541\<close> and of
  \<^verbatim>\<open>/fetch-callback?vscode-requestId=a%2541\<close>: the same request id in both.
\<close>

definition escaped_id_registration :: parsedUrl where
  "escaped_id_registration =
     \<lparr>pathname = ''/callback'', query = [(''vscode-requestId'', Single ''a%41'')]\<rparr>"

definition escaped_id_retrieval :: parsedUrl where
  "escaped_id_retrieval =
     \<lparr>pathname = ''/fetch-callback'', query = [(''vscode-requestId'', Single ''a%41'')]\<rparr>"

text \<open>
  The parsed URLs of \<^verbatim>\<open>/callback?vscode-requestId=r&vscode-scheme=a%2541\<close> and of
  \<^verbatim>\<open>/callback?vscode-scheme=%25\<close>: \<^verbatim>\<open>url.parse\<close> has decoded the values once.
\<close>

definition escaped_scheme_registration :: parsedUrl where
  "escaped_scheme_registration =
     \<lparr>pathname = ''/callback'',
      query = [(''vscode-requestId'', Single ''r''), (''vscode-scheme'', Single ''a%41'')]\<rparr>"

definition malformed_scheme_callback :: parsedUrl where
  "malformed_scheme_callback =
     \<lparr>pathname = ''/callback'', query = [(''vscode-scheme'', Single ''%'')]\<rparr>"

definition malformed_id_callback :: parsedUrl where
  "malformed_id_callback =
     \<lparr>pathname = ''/callback'', query = [(''vscode-requestId'', Single ''100%'')]\<rparr>"

definition plain_scheme_registration :: parsedUrl where
  "plain_scheme_registration =
     \<lparr>pathname = ''/callback'',
      query = [(''vscode-requestId'', Single ''r''), (''vscode-scheme'', Single ''vscode'')]\<rparr>"

text \<open>
  An extensions directory with the file \<^verbatim>\<open>README.md\<close> and two folders:
  \<^verbatim>\<open>web-ext\<close>, whose descriptor declares \<^verbatim>\<open>main\<close> and \<^verbatim>\<open>browser\<close>, and
  \<^verbatim>\<open>native-ext\<close>, whose descriptor declares \<^verbatim>\<open>main\<close> only.
\<close>

definition web_descriptor :: json where
  "web_descriptor =
     JObj [(''name'', JStr ''web-ext''), (''main'', JStr ''./out/main''),
           (''browser'', JStr ''./dist/browser/main'')]"

definition native_descriptor :: json where
  "native_descriptor = JObj [(''name'', JStr ''native-ext''), (''main'', JStr ''./out/main'')]"

definition extensions_host :: host where
  "extensions_host =
     \<lparr>dirname = ''/app/resources/serverless'',
      SCHEME = ''http'',
      AUTHORITY = ''localhost:8080'',
      fs_stat = (\<lambda>p. None),
      fs_readFile = (\<lambda>p. None),
      fs_exists =
        (\<lambda>p. p = ''/app/extensions/web-ext/package.json''
           \<or> p = ''/app/extensions/native-ext/package.json''),
      fs_readdir =
        (\<lambda>p. if p = ''/app/extensions/web-ext'' then Some [''package.json'', ''README.md'']
             else if p = ''/app/extensions/native-ext'' then Some [''package.json'']
             else None),
      fs_readdirWithFileTypes =
        (\<lambda>p. if p = ''/app/extensions''
             then Some [(''README.md'', True), (''web-ext'', False), (''native-ext'', False)]
             else None),
      fs_readJSON =
        (\<lambda>p. if p = ''/app/extensions/web-ext/package.json'' then Some web_descriptor
             else if p = ''/app/extensions/native-ext/package.json'' then Some native_descriptor
             else None)\<rparr>"

text \<open>
  An extensions directory with two folders: \<^verbatim>\<open>flag-ext\<close>, whose descriptor is
  \<^verbatim>\<open>{"name": "flag-ext", "browser": true}\<close>, and \<^verbatim>\<open>native-ext\<close> as above.
\<close>

definition flag_descriptor :: json where
  "flag_descriptor = JObj [(''name'', JStr ''flag-ext''), (''browser'', JBool True)]"

definition flag_host :: host where
  "flag_host =
     \<lparr>dirname = ''/app/resources/serverless'',
      SCHEME = ''http'',
      AUTHORITY = ''localhost:8080'',
      fs_stat = (\<lambda>p. None),
      fs_readFile = (\<lambda>p. None),
      fs_exists =
        (\<lambda>p. p = ''/app/extensions/flag-ext/package.json''
           \<or> p = ''/app/extensions/native-ext/package.json''),
      fs_readdir =
        (\<lambda>p. if p = ''/app/extensions/flag-ext'' then Some [''package.json'']
             else if p = ''/app/extensions/native-ext'' then Some [''package.json'']
             else None),
      fs_readdirWithFileTypes =
        (\<lambda>p. if p = ''/app/extensions''
             then Some [(''flag-ext'', False), (''native-ext'', False)]
             else None),
      fs_readJSON =
        (\<lambda>p. if p = ''/app/extensions/flag-ext/package.json'' then Some flag_descriptor
             else if p = ''/app/extensions/native-ext/package.json'' then Some native_descriptor
             else None)\<rparr>"

text \<open>A template with the four placeholders, and requests for the document root.\<close>

definition example_template :: string where
  "example_template =
     ''<meta data-settings=[{{WORKBENCH_WEB_CONFIGURATION}}]>''
       @ ''<meta data-extensions=[{{WORKBENCH_BUILTIN_EXTENSIONS}}]>''
       @ ''<a href=[{{WEBVIEW_ENDPOINT}}][{{REMOTE_USER_DATA_URI}}]>''"

definition template_host :: host where
  "template_host =
     \<lparr>dirname = ''/app/resources/serverless'',
      SCHEME = ''http'',
      AUTHORITY = ''localhost:8080'',
      fs_stat = (\<lambda>p. None),
      fs_readFile =
        (\<lambda>p. if p = ''/app/src/vs/code/browser/workbench/workbench-dev.html''
             then Some example_template else None),
      fs_exists = (\<lambda>p. False),
      fs_readdir = (\<lambda>p. None),
      fs_readdirWithFileTypes = (\<lambda>p. None),
      fs_readJSON = (\<lambda>p. None)\<rparr>"

definition gh_request :: request where
  "gh_request = \<lparr>req_url = ''/?gh=owner/repo/path'', req_headers = Map.empty\<rparr>"

section \<open>Evaluation on concrete inputs\<close>

lemma char_of_nat_bits:
  "char_of (n::nat) =
     Char (odd n) (odd (n div 2)) (odd (n div 4)) (odd (n div 8))
       (odd (n div 16)) (odd (n div 32)) (odd (n div 64)) (odd (n div 128))"
  by (simp add: char_of_def bit_iff_odd)

lemma take_escapes_numeral [simp]:
  "take_escapes (numeral k) s =
     (case take_escape s of
        None \<Rightarrow> None
      | Some (b, rest) \<Rightarrow>
          (case take_escapes (pred_numeral k) rest of
             None \<Rightarrow> None
           | Some (bs, r) \<Rightarrow> Some (b # bs, r)))"
  by (simp add: numeral_eq_Suc)

section \<open>Properties of the file server\<close>

lemmas path_eval =
  APP_ROOT_def EXTENSIONS_ROOT_def path_join_def path_normalize_def normalizeString_def
  normalize_step_def

lemma APP_ROOT_example [simp]: "APP_ROOT example_host = ''/app''"
  by (simp add: path_eval example_host_def)

lemma EXTENSIONS_ROOT_example [simp]: "EXTENSIONS_ROOT example_host = ''/app/extensions''"
  by (simp add: EXTENSIONS_ROOT_def path_join_def path_normalize_def normalizeString_def
      normalize_step_def)

lemma serveFile_outside_root:
  assumes "\<not> prefix (APP_ROOT h @ ''/'') (path_normalize filePath)"
  shows "serveFile h req filePath responseHeaders = (serveError 400 ''Bad request.'', [])"
  using assms by (simp add: serveFile_def)

lemma serveFile_inside_root:
  assumes "prefix (APP_ROOT h @ ''/'') (path_normalize filePath)"
  shows "serveFile h req filePath responseHeaders =
     (case fs_stat h (path_normalize filePath) of
        None \<Rightarrow>
          (\<lparr>status = 404, headers = [(''Content-Type'', ''text/plain'')],
            body = Text ''Not found''\<rparr>,
           [Stat (path_normalize filePath)])
      | Some stat \<Rightarrow>
          if req_headers req ''if-none-match'' = Some (etag_of stat) then
            (\<lparr>status = 304, headers = [], body = Text []\<rparr>, [Stat (path_normalize filePath)])
          else
            (\<lparr>status = 200,
              headers =
                AList.update ''Etag'' (etag_of stat)
                  (AList.update ''Content-Type'' (contentType (path_normalize filePath))
                     responseHeaders),
              body = FileStream (path_normalize filePath)\<rparr>,
             [Stat (path_normalize filePath), CreateReadStream (path_normalize filePath)]))"
  using assms by (simp add: serveFile_def Let_def split: option.splits)

text \<open>
  C1. A request under \<^verbatim>\<open>/static/\<close> for the path \<open>p\<close> (the decoded rest of the
  pathname) whose file path, joined to the application root and normalized as
  \<^verbatim>\<open>handleStatic\<close> and \<^verbatim>\<open>serveFile\<close> do, does not start with the application root
  followed by the separator is answered with status 400 and the text
  \<^verbatim>\<open>Bad request.\<close>, and no call of the file system is made: neither a stat nor a read.
\<close>

theorem static_outside_root_rejected:
  assumes "decodeURIComponent (drop (length ''/static/'') (pathname parsed)) = Some p"
    and "\<not> prefix (APP_ROOT h @ ''/'') (path_normalize (path_join [APP_ROOT h, path_normalize p]))"
  shows "handleStatic h req parsed = Some (serveError 400 ''Bad request.'', [])"
  using assms by (simp add: handleStatic_def serveFile_outside_root)

theorem static_outside_root_rejected_witness:
  "decodeURIComponent
     (drop (length ''/static/'') (pathname \<lparr>pathname = ''/static/../etc/passwd'', query = []\<rparr>))
     = Some ''../etc/passwd''
   \<and> \<not> prefix (APP_ROOT example_host @ ''/'')
         (path_normalize (path_join [APP_ROOT example_host, path_normalize ''../etc/passwd'']))
   \<and> handleStatic example_host plain_request
         \<lparr>pathname = ''/static/../etc/passwd'', query = []\<rparr>
       = Some (serveError 400 ''Bad request.'', [])"
proof -
  have d: "decodeURIComponent
      (drop (length ''/static/'') (pathname \<lparr>pathname = ''/static/../etc/passwd'', query = []\<rparr>))
      = Some ''../etc/passwd''"
    by simp
  have n: "\<not> prefix (APP_ROOT example_host @ ''/'')
      (path_normalize (path_join [APP_ROOT example_host, path_normalize ''../etc/passwd'']))"
    by (simp add: path_join_def path_normalize_def normalizeString_def normalize_step_def)
  from d n static_outside_root_rejected [OF d n, of plain_request] show ?thesis
    by blast
qed

subsection \<open>The validation token\<close>

lemma digit_char_inj:
  assumes "a < 10" and "b < 10" and "digit_char a = digit_char b"
  shows "a = b"
proof -
  from assms(3) have "(48 + a) mod 256 = (48 + b) mod 256"
    by (simp add: digit_char_def char_of_eq_iff take_bit_eq_mod)
  with assms(1,2) show ?thesis by simp
qed

lemma digit_char_not_minus:
  assumes "a < 10"
  shows "digit_char a \<noteq> CHR ''-''"
proof
  assume "digit_char a = CHR ''-''"
  then have "of_char (digit_char a) = (of_char CHR ''-'' :: nat)" by simp
  then have "(48 + a) mod 256 = 45" by (simp add: digit_char_def)
  with assms show False by simp
qed

lemma string_of_nat_not_Nil: "string_of_nat n \<noteq> []"
  by (subst string_of_nat.simps) simp

lemma hd_string_of_nat: "\<exists>d<10. hd (string_of_nat n) = digit_char d"
proof (induction n rule: string_of_nat.induct)
  case (1 n)
  show ?case
  proof (cases "n < 10")
    case True
    then show ?thesis by (subst string_of_nat.simps) auto
  next
    case False
    with "1" obtain d where "d < 10" and "hd (string_of_nat (n div 10)) = digit_char d"
      by auto
    with False show ?thesis
      by (subst string_of_nat.simps) (auto simp: string_of_nat_not_Nil)
  qed
qed

lemma string_of_nat_inj: "string_of_nat m = string_of_nat n \<Longrightarrow> m = n"
proof (induction m arbitrary: n rule: string_of_nat.induct)
  case (1 m)
  show ?case
  proof (cases "m < 10")
    case m: True
    show ?thesis
    proof (cases "n < 10")
      case True
      with m "1.prems" show ?thesis
        by (simp add: string_of_nat.simps [of m] string_of_nat.simps [of n] digit_char_inj)
    next
      case False
      with m "1.prems" show ?thesis
        by (simp add: string_of_nat.simps [of m] string_of_nat.simps [of n]
            string_of_nat_not_Nil Cons_eq_append_conv)
    qed
  next
    case m: False
    show ?thesis
    proof (cases "n < 10")
      case True
      with m "1.prems" show ?thesis
        by (simp add: string_of_nat.simps [of m] string_of_nat.simps [of n]
            string_of_nat_not_Nil append_eq_Cons_conv)
    next
      case False
      with m "1.prems" have s: "string_of_nat (m div 10) = string_of_nat (n div 10)"
        and d: "digit_char (m mod 10) = digit_char (n mod 10)"
        by (simp_all add: string_of_nat.simps [of m] string_of_nat.simps [of n])
      from "1.IH" [OF m s] have q: "m div 10 = n div 10" .
      from d have r: "m mod 10 = n mod 10" by (simp add: digit_char_inj)
      from q r show ?thesis by (metis div_mult_mod_eq)
    qed
  qed
qed

lemma string_of_nat_digits:
  "c \<in> set (string_of_nat n) \<Longrightarrow> \<exists>d<10. c = digit_char d"
proof (induction n rule: string_of_nat.induct)
  case (1 n)
  show ?case
  proof (cases "n < 10")
    case True
    with "1.prems" show ?thesis by (subst (asm) string_of_nat.simps) auto
  next
    case False
    from "1.prems" have "c \<in> set (string_of_nat (n div 10)) \<or> c = digit_char (n mod 10)"
      by (subst (asm) string_of_nat.simps) (auto simp: False)
    then show ?thesis
    proof
      assume "c \<in> set (string_of_nat (n div 10))"
      with "1.IH" False show ?thesis by simp
    next
      assume "c = digit_char (n mod 10)"
      moreover have "n mod 10 < 10" by simp
      ultimately show ?thesis by blast
    qed
  qed
qed

lemma string_of_nat_no_minus: "CHR ''-'' \<notin> set (string_of_nat n)"
proof
  assume "CHR ''-'' \<in> set (string_of_nat n)"
  then obtain d where "d < 10" and "CHR ''-'' = digit_char d"
    using string_of_nat_digits by blast
  with digit_char_not_minus [of d] show False by simp
qed

lemma digit_char_not_N:
  assumes "a < 10"
  shows "digit_char a \<noteq> CHR ''N''"
proof
  assume "digit_char a = CHR ''N''"
  then have "of_char (digit_char a) = (of_char CHR ''N'' :: nat)" by simp
  then have "(48 + a) mod 256 = 78" by (simp add: digit_char_def)
  with assms show False by simp
qed

text \<open>Up to \<^verbatim>\<open>2^53\<close> a number is a double, and its text is its decimal digits.\<close>

lemma bit_length_le: "n < 2 ^ k \<Longrightarrow> bit_length n \<le> k"
proof (induction k arbitrary: n)
  case 0
  then show ?case by (simp add: bit_length.simps)
next
  case (Suc k)
  show ?case
  proof (cases "n = 0")
    case True
    then show ?thesis by (simp add: bit_length.simps)
  next
    case False
    from Suc.prems have "n div 2 < 2 ^ k" by simp
    then have "bit_length (n div 2) \<le> k" by (rule Suc.IH)
    with False show ?thesis by (subst bit_length.simps) simp
  qed
qed

lemma round_to_double_safe: "n < 9007199254740992 \<Longrightarrow> round_to_double n = n"
proof -
  assume "n < 9007199254740992"
  then have "n < 2 ^ 53" by simp
  then have "bit_length n \<le> 53" by (rule bit_length_le)
  then show ?thesis by (simp add: round_to_double_def)
qed

lemma nat_toString_safe: "n < 9007199254740992 \<Longrightarrow> nat_toString n = string_of_nat n"
proof -
  assume n: "n < 9007199254740992"
  have "(2 :: nat) ^ 53 \<le> 2 ^ 1024" by (rule power_increasing) simp_all
  with n have "\<not> 2 ^ 1024 \<le> n" by simp
  moreover from n have "n < 2 ^ 53" by simp
  ultimately show ?thesis
    unfolding nat_toString_def round_to_double_safe [OF n] Let_def by (simp only: if_False if_True)
qed

lemma Number_toString_safe:
  "\<bar>i\<bar> < 9007199254740992 \<Longrightarrow>
   Number_toString i =
     (if i < 0 then CHR ''-'' # string_of_nat (nat (- i)) else string_of_nat (nat i))"
  by (simp add: Number_toString_def nat_toString_safe)

lemma Number_toString_safe_inj:
  assumes i: "\<bar>i\<bar> < 9007199254740992" and j: "\<bar>j\<bar> < 9007199254740992"
    and e: "Number_toString i = Number_toString j"
  shows "i = j"
proof -
  have no_minus: "string_of_nat k \<noteq> CHR ''-'' # s" for k s
    using string_of_nat_no_minus [of k] by (auto simp del: set_ConsD)
  note e' = e [unfolded Number_toString_safe [OF i] Number_toString_safe [OF j]]
  show ?thesis
  proof (cases "i < 0")
    case i: True
    show ?thesis
    proof (cases "j < 0")
      case True
      with i e' have "string_of_nat (nat (- i)) = string_of_nat (nat (- j))" by simp
      then have "nat (- i) = nat (- j)" by (rule string_of_nat_inj)
      with i True show ?thesis by simp
    next
      case False
      with i e' no_minus [of "nat j" "string_of_nat (nat (- i))"] show ?thesis by simp
    qed
  next
    case i: False
    show ?thesis
    proof (cases "j < 0")
      case True
      with i e' no_minus [of "nat i" "string_of_nat (nat (- j))"] show ?thesis by simp
    next
      case False
      with i e' have "string_of_nat (nat i) = string_of_nat (nat j)" by simp
      then have "nat i = nat j" by (rule string_of_nat_inj)
      with i False show ?thesis by simp
    qed
  qed
qed

lemma Number_toString_safe_not_NaN:
  assumes "\<bar>i\<bar> < 9007199254740992"
  shows "Number_toString i \<noteq> ''NaN''"
proof
  assume "Number_toString i = ''NaN''"
  then have e: "(if i < 0 then CHR ''-'' # string_of_nat (nat (- i)) else string_of_nat (nat i))
      = ''NaN''"
    by (simp only: Number_toString_safe [OF assms])
  show False
  proof (cases "i < 0")
    case True
    with e show False by simp
  next
    case False
    with e have "hd (string_of_nat (nat i)) = CHR ''N''" by simp
    with hd_string_of_nat [of "nat i"] obtain d where "d < 10" and "digit_char d = CHR ''N''"
      by auto
    with digit_char_not_N [of d] show False by simp
  qed
qed

text \<open>
  The third component of the token: the text of \<^verbatim>\<open>stat.mtime.getTime()\<close>. Two of them are
  the same text only for the same time value.
\<close>

lemma getTime_text_inj:
  "((case getTime s of None \<Rightarrow> ''NaN'' | Some t \<Rightarrow> Number_toString t)
      = (case getTime s' of None \<Rightarrow> ''NaN'' | Some t \<Rightarrow> Number_toString t))
   = (getTime s = getTime s')"
proof -
  have r: "\<bar>t\<bar> < 9007199254740992" if "getTime u = Some t" for u t
    using that by (simp add: getTime_def split: if_splits)
  show ?thesis
  proof (cases "getTime s")
    case None
    then show ?thesis
      using Number_toString_safe_not_NaN [OF r] by (cases "getTime s'") (auto dest: sym)
  next
    case s: (Some t)
    show ?thesis
    proof (cases "getTime s'")
      case None
      with s show ?thesis using Number_toString_safe_not_NaN [OF r [OF s]] by auto
    next
      case (Some t')
      with s show ?thesis
        using Number_toString_safe_inj [OF r [OF s] r [OF Some]] by auto
    qed
  qed
qed

lemma append_sep_inj:
  assumes "c \<notin> set x" and "c \<notin> set x'" and "x @ c # y = x' @ c # y'"
  shows "x = x' \<and> y = y'"
  using assms
proof (induction x arbitrary: x')
  case Nil
  then show ?case by (cases x') auto
next
  case (Cons a x)
  then show ?case by (cases x') auto
qed

lemma etag_of_safe_eq:
  fixes a :: "'a stats_scheme" and b :: "'b stats_scheme"
  assumes a: "0 \<le> ino a" "ino a < 9007199254740992" "0 \<le> fsize a" "fsize a < 9007199254740992"
    and b: "0 \<le> ino b" "ino b < 9007199254740992" "0 \<le> fsize b" "fsize b < 9007199254740992"
  shows "(etag_of a = etag_of b)
     = (ino a = ino b \<and> fsize a = fsize b \<and> getTime (mtime a) = getTime (mtime b))"
proof -
  let ?t = "\<lambda>s. case getTime s of None \<Rightarrow> ''NaN'' | Some t \<Rightarrow> Number_toString t"
  have n: "Number_toString i = string_of_nat (nat i)" if "0 \<le> i" "i < 9007199254740992" for i
    using that by (simp add: Number_toString_safe)
  have k: "(x @ CHR ''-'' # y = x' @ CHR ''-'' # y') = (x = x' \<and> y = y')"
    if "CHR ''-'' \<notin> set x" "CHR ''-'' \<notin> set x'" for x x' y y' :: string
    using append_sep_inj [OF that] by blast
  have ea: "etag_of a = ''W/'' @ [CHR 0x22]
      @ (string_of_nat (nat (ino a)) @ CHR ''-'' # string_of_nat (nat (fsize a))
           @ CHR ''-'' # ?t (mtime a)) @ [CHR 0x22]"
    by (simp add: etag_of_def n [OF a(1,2)] n [OF a(3,4)])
  have eb: "etag_of b = ''W/'' @ [CHR 0x22]
      @ (string_of_nat (nat (ino b)) @ CHR ''-'' # string_of_nat (nat (fsize b))
           @ CHR ''-'' # ?t (mtime b)) @ [CHR 0x22]"
    by (simp add: etag_of_def n [OF b(1,2)] n [OF b(3,4)])
  have "(etag_of a = etag_of b)
      = (string_of_nat (nat (ino a)) @ CHR ''-'' # string_of_nat (nat (fsize a))
           @ CHR ''-'' # ?t (mtime a)
         = string_of_nat (nat (ino b)) @ CHR ''-'' # string_of_nat (nat (fsize b))
           @ CHR ''-'' # ?t (mtime b))"
    unfolding ea eb by simp
  also have "\<dots> = (string_of_nat (nat (ino a)) = string_of_nat (nat (ino b))
      \<and> string_of_nat (nat (fsize a)) = string_of_nat (nat (fsize b))
      \<and> ?t (mtime a) = ?t (mtime b))"
    by (simp only: k [OF string_of_nat_no_minus string_of_nat_no_minus])
  also have "\<dots> = (nat (ino a) = nat (ino b) \<and> nat (fsize a) = nat (fsize b)
      \<and> getTime (mtime a) = getTime (mtime b))"
    using string_of_nat_inj [of "nat (ino a)" "nat (ino b)"]
      string_of_nat_inj [of "nat (fsize a)" "nat (fsize b)"]
    by (auto simp only: getTime_text_inj)
  also have "\<dots> = (ino a = ino b \<and> fsize a = fsize b \<and> getTime (mtime a) = getTime (mtime b))"
    using a b by auto
  finally show ?thesis .
qed

lemma Number_toString_example:
  "Number_toString 7 = ''7''"
  "Number_toString 10 = ''10''"
  "Number_toString 1600000000000 = ''1600000000000''"
  "Number_toString 1600000000001 = ''1600000000001''"
  by (simp_all add: Number_toString_safe string_of_nat.simps digit_char_def char_of_nat_bits)

text \<open>
  Beyond \<^verbatim>\<open>2^53\<close> the text is that of the nearest double: a size of \<^verbatim>\<open>2^57\<close> bytes is
  written \<^verbatim>\<open>144115188075855870\<close>, and \<^verbatim>\<open>2^53 + 1\<close> as \<^verbatim>\<open>2^53\<close>.
\<close>

lemma Number_toString_beyond_safe:
  "Number_toString 144115188075855872 = ''144115188075855870''"
  "Number_toString 9007199254740993 = ''9007199254740992''"
  by (simp_all add: Number_toString_def nat_toString_def round_to_double_def rounds_to_def
      digits_text_def bit_length.simps shortest_from.simps string_of_nat.simps digit_char_def
      char_of_nat_bits Let_def)

lemma getTime_example [simp]:
  "getTime 1600000000000 = Some 1600000000000"
  "getTime 1600000000001 = Some 1600000000001"
  "getTime 9999999999999000 = None"
  "getTime 9999999999998000 = None"
  by (simp_all add: getTime_def)

lemma etag_of_example [simp]:
  "etag_of example_stats = ''W/'' @ [CHR 0x22] @ ''7-10-1600000000000'' @ [CHR 0x22]"
  by (simp add: etag_of_def example_stats_def Number_toString_example)

text \<open>
  C3. The token is a function of the inode number, the byte size and the time value
  \<^verbatim>\<open>stat.mtime.getTime()\<close> of the file alone, whatever else the stat holds. For the same
  inode and size, two tokens are equal exactly when the two time values are (two invalid
  dates count as the same time value); and when the inode numbers and sizes are
  non-negative and below \<^verbatim>\<open>2^53\<close>, two tokens are equal exactly when inode, size and time
  value all are. It is the token \<^verbatim>\<open>serveFile\<close> sends in the \<^verbatim>\<open>Etag\<close> header of a 200
  response.
\<close>

theorem etag_of_inode_size_getTime:
  fixes a :: "'a stats_scheme" and b :: "'b stats_scheme"
  shows "(ino a = ino b \<and> fsize a = fsize b
          \<longrightarrow> (etag_of a = etag_of b) = (getTime (mtime a) = getTime (mtime b)))
     \<and> (0 \<le> ino a \<and> ino a < 9007199254740992 \<and> 0 \<le> fsize a \<and> fsize a < 9007199254740992
          \<and> 0 \<le> ino b \<and> ino b < 9007199254740992 \<and> 0 \<le> fsize b \<and> fsize b < 9007199254740992
          \<longrightarrow> (etag_of a = etag_of b)
              = (ino a = ino b \<and> fsize a = fsize b \<and> getTime (mtime a) = getTime (mtime b)))
     \<and> (prefix (APP_ROOT h @ ''/'') (path_normalize filePath)
          \<and> fs_stat h (path_normalize filePath) = Some stat
          \<and> req_headers req ''if-none-match'' \<noteq> Some (etag_of stat)
        \<longrightarrow> map_of (headers (fst (serveFile h req filePath responseHeaders))) ''Etag''
            = Some (etag_of stat))"
proof (intro conjI impI)
  assume "ino a = ino b \<and> fsize a = fsize b"
  then show "(etag_of a = etag_of b) = (getTime (mtime a) = getTime (mtime b))"
    by (simp add: etag_of_def getTime_text_inj)
next
  assume "0 \<le> ino a \<and> ino a < 9007199254740992 \<and> 0 \<le> fsize a \<and> fsize a < 9007199254740992
      \<and> 0 \<le> ino b \<and> ino b < 9007199254740992 \<and> 0 \<le> fsize b \<and> fsize b < 9007199254740992"
  then show "(etag_of a = etag_of b)
      = (ino a = ino b \<and> fsize a = fsize b \<and> getTime (mtime a) = getTime (mtime b))"
    by (intro etag_of_safe_eq) simp_all
next
  assume "prefix (APP_ROOT h @ ''/'') (path_normalize filePath)
      \<and> fs_stat h (path_normalize filePath) = Some stat
      \<and> req_headers req ''if-none-match'' \<noteq> Some (etag_of stat)"
  then show "map_of (headers (fst (serveFile h req filePath responseHeaders))) ''Etag''
      = Some (etag_of stat)"
    by (simp add: serveFile_inside_root update_conv')
qed

theorem etag_of_inode_size_getTime_witness:
  "ino example_stats = ino (example_stats\<lparr>mtime := 1600000000001\<rparr>)
   \<and> fsize example_stats = fsize (example_stats\<lparr>mtime := 1600000000001\<rparr>)
   \<and> 0 \<le> ino example_stats \<and> ino example_stats < 9007199254740992
   \<and> 0 \<le> fsize example_stats \<and> fsize example_stats < 9007199254740992
   \<and> getTime (mtime example_stats) \<noteq> getTime (mtime (example_stats\<lparr>mtime := 1600000000001\<rparr>))
   \<and> etag_of example_stats \<noteq> etag_of (example_stats\<lparr>mtime := 1600000000001\<rparr>)
   \<and> etag_of example_stats \<noteq> etag_of (example_stats\<lparr>fsize := 11\<rparr>)
   \<and> etag_of example_stats = etag_of (stats.extend example_stats True)
   \<and> prefix (APP_ROOT example_host @ ''/'') (path_normalize ''/app/package.json'')
   \<and> fs_stat example_host (path_normalize ''/app/package.json'') = Some example_stats
   \<and> req_headers plain_request ''if-none-match'' \<noteq> Some (etag_of example_stats)
   \<and> map_of (headers (fst (serveFile example_host plain_request ''/app/package.json'' [])))
         ''Etag''
       = Some (etag_of example_stats)"
proof -
  let ?later = "example_stats\<lparr>mtime := 1600000000001\<rparr>"
  let ?longer = "example_stats\<lparr>fsize := 11\<rparr>"
  let ?more = "stats.extend example_stats True"
  have i: "ino example_stats = ino ?later" and s: "fsize example_stats = fsize ?later"
    by simp_all
  have i': "ino example_stats = ino ?more" and s': "fsize example_stats = fsize ?more"
    by (simp_all add: stats.defs)
  have safe: "0 \<le> ino example_stats" "ino example_stats < 9007199254740992"
    "0 \<le> fsize example_stats" "fsize example_stats < 9007199254740992"
    by (simp_all add: example_stats_def)
  have safe': "0 \<le> ino ?longer" "ino ?longer < 9007199254740992"
    "0 \<le> fsize ?longer" "fsize ?longer < 9007199254740992"
    by (simp_all add: example_stats_def)
  have l: "fsize example_stats \<noteq> fsize ?longer" by (simp add: example_stats_def)
  have m: "getTime (mtime example_stats) \<noteq> getTime (mtime ?later)"
    by (simp add: example_stats_def)
  have m': "getTime (mtime example_stats) = getTime (mtime ?more)" by (simp add: stats.defs)
  have p: "prefix (APP_ROOT example_host @ ''/'') (path_normalize ''/app/package.json'')"
    by (simp add: path_normalize_def normalizeString_def normalize_step_def)
  have f: "fs_stat example_host (path_normalize ''/app/package.json'') = Some example_stats"
    by (simp add: path_normalize_def normalizeString_def normalize_step_def example_host_def)
  have q: "req_headers plain_request ''if-none-match'' \<noteq> Some (etag_of example_stats)"
    by (simp add: plain_request_def)
  from etag_of_inode_size_getTime [of example_stats ?later example_host "''/app/package.json''"
      example_stats plain_request "[]"] i s m p f q
  have "etag_of example_stats \<noteq> etag_of ?later"
    and "map_of (headers (fst (serveFile example_host plain_request ''/app/package.json'' [])))
        ''Etag'' = Some (etag_of example_stats)"
    by blast+
  moreover from etag_of_inode_size_getTime [of example_stats ?longer] safe safe' l
  have "etag_of example_stats \<noteq> etag_of ?longer" by blast
  moreover from etag_of_inode_size_getTime [of example_stats ?more] i' s' m'
  have "etag_of example_stats = etag_of ?more" by blast
  ultimately show ?thesis using i s safe m p f q by blast
qed

text \<open>
  Against C3 as stated: two stats of one file, inode 7 and size 10, whose modification
  times are 1000 ms apart and both later than the last time value of a Date (8.64e15 ms).
  \<^verbatim>\<open>getTime()\<close> is \<^verbatim>\<open>NaN\<close> for both, and the tokens are the same text.
\<close>

theorem etag_of_mtime_beyond_date_range:
  "ino (example_stats\<lparr>mtime := 9999999999999000\<rparr>)
     = ino (example_stats\<lparr>mtime := 9999999999998000\<rparr>)
   \<and> fsize (example_stats\<lparr>mtime := 9999999999999000\<rparr>)
     = fsize (example_stats\<lparr>mtime := 9999999999998000\<rparr>)
   \<and> mtime (example_stats\<lparr>mtime := 9999999999999000\<rparr>)
     \<noteq> mtime (example_stats\<lparr>mtime := 9999999999998000\<rparr>)
   \<and> etag_of (example_stats\<lparr>mtime := 9999999999999000\<rparr>)
     = ''W/'' @ [CHR 0x22] @ ''7-10-NaN'' @ [CHR 0x22]
   \<and> etag_of (example_stats\<lparr>mtime := 9999999999998000\<rparr>)
     = ''W/'' @ [CHR 0x22] @ ''7-10-NaN'' @ [CHR 0x22]"
  by (simp add: etag_of_def example_stats_def Number_toString_example)

text \<open>
  C4. When the file is inside the application root, its stat succeeds and the request's
  \<^verbatim>\<open>if-none-match\<close> header is exactly the token of that stat, \<^verbatim>\<open>serveFile\<close> answers
  304 with no header and an empty body; the only file system call is the stat, so the
  file's contents are not read.
\<close>

theorem if_none_match_not_modified:
  assumes "prefix (APP_ROOT h @ ''/'') (path_normalize filePath)"
    and "fs_stat h (path_normalize filePath) = Some stat"
    and "req_headers req ''if-none-match'' = Some (etag_of stat)"
  shows "serveFile h req filePath responseHeaders =
     (\<lparr>status = 304, headers = [], body = Text []\<rparr>, [Stat (path_normalize filePath)])"
  using assms by (simp add: serveFile_inside_root)

theorem if_none_match_not_modified_witness:
  "prefix (APP_ROOT example_host @ ''/'') (path_normalize ''/app/package.json'')
   \<and> fs_stat example_host (path_normalize ''/app/package.json'') = Some example_stats
   \<and> req_headers revalidating_request ''if-none-match'' = Some (etag_of example_stats)
   \<and> serveFile example_host revalidating_request ''/app/package.json'' []
       = (\<lparr>status = 304, headers = [], body = Text []\<rparr>, [Stat ''/app/package.json''])"
proof -
  have n: "path_normalize ''/app/package.json'' = ''/app/package.json''"
    by (simp add: path_normalize_def normalizeString_def normalize_step_def)
  have p: "prefix (APP_ROOT example_host @ ''/'') (path_normalize ''/app/package.json'')"
    by (simp add: n)
  have f: "fs_stat example_host (path_normalize ''/app/package.json'') = Some example_stats"
    by (simp add: n example_host_def)
  have q: "req_headers revalidating_request ''if-none-match'' = Some (etag_of example_stats)"
    by (simp add: revalidating_request_def)
  from if_none_match_not_modified [OF p f q, of "[]"] p f q show ?thesis
    by (simp add: n)
qed

subsection \<open>Extension files are checked against the application root\<close>

text \<open>
  C10. A request \<^verbatim>\<open>/static-extension/<rel>\<close> whose file path, joined to the extensions
  root and normalized, lies outside the extensions root but still starts with the
  application root followed by the separator passes the check of \<^verbatim>\<open>serveFile\<close>,
  which knows the application root only: the file is looked up, and the answer is 404
  when the stat fails and 304 or 200 when it succeeds, never 400.
\<close>

theorem static_extension_escapes_extensions_root:
  assumes "decodeURIComponent (drop (length ''/static-extension/'') (pathname parsed)) = Some rel"
    and "filePath = path_normalize (path_join [EXTENSIONS_ROOT h, path_normalize rel])"
    and "\<not> prefix (EXTENSIONS_ROOT h @ ''/'') filePath"
    and "prefix (APP_ROOT h @ ''/'') filePath"
  shows "\<exists>r calls. handleStaticExtension h req parsed = Some (r, calls)
     \<and> hd calls = Stat filePath
     \<and> status r \<noteq> 400
     \<and> (status r = 404) = (fs_stat h filePath = None)
     \<and> (status r = 304 \<or> status r = 200) = (fs_stat h filePath \<noteq> None)"
  using assms
  by (auto simp: handleStaticExtension_def serveFile_inside_root split: option.splits)

theorem static_extension_escapes_extensions_root_witness:
  "decodeURIComponent
     (drop (length ''/static-extension/'')
        (pathname \<lparr>pathname = ''/static-extension/../package.json'', query = []\<rparr>))
     = Some ''../package.json''
   \<and> ''/app/package.json''
       = path_normalize (path_join [EXTENSIONS_ROOT example_host, path_normalize ''../package.json''])
   \<and> \<not> prefix (EXTENSIONS_ROOT example_host @ ''/'') ''/app/package.json''
   \<and> prefix (APP_ROOT example_host @ ''/'') ''/app/package.json''
   \<and> (\<exists>r calls.
         handleStaticExtension example_host plain_request
           \<lparr>pathname = ''/static-extension/../package.json'', query = []\<rparr> = Some (r, calls)
         \<and> hd calls = Stat ''/app/package.json''
         \<and> status r = 200)"
proof -
  let ?parsed = "\<lparr>pathname = ''/static-extension/../package.json'', query = []\<rparr>"
  have d: "decodeURIComponent (drop (length ''/static-extension/'') (pathname ?parsed))
      = Some ''../package.json''"
    by simp
  have n: "''/app/package.json''
      = path_normalize (path_join [EXTENSIONS_ROOT example_host, path_normalize ''../package.json''])"
    by (simp add: path_join_def path_normalize_def normalizeString_def normalize_step_def)
  have n': "path_normalize (path_join [''/app/extensions'', path_normalize ''../package.json''])
      = ''/app/package.json''"
    by (simp add: path_join_def path_normalize_def normalizeString_def normalize_step_def)
  have e: "\<not> prefix (EXTENSIONS_ROOT example_host @ ''/'') ''/app/package.json''"
    by simp
  have a: "prefix (APP_ROOT example_host @ ''/'') ''/app/package.json''"
    by simp
  have s: "fs_stat example_host ''/app/package.json'' \<noteq> None"
    by (simp add: example_host_def)
  from static_extension_escapes_extensions_root [OF d n e a, of plain_request]
  obtain r calls where
    r: "handleStaticExtension example_host plain_request ?parsed = Some (r, calls)"
    and c: "hd calls = Stat ''/app/package.json''"
    and st: "(status r = 304 \<or> status r = 200) = (fs_stat example_host ''/app/package.json'' \<noteq> None)"
    by blast
  have "fs_stat example_host ''/app/package.json'' = Some example_stats"
    by (simp add: example_host_def)
  moreover have "req_headers plain_request ''if-none-match'' = None"
    by (simp add: plain_request_def)
  ultimately have "map_option (\<lambda>x. status (fst x))
      (handleStaticExtension example_host plain_request ?parsed) = Some 200"
    by (simp add: handleStaticExtension_def serveFile_def n' Let_def)
  with r have "status r = 200" by simp
  with d n e a r c show ?thesis by blast
qed

section \<open>Properties of the callback relay\<close>

lemma those_map_Some:
  "(\<forall>x\<in>set xs. f x \<noteq> None) \<Longrightarrow> those (map f xs) = Some (map (\<lambda>x. the (f x)) xs)"
  by (induction xs) auto

lemma those_map_eq_SomeD:
  "those (map f xs) = Some ys \<Longrightarrow> ys = map (\<lambda>x. the (f x)) xs \<and> (\<forall>x\<in>set xs. f x \<noteq> None)"
  by (induction xs arbitrary: ys) (auto split: option.splits)

lemma decodeWellKnown_values:
  assumes "decodeWellKnown parsed = Some [a, b, c, d, e, f]"
  shows "decodeQueryValue parsed ''vscode-requestId'' = Some a"
    and "decodeQueryValue parsed ''vscode-scheme'' = Some b"
    and "decodeQueryValue parsed ''vscode-authority'' = Some c"
    and "decodeQueryValue parsed ''vscode-path'' = Some d"
    and "decodeQueryValue parsed ''vscode-query'' = Some e"
    and "decodeQueryValue parsed ''vscode-fragment'' = Some f"
  using those_map_eq_SomeD [OF assms [unfolded decodeWellKnown_def]]
  by (auto simp: wellKnownKeys_def)

lemma JSON_stringify_descriptor_not_Nil: "JSON_stringify (descriptor_json d) \<noteq> []"
  by (simp add: descriptor_json_def object_literal_def)

text \<open>What a registration does, once the six values are decoded and the id is not empty.\<close>

lemma handleCallback_registers:
  assumes "decodeWellKnown parsed =
      Some [Some R, vscodeScheme, vscodeAuthority, vscodePath, vscodeQuery, vscodeFragment]"
    and "R \<noteq> []"
  shows "handleCallback h req parsed store =
     (Some
        (serveFile h req
           (path_join [APP_ROOT h, ''resources'', ''serverless'', ''callback.html''])
           [(''Content-Type'', ''text/html'')]),
      store(R \<mapsto>
        JSON_stringify
          (descriptor_json
             \<lparr>uri_scheme =
                (case vscodeScheme of
                   None \<Rightarrow> ''code-oss''
                 | Some s \<Rightarrow> if s = [] then ''code-oss'' else s),
              uri_authority = vscodeAuthority,
              uri_path = vscodePath,
              uri_query =
                appendQueryValues (getFirstQueryValues parsed (Some wellKnownKeys))
                  vscodeQuery 0,
              uri_fragment = vscodeFragment\<rparr>)))"
  using assms by (simp add: handleCallback_def Let_def)

lemma handleFetchCallback_known:
  assumes "getFirstQueryValue parsed ''vscode-requestId'' = Some R" and "R \<noteq> []"
    and "store R = Some D" and "D \<noteq> []"
  shows "handleFetchCallback parsed store =
     (Some \<lparr>status = 200, headers = [(''Content-Type'', ''text/json'')], body = Text D\<rparr>,
      store(R := None))"
  using assms by (simp add: handleFetchCallback_def truthy_def)

lemma handleFetchCallback_unknown:
  assumes "getFirstQueryValue parsed ''vscode-requestId'' = Some R" and "R \<noteq> []"
    and "store R = None"
  shows "handleFetchCallback parsed store =
     (Some \<lparr>status = 200, headers = [(''Content-Type'', ''text/json'')], body = Text []\<rparr>,
      store)"
  using assms by (simp add: handleFetchCallback_def truthy_def)

lemma decodeURIComponent_not_Nil:
  "s \<noteq> [] \<Longrightarrow> decodeURIComponent s = Some t \<Longrightarrow> t \<noteq> []"
  by (cases s) (auto simp: Let_def split: if_splits option.splits)

lemma decodeURIComponent_plain: "CHR ''%'' \<notin> set s \<Longrightarrow> decodeURIComponent s = Some s"
  by (induction s) auto

text \<open>The text that \<^verbatim>\<open>JSON.stringify\<close> gives for a descriptor.\<close>

lemma JSON_stringify_descriptor_text: "JSON_stringify (descriptor_json d) = descriptor_text d"
  by (cases "uri_authority d"; cases "uri_path d"; cases "uri_query d"; cases "uri_fragment d")
    (simp_all add: descriptor_json_def object_literal_def descriptor_text_def member_text_def
      List.map_filter_def)

text \<open>
  C2. A registration whose request id, decoded, is \<open>R\<close> stores under \<open>R\<close> the text \<open>D\<close>
  of its descriptor: the scheme (\<^verbatim>\<open>code-oss\<close> by default), the authority, the path,
  the merged query and the fragment. A retrieval whose request id, as it is, is \<open>R\<close>
  then answers 200 with exactly \<open>D\<close> as its body and deletes the entry; a second
  retrieval answers 200 with an empty body, and so does a retrieval from any state of the
  relay that has no entry for \<open>R\<close>. \<^verbatim>\<open>handleCallback\<close> applies
  \<^verbatim>\<open>decodeURIComponent\<close> to the query value and \<^verbatim>\<open>handleFetchCallback\<close> takes it
  as it is: a query value without \<^verbatim>\<open>%\<close> is the same request id for both.
\<close>

theorem register_then_retrieve_once:
  assumes "decodeWellKnown registration =
      Some [Some R, vscodeScheme, vscodeAuthority, vscodePath, vscodeQuery, vscodeFragment]"
    and "R \<noteq> []"
    and "getFirstQueryValue retrieval ''vscode-requestId'' = Some R"
  shows "\<exists>out d.
      handleCallback h req registration store = (out, store(R \<mapsto> descriptor_text d))
      \<and> d = \<lparr>uri_scheme =
                (case vscodeScheme of
                   None \<Rightarrow> ''code-oss''
                 | Some s \<Rightarrow> if s = [] then ''code-oss'' else s),
              uri_authority = vscodeAuthority,
              uri_path = vscodePath,
              uri_query =
                appendQueryValues (getFirstQueryValues registration (Some wellKnownKeys))
                  vscodeQuery 0,
              uri_fragment = vscodeFragment\<rparr>
      \<and> handleFetchCallback retrieval (store(R \<mapsto> descriptor_text d)) =
          (Some \<lparr>status = 200, headers = [(''Content-Type'', ''text/json'')],
                 body = Text (descriptor_text d)\<rparr>,
           (store(R \<mapsto> descriptor_text d))(R := None))
      \<and> handleFetchCallback retrieval ((store(R \<mapsto> descriptor_text d))(R := None)) =
          (Some \<lparr>status = 200, headers = [(''Content-Type'', ''text/json'')], body = Text []\<rparr>,
           (store(R \<mapsto> descriptor_text d))(R := None))
      \<and> (\<forall>other. other R = None \<longrightarrow>
            handleFetchCallback retrieval other =
              (Some \<lparr>status = 200, headers = [(''Content-Type'', ''text/json'')], body = Text []\<rparr>,
               other))
      \<and> (\<forall>V. getFirstQueryValue registration ''vscode-requestId'' = Some V
               \<and> CHR ''%'' \<notin> set V
            \<longrightarrow> V = R)"
proof -
  let ?d = "\<lparr>uri_scheme =
        (case vscodeScheme of
           None \<Rightarrow> ''code-oss''
         | Some s \<Rightarrow> if s = [] then ''code-oss'' else s),
      uri_authority = vscodeAuthority,
      uri_path = vscodePath,
      uri_query =
        appendQueryValues (getFirstQueryValues registration (Some wellKnownKeys))
          vscodeQuery 0,
      uri_fragment = vscodeFragment\<rparr>"
  let ?D = "descriptor_text ?d"
  have D: "?D \<noteq> []"
    using JSON_stringify_descriptor_not_Nil [of ?d]
    unfolding JSON_stringify_descriptor_text .
  have reg: "handleCallback h req registration store =
      (Some
         (serveFile h req
            (path_join [APP_ROOT h, ''resources'', ''serverless'', ''callback.html''])
            [(''Content-Type'', ''text/html'')]),
       store(R \<mapsto> ?D))"
    using handleCallback_registers [OF assms(1,2), of h req store]
    by (simp only: JSON_stringify_descriptor_text)
  have first: "handleFetchCallback retrieval (store(R \<mapsto> ?D)) =
      (Some \<lparr>status = 200, headers = [(''Content-Type'', ''text/json'')], body = Text ?D\<rparr>,
       (store(R \<mapsto> ?D))(R := None))"
    using assms(3,2) by (rule handleFetchCallback_known) (simp_all add: D)
  have none: "handleFetchCallback retrieval other =
      (Some \<lparr>status = 200, headers = [(''Content-Type'', ''text/json'')], body = Text []\<rparr>, other)"
    if "other R = None" for other
    using assms(3,2) that by (rule handleFetchCallback_unknown)
  have second: "handleFetchCallback retrieval ((store(R \<mapsto> ?D))(R := None)) =
      (Some \<lparr>status = 200, headers = [(''Content-Type'', ''text/json'')], body = Text []\<rparr>,
       (store(R \<mapsto> ?D))(R := None))"
    by (rule none) simp
  have same: "V = R"
    if "getFirstQueryValue registration ''vscode-requestId'' = Some V \<and> CHR ''%'' \<notin> set V"
    for V
  proof -
    have "decodeQueryValue registration ''vscode-requestId'' = Some (Some R)"
      using assms(1) by (rule decodeWellKnown_values)
    with that show ?thesis
      by (auto simp: decodeQueryValue_def decodeURIComponent_plain split: if_splits)
  qed
  show ?thesis
  proof (intro exI conjI allI impI)
    show "handleCallback h req registration store =
        (Some
           (serveFile h req
              (path_join [APP_ROOT h, ''resources'', ''serverless'', ''callback.html''])
              [(''Content-Type'', ''text/html'')]),
         store(R \<mapsto> ?D))"
      by (rule reg)
    show "?d = ?d" by (rule refl)
    show "handleFetchCallback retrieval (store(R \<mapsto> ?D)) =
        (Some \<lparr>status = 200, headers = [(''Content-Type'', ''text/json'')], body = Text ?D\<rparr>,
         (store(R \<mapsto> ?D))(R := None))"
      by (rule first)
    show "handleFetchCallback retrieval ((store(R \<mapsto> ?D))(R := None)) =
        (Some \<lparr>status = 200, headers = [(''Content-Type'', ''text/json'')], body = Text []\<rparr>,
         (store(R \<mapsto> ?D))(R := None))"
      by (rule second)
    show "handleFetchCallback retrieval other =
        (Some \<lparr>status = 200, headers = [(''Content-Type'', ''text/json'')], body = Text []\<rparr>,
         other)"
      if "other R = None" for other
      using that by (rule none)
    show "V = R"
      if "getFirstQueryValue registration ''vscode-requestId'' = Some V \<and> CHR ''%'' \<notin> set V"
      for V
      using that by (rule same)
  qed
qed

lemmas callback_eval =
  decodeWellKnown_def wellKnownKeys_def decodeQueryValue_def getFirstQueryValue_def
  first_of_def hexval_def leading_ones_def char_of_nat_bits

lemma decodeWellKnown_example:
  "decodeWellKnown example_registration =
     Some [Some ''r'', None, None, None, Some ''k=v'', None]"
  by (simp add: callback_eval example_registration_def)

lemma example_descriptor:
  "JSON_stringify
     (descriptor_json
        \<lparr>uri_scheme = ''code-oss'', uri_authority = None, uri_path = None,
         uri_query = Some ''k=vb=1&a=x'', uri_fragment = None\<rparr>)
   = ''{'' @ [CHR 0x22] @ ''scheme'' @ [CHR 0x22] @ '':'' @ [CHR 0x22] @ ''code-oss''
       @ [CHR 0x22] @ '','' @ [CHR 0x22] @ ''query'' @ [CHR 0x22] @ '':'' @ [CHR 0x22]
       @ ''k=vb=1&a=x'' @ [CHR 0x22] @ ''}''"
  by (simp add: descriptor_json_def object_literal_def
      QuoteJSONString_def json_escape_def)

lemma getFirstQueryValues_example:
  "getFirstQueryValues example_registration (Some wellKnownKeys) = [(''b'', ''1''), (''a'', ''x'')]"
  by (simp add: getFirstQueryValues_def getFirstQueryValue_def first_of_def
      example_registration_def wellKnownKeys_def)

lemma descriptor_text_example:
  "descriptor_text
     \<lparr>uri_scheme = ''code-oss'', uri_authority = None, uri_path = None,
      uri_query = Some ''k=vb=1&a=x'', uri_fragment = None\<rparr>
   = ''{'' @ [CHR 0x22] @ ''scheme'' @ [CHR 0x22] @ '':'' @ [CHR 0x22] @ ''code-oss''
         @ [CHR 0x22] @ '','' @ [CHR 0x22] @ ''query'' @ [CHR 0x22] @ '':'' @ [CHR 0x22]
         @ ''k=vb=1&a=x'' @ [CHR 0x22] @ ''}''"
  "descriptor_text
     \<lparr>uri_scheme = ''code-oss'', uri_authority = None, uri_path = None,
      uri_query = None, uri_fragment = None\<rparr>
   = ''{'' @ [CHR 0x22] @ ''scheme'' @ [CHR 0x22] @ '':'' @ [CHR 0x22] @ ''code-oss''
         @ [CHR 0x22] @ ''}''"
  "descriptor_text
     \<lparr>uri_scheme = ''code-oss'', uri_authority = None, uri_path = None,
      uri_query = Some ''1=y&2=x&b=1'', uri_fragment = None\<rparr>
   = ''{'' @ [CHR 0x22] @ ''scheme'' @ [CHR 0x22] @ '':'' @ [CHR 0x22] @ ''code-oss''
         @ [CHR 0x22] @ '','' @ [CHR 0x22] @ ''query'' @ [CHR 0x22] @ '':'' @ [CHR 0x22]
         @ ''1=y&2=x&b=1'' @ [CHR 0x22] @ ''}''"
  "descriptor_text
     \<lparr>uri_scheme = ''code-oss'', uri_authority = None, uri_path = None,
      uri_query = Some ''a=x'', uri_fragment = None\<rparr>
   = ''{'' @ [CHR 0x22] @ ''scheme'' @ [CHR 0x22] @ '':'' @ [CHR 0x22] @ ''code-oss''
         @ [CHR 0x22] @ '','' @ [CHR 0x22] @ ''query'' @ [CHR 0x22] @ '':'' @ [CHR 0x22]
         @ ''a=x'' @ [CHR 0x22] @ ''}''"
  by (simp_all add: descriptor_text_def member_text_def QuoteJSONString_def json_escape_def)

theorem register_then_retrieve_once_witness:
  "decodeWellKnown example_registration =
     Some [Some ''r'', None, None, None, Some ''k=v'', None]
   \<and> ''r'' \<noteq> []
   \<and> getFirstQueryValue example_retrieval ''vscode-requestId'' = Some ''r''
   \<and> getFirstQueryValue example_registration ''vscode-requestId'' = Some ''r''
   \<and> CHR ''%'' \<notin> set ''r''
   \<and> snd (handleCallback example_host plain_request example_registration Map.empty)
       = [''r'' \<mapsto> ''{'' @ [CHR 0x22] @ ''scheme'' @ [CHR 0x22] @ '':'' @ [CHR 0x22] @ ''code-oss''
         @ [CHR 0x22] @ '','' @ [CHR 0x22] @ ''query'' @ [CHR 0x22] @ '':'' @ [CHR 0x22]
         @ ''k=vb=1&a=x'' @ [CHR 0x22] @ ''}'']
   \<and> handleFetchCallback example_retrieval [''r'' \<mapsto> ''{'' @ [CHR 0x22] @ ''scheme'' @ [CHR 0x22] @ '':'' @ [CHR 0x22] @ ''code-oss''
         @ [CHR 0x22] @ '','' @ [CHR 0x22] @ ''query'' @ [CHR 0x22] @ '':'' @ [CHR 0x22]
         @ ''k=vb=1&a=x'' @ [CHR 0x22] @ ''}''] =
       (Some \<lparr>status = 200, headers = [(''Content-Type'', ''text/json'')],
              body = Text
                (''{'' @ [CHR 0x22] @ ''scheme'' @ [CHR 0x22] @ '':'' @ [CHR 0x22] @ ''code-oss''
         @ [CHR 0x22] @ '','' @ [CHR 0x22] @ ''query'' @ [CHR 0x22] @ '':'' @ [CHR 0x22]
         @ ''k=vb=1&a=x'' @ [CHR 0x22] @ ''}'')\<rparr>,
        Map.empty)
   \<and> handleFetchCallback example_retrieval Map.empty =
       (Some \<lparr>status = 200, headers = [(''Content-Type'', ''text/json'')], body = Text []\<rparr>,
        Map.empty)"
proof -
  let ?D = "''{'' @ [CHR 0x22] @ ''scheme'' @ [CHR 0x22] @ '':'' @ [CHR 0x22] @ ''code-oss''
         @ [CHR 0x22] @ '','' @ [CHR 0x22] @ ''query'' @ [CHR 0x22] @ '':'' @ [CHR 0x22]
         @ ''k=vb=1&a=x'' @ [CHR 0x22] @ ''}''"
  have w: "decodeWellKnown example_registration =
      Some [Some ''r'', None, None, None, Some ''k=v'', None]"
    by (rule decodeWellKnown_example)
  have g: "getFirstQueryValue example_retrieval ''vscode-requestId'' = Some ''r''"
    by (simp add: getFirstQueryValue_def first_of_def example_retrieval_def)
  have g': "getFirstQueryValue example_registration ''vscode-requestId'' = Some ''r''"
    by (simp add: getFirstQueryValue_def first_of_def example_registration_def)
  have r: "''r'' \<noteq> []" and n: "CHR ''%'' \<notin> set ''r''" by simp_all
  have e: "Map.empty ''r'' = (None :: string option)" by simp
  from register_then_retrieve_once [OF w r g, of example_host plain_request Map.empty]
  obtain out d where
    h: "handleCallback example_host plain_request example_registration Map.empty
       = (out, [''r'' \<mapsto> descriptor_text d])"
    and d: "d = \<lparr>uri_scheme = (case None of None \<Rightarrow> ''code-oss''
                              | Some s \<Rightarrow> if s = [] then ''code-oss'' else s),
              uri_authority = None, uri_path = None,
              uri_query =
                appendQueryValues (getFirstQueryValues example_registration (Some wellKnownKeys))
                  (Some ''k=v'') 0,
              uri_fragment = None\<rparr>"
    and f: "handleFetchCallback example_retrieval [''r'' \<mapsto> descriptor_text d] =
       (Some \<lparr>status = 200, headers = [(''Content-Type'', ''text/json'')],
              body = Text (descriptor_text d)\<rparr>,
        [''r'' \<mapsto> descriptor_text d](''r'' := None))"
    and u: "\<forall>other. other ''r'' = None \<longrightarrow>
        handleFetchCallback example_retrieval other =
          (Some \<lparr>status = 200, headers = [(''Content-Type'', ''text/json'')], body = Text []\<rparr>,
           other)"
    by (elim exE conjE)
  have "d = \<lparr>uri_scheme = ''code-oss'', uri_authority = None, uri_path = None,
      uri_query = Some ''k=vb=1&a=x'', uri_fragment = None\<rparr>"
    unfolding d by (simp add: getFirstQueryValues_example)
  then have t: "descriptor_text d = ?D"
    by (simp only: descriptor_text_example)
  from u have "Map.empty ''r'' = (None :: string option) \<longrightarrow>
      handleFetchCallback example_retrieval Map.empty =
        (Some \<lparr>status = 200, headers = [(''Content-Type'', ''text/json'')], body = Text []\<rparr>,
         Map.empty)"
    by (rule spec)
  from this e have z: "handleFetchCallback example_retrieval Map.empty =
      (Some \<lparr>status = 200, headers = [(''Content-Type'', ''text/json'')], body = Text []\<rparr>,
       Map.empty)"
    by (rule mp)
  from h have "snd (handleCallback example_host plain_request example_registration Map.empty)
      = [''r'' \<mapsto> descriptor_text d]"
    by (simp only: snd_conv)
  then have x: "snd (handleCallback example_host plain_request example_registration Map.empty)
      = [''r'' \<mapsto> ?D]"
    by (simp only: t)
  from f have "handleFetchCallback example_retrieval [''r'' \<mapsto> ?D] =
      (Some \<lparr>status = 200, headers = [(''Content-Type'', ''text/json'')], body = Text ?D\<rparr>,
       [''r'' \<mapsto> ?D](''r'' := None))"
    by (simp only: t)
  moreover have "[''r'' \<mapsto> ?D](''r'' := None) = Map.empty" by simp
  ultimately have y: "handleFetchCallback example_retrieval [''r'' \<mapsto> ?D] =
      (Some \<lparr>status = 200, headers = [(''Content-Type'', ''text/json'')], body = Text ?D\<rparr>,
       Map.empty)"
    by (simp only:)
  show ?thesis
    by (intro conjI) (rule w r g g' n x y z)+
qed

text \<open>
  Against C2 as stated: \<^verbatim>\<open>/callback?vscode-requestId=a%2541\<close> and then
  \<^verbatim>\<open>/fetch-callback?vscode-requestId=a%2541\<close>, the same request id \<^verbatim>\<open>a%41\<close> in both.
  The registration stores its descriptor under \<^verbatim>\<open>aA\<close>, so the retrieval finds no entry:
  it answers with an empty body, and the descriptor stays in the relay.
\<close>

theorem same_escaped_id_not_retrieved:
  "getFirstQueryValue escaped_id_registration ''vscode-requestId'' = Some ''a%41''
   \<and> getFirstQueryValue escaped_id_retrieval ''vscode-requestId'' = Some ''a%41''
   \<and> snd (handleCallback example_host plain_request escaped_id_registration Map.empty)
       = [''aA'' \<mapsto> ''{'' @ [CHR 0x22] @ ''scheme'' @ [CHR 0x22] @ '':'' @ [CHR 0x22] @ ''code-oss''
         @ [CHR 0x22] @ ''}'']
   \<and> handleFetchCallback escaped_id_retrieval [''aA'' \<mapsto> ''{'' @ [CHR 0x22] @ ''scheme'' @ [CHR 0x22] @ '':'' @ [CHR 0x22] @ ''code-oss''
         @ [CHR 0x22] @ ''}''] =
       (Some \<lparr>status = 200, headers = [(''Content-Type'', ''text/json'')], body = Text []\<rparr>,
        [''aA'' \<mapsto> ''{'' @ [CHR 0x22] @ ''scheme'' @ [CHR 0x22] @ '':'' @ [CHR 0x22] @ ''code-oss''
         @ [CHR 0x22] @ ''}''])"
proof -
  have d: "decodeWellKnown escaped_id_registration =
      Some [Some ''aA'', None, None, None, None, None]"
    by (simp add: callback_eval escaped_id_registration_def)
  have e: "getFirstQueryValues escaped_id_registration (Some wellKnownKeys) = []"
    by (simp add: getFirstQueryValues_def escaped_id_registration_def wellKnownKeys_def)
  have g: "getFirstQueryValue escaped_id_registration ''vscode-requestId'' = Some ''a%41''"
    by (simp add: getFirstQueryValue_def first_of_def escaped_id_registration_def)
  have g': "getFirstQueryValue escaped_id_retrieval ''vscode-requestId'' = Some ''a%41''"
    by (simp add: getFirstQueryValue_def first_of_def escaped_id_retrieval_def)
  have s: "snd (handleCallback example_host plain_request escaped_id_registration Map.empty)
      = [''aA'' \<mapsto> ''{'' @ [CHR 0x22] @ ''scheme'' @ [CHR 0x22] @ '':'' @ [CHR 0x22] @ ''code-oss''
         @ [CHR 0x22] @ ''}'']"
    by (simp add: handleCallback_registers [OF d] e JSON_stringify_descriptor_text
        descriptor_text_example)
  have f: "handleFetchCallback escaped_id_retrieval [''aA'' \<mapsto> ''{'' @ [CHR 0x22] @ ''scheme'' @ [CHR 0x22] @ '':'' @ [CHR 0x22] @ ''code-oss''
         @ [CHR 0x22] @ ''}''] =
      (Some \<lparr>status = 200, headers = [(''Content-Type'', ''text/json'')], body = Text []\<rparr>,
       [''aA'' \<mapsto> ''{'' @ [CHR 0x22] @ ''scheme'' @ [CHR 0x22] @ '':'' @ [CHR 0x22] @ ''code-oss''
         @ [CHR 0x22] @ ''}''])"
    using g' by (rule handleFetchCallback_unknown) simp_all
  from g g' s f show ?thesis by blast
qed

subsection \<open>The stored query string\<close>

lemma appendQueryValues_Cons:
  "appendQueryValues (kv # rest) q i =
     Some ((case q of None \<Rightarrow> [] | Some s \<Rightarrow> s) @ (if i = 0 then [] else ''&'')
       @ joined_pairs (kv # rest))"
proof (induction rest arbitrary: kv q i)
  case Nil
  show ?case by (simp add: joined_pairs_def)
next
  case (Cons kv' rest')
  let ?q = "Some ((case q of None \<Rightarrow> [] | Some s \<Rightarrow> s) @ (if i = 0 then [] else ''&'')
      @ fst kv @ ''='' @ snd kv)"
  have "appendQueryValues (kv # kv' # rest') q i = appendQueryValues (kv' # rest') ?q (i + 1)"
    by (subst appendQueryValues.simps) (simp only: Let_def)
  also have "\<dots> = Some ((case ?q of None \<Rightarrow> [] | Some s \<Rightarrow> s)
      @ (if i + 1 = 0 then [] else ''&'') @ joined_pairs (kv' # rest'))"
    by (rule Cons.IH)
  also have "\<dots> = Some ((case q of None \<Rightarrow> [] | Some s \<Rightarrow> s) @ (if i = 0 then [] else ''&'')
      @ joined_pairs (kv # kv' # rest'))"
    by (simp add: joined_pairs_def)
  finally show ?case .
qed

lemma appendQueryValues_joined:
  "appendQueryValues kvs q i =
     (if kvs = [] then q
      else Some ((case q of None \<Rightarrow> [] | Some s \<Rightarrow> s) @ (if i = 0 then [] else ''&'')
             @ joined_pairs kvs))"
proof (cases kvs)
  case Nil
  then show ?thesis by simp
next
  case (Cons kv rest)
  then show ?thesis by (simp only: appendQueryValues_Cons list.simps if_False)
qed

lemma update_fresh: "k \<notin> fst ` set al \<Longrightarrow> AList.update k v al = al @ [(k, v)]"
  by (induction al) auto

lemma disjoint_after_insert:
  "A \<subseteq> insert k B \<Longrightarrow> k \<notin> C \<Longrightarrow> B \<inter> C = {} \<Longrightarrow> A \<inter> C = {}"
  by auto

lemma getFirstQueryValues_foldl:
  fixes parsed :: parsedUrl and ig :: "string list option"
  defines "F \<equiv> \<lambda>queryValues key.
          if (case ig of None \<Rightarrow> False | Some ks \<Rightarrow> key \<in> set ks) then queryValues
          else
            (case getFirstQueryValue parsed key of
               None \<Rightarrow> queryValues
             | Some v \<Rightarrow> AList.update key v queryValues)"
    and "g \<equiv> \<lambda>p. if (case ig of None \<Rightarrow> False | Some ks \<Rightarrow> fst p \<in> set ks) then None
              else map_option (Pair (fst p)) (first_of (snd p))"
  assumes "distinct (map fst qs)"
    and "fst ` set acc \<inter> fst ` set qs = {}"
    and "\<forall>p\<in>set qs. getFirstQueryValue parsed (fst p) = first_of (snd p)"
  shows "foldl F acc (map fst qs) = acc @ List.map_filter g qs"
  using assms(3-)
proof (induction qs arbitrary: acc)
  case Nil
  show ?case by (simp add:)
next
  case (Cons p qs)
  from Cons.prems(2) have fresh: "fst p \<notin> fst ` set acc" by auto
  from Cons.prems(3) have val: "getFirstQueryValue parsed (fst p) = first_of (snd p)" by simp
  have step: "F acc (fst p) = acc @ (case g p of None \<Rightarrow> [] | Some x \<Rightarrow> [x])"
  proof (cases "g p")
    case None
    then show ?thesis
      by (auto simp: F_def g_def val split: if_splits option.splits)
  next
    case (Some x)
    then have x: "\<not> (case ig of None \<Rightarrow> False | Some ks \<Rightarrow> fst p \<in> set ks)"
      and v: "first_of (snd p) = Some (snd x)" and k: "fst x = fst p"
      by (auto simp: g_def split: if_splits)
    from x v have "F acc (fst p) = AList.update (fst p) (snd x) acc"
      by (simp add: F_def val)
    also have "\<dots> = acc @ [(fst p, snd x)]" using fresh by (rule update_fresh)
    finally show ?thesis using Some k by (simp add: prod_eq_iff)
  qed
  have keys: "fst ` set (F acc (fst p)) \<subseteq> insert (fst p) (fst ` set acc)"
  proof (cases "g p")
    case None
    then show ?thesis unfolding step by auto
  next
    case (Some x)
    then have "fst x = fst p" by (auto simp: g_def split: if_splits)
    with Some show ?thesis unfolding step by auto
  qed
  from Cons.prems(1) have d: "distinct (map fst qs)" and notin: "fst p \<notin> fst ` set qs"
    by auto
  from Cons.prems(2) have disj: "fst ` set acc \<inter> fst ` set qs = {}" by auto
  from Cons.prems(3) have vals: "\<forall>p\<in>set qs. getFirstQueryValue parsed (fst p) = first_of (snd p)"
    by simp
  from keys notin disj have disj': "fst ` set (F acc (fst p)) \<inter> fst ` set qs = {}"
    by (rule disjoint_after_insert)
  have "foldl F acc (map fst (p # qs)) = foldl F (F acc (fst p)) (map fst qs)"
    by simp
  also have "\<dots> = F acc (fst p) @ List.map_filter g qs"
    using d disj' vals by (rule Cons.IH)
  also have "\<dots> = acc @ List.map_filter g (p # qs)"
    unfolding step by (cases "g p") (simp_all add:)
  finally show ?case .
qed

lemma getFirstQueryValues_extra_pairs:
  assumes "distinct (map fst (query parsed))"
  shows "getFirstQueryValues parsed (Some wellKnownKeys) = extra_pairs parsed"
proof -
  have "\<forall>p\<in>set (query parsed). getFirstQueryValue parsed (fst p) = first_of (snd p)"
    using assms by (auto simp: getFirstQueryValue_def)
  from getFirstQueryValues_foldl [OF assms _ this, of "[]" "Some wellKnownKeys"]
  show ?thesis by (simp add: getFirstQueryValues_def extra_pairs_def)
qed

text \<open>
  The query object that \<^verbatim>\<open>querystring.parse\<close> makes: its keys are distinct, and the
  first values of its properties are those of the first pair of every key.
\<close>

lemma querystring_parse_numbered:
  "querystring_parse numbered_pairs
     = [(''1'', Single ''y''), (''2'', Single ''x''), (''b'', Single ''1''),
        (''vscode-requestId'', Single ''r'')]"
  by (simp add: querystring_parse_def numbered_pairs_def addKeyValue_def own_properties_def
      array_index_def decimal_digit_def)

lemma querystring_parse_repeated:
  "querystring_parse repeated_pairs
     = [(''a'', Multiple [''x'', ''y'']), (''vscode-requestId'', Single ''r'')]"
  by (simp add: querystring_parse_def repeated_pairs_def addKeyValue_def own_properties_def
      array_index_def decimal_digit_def)

lemma querystring_parse_example:
  "querystring_parse
     [(''b'', ''1''), (''vscode-requestId'', ''r''), (''vscode-query'', ''k%3Dv''),
      (''a'', ''x''), (''a'', ''y'')]
   = query example_registration"
  by (simp add: querystring_parse_def addKeyValue_def own_properties_def
      array_index_def decimal_digit_def example_registration_def)

lemma addKeyValue_keys: "fst ` set (addKeyValue obj kv) = insert (fst kv) (fst ` set obj)"
  by (auto simp: addKeyValue_def AList.dom_update split: option.splits qvalue.splits)

lemma addKeyValue_distinct:
  "distinct (map fst obj) \<Longrightarrow> distinct (map fst (addKeyValue obj kv))"
  by (auto simp: addKeyValue_def AList.distinct_update map_of_eq_None_iff
      split: option.splits qvalue.splits)

lemma foldl_addKeyValue_distinct:
  "distinct (map fst obj) \<Longrightarrow> distinct (map fst (foldl addKeyValue obj pairs))"
  by (induction pairs arbitrary: obj) (simp_all add: addKeyValue_distinct)

lemma own_properties_distinct:
  assumes "distinct (map fst obj)"
  shows "distinct (map fst (own_properties obj))"
proof -
  let ?k = "\<lambda>p :: string \<times> 'a. case array_index (fst p) of None \<Rightarrow> 0 | Some n \<Rightarrow> n"
  let ?a = "filter (\<lambda>p. array_index (fst p) \<noteq> None) obj"
  let ?b = "filter (\<lambda>p. array_index (fst p) = None) obj"
  from assms have d: "distinct obj" and i: "inj_on fst (set obj)"
    by (simp_all add: distinct_map)
  have "distinct (map fst (sort_key ?k ?a))"
    using d i by (auto simp: distinct_map intro: inj_on_subset)
  moreover have "distinct (map fst ?b)"
    using d i by (auto simp: distinct_map intro: inj_on_subset)
  moreover have "fst ` set (sort_key ?k ?a) \<inter> fst ` set ?b = {}"
    by auto
  ultimately show ?thesis
    by (simp add: own_properties_def)
qed

lemma querystring_parse_distinct: "distinct (map fst (querystring_parse pairs))"
  unfolding querystring_parse_def
  by (rule own_properties_distinct, rule foldl_addKeyValue_distinct) simp

lemma update_same_image:
  "map_of obj k = Some q \<Longrightarrow> f q' = f q \<Longrightarrow>
   map (apsnd f) (AList.update k q' obj) = map (apsnd f) obj"
  by (induction obj) (auto split: if_splits)

lemma addKeyValue_first_new:
  assumes "fst kv \<notin> fst ` set obj"
  shows "map (apsnd first_of) (addKeyValue obj kv)
     = map (apsnd first_of) obj @ [(fst kv, Some (snd kv))]"
proof -
  from assms have "map_of obj (fst kv) = None" by (simp add: map_of_eq_None_iff)
  then show ?thesis by (simp add: addKeyValue_def first_of_def)
qed

lemma addKeyValue_first_old:
  assumes "fst kv \<in> fst ` set obj" and "\<forall>p\<in>set obj. first_of (snd p) \<noteq> None"
  shows "map (apsnd first_of) (addKeyValue obj kv) = map (apsnd first_of) obj"
proof -
  from assms(1) obtain q where q: "map_of obj (fst kv) = Some q"
    by (cases "map_of obj (fst kv)") (auto simp: map_of_eq_None_iff)
  then have "(fst kv, q) \<in> set obj" by (rule map_of_SomeD)
  with assms(2) have n: "first_of q \<noteq> None" by auto
  show ?thesis
  proof (cases q)
    case (Single s)
    with q show ?thesis
      by (simp add: addKeyValue_def update_same_image first_of_def)
  next
    case (Multiple ss)
    with n obtain s rest where "ss = s # rest" by (cases ss) (auto simp: first_of_def)
    with q Multiple show ?thesis
      by (simp add: addKeyValue_def update_same_image first_of_def)
  qed
qed

lemma addKeyValue_first_defined:
  assumes "\<forall>p\<in>set obj. first_of (snd p) \<noteq> None"
  shows "\<forall>p\<in>set (addKeyValue obj kv). first_of (snd p) \<noteq> None"
proof -
  have "snd ` set (map (apsnd first_of) (addKeyValue obj kv))
      \<subseteq> insert (Some (snd kv)) (snd ` set (map (apsnd first_of) obj))"
  proof (cases "fst kv \<in> fst ` set obj")
    case True
    with assms show ?thesis by (simp only: addKeyValue_first_old) auto
  next
    case False
    then show ?thesis by (simp add: addKeyValue_first_new)
  qed
  moreover have "None \<notin> snd ` set (map (apsnd first_of) obj)"
    using assms by force
  ultimately have "None \<notin> snd ` set (map (apsnd first_of) (addKeyValue obj kv))"
    by auto
  then show ?thesis by force
qed

lemma first_values_foldl:
  assumes "\<forall>p\<in>set obj. first_of (snd p) \<noteq> None"
  shows "map (apsnd first_of) (foldl addKeyValue obj pairs)
     = map (apsnd first_of) obj
       @ map (apsnd Some) (AList.clearjunk (filter (\<lambda>p. fst p \<notin> fst ` set obj) pairs))"
  using assms
proof (induction pairs arbitrary: obj)
  case Nil
  show ?case by simp
next
  case (Cons kv pairs)
  have d: "\<forall>p\<in>set (addKeyValue obj kv). first_of (snd p) \<noteq> None"
    using Cons.prems by (rule addKeyValue_first_defined)
  have "map (apsnd first_of) (foldl addKeyValue obj (kv # pairs))
      = map (apsnd first_of) (foldl addKeyValue (addKeyValue obj kv) pairs)"
    by simp
  also have "\<dots> = map (apsnd first_of) (addKeyValue obj kv)
      @ map (apsnd Some)
          (AList.clearjunk (filter (\<lambda>p. fst p \<notin> insert (fst kv) (fst ` set obj)) pairs))"
    using Cons.IH [OF d] by (simp only: addKeyValue_keys)
  also have "\<dots> = map (apsnd first_of) obj
      @ map (apsnd Some) (AList.clearjunk (filter (\<lambda>p. fst p \<notin> fst ` set obj) (kv # pairs)))"
  proof (cases "fst kv \<in> fst ` set obj")
    case True
    then have "insert (fst kv) (fst ` set obj) = fst ` set obj" by auto
    with True Cons.prems show ?thesis by (simp add: addKeyValue_first_old)
  next
    case False
    have "filter (\<lambda>p. fst p \<notin> insert (fst kv) (fst ` set obj)) pairs
        = AList.delete (fst kv) (filter (\<lambda>p. fst p \<notin> fst ` set obj) pairs)"
      by (auto simp: AList.delete_eq intro: filter_cong)
    with False show ?thesis
      by (cases kv) (simp add: addKeyValue_first_new)
  qed
  finally show ?case .
qed

lemma insort_key_map:
  "insort_key k (g x) (map g ys) = map g (insort_key (\<lambda>y. k (g y)) x ys)"
  by (induction ys) simp_all

lemma sort_key_map: "sort_key k (map g xs) = map g (sort_key (\<lambda>y. k (g y)) xs)"
  by (induction xs) (simp_all add: insort_key_map)

lemma own_properties_map:
  "own_properties (map (apsnd f) obj) = map (apsnd f) (own_properties obj)"
  by (simp add: own_properties_def sort_key_map filter_map comp_def)

lemma querystring_parse_first_values:
  "map (apsnd first_of) (querystring_parse pairs)
     = map (apsnd Some) (own_properties (AList.clearjunk pairs))"
proof -
  have "map (apsnd first_of) (querystring_parse pairs)
      = own_properties (map (apsnd first_of) (foldl addKeyValue [] pairs))"
    by (simp only: querystring_parse_def own_properties_map)
  also have "map (apsnd first_of) (foldl addKeyValue [] pairs)
      = map (apsnd Some) (AList.clearjunk pairs)"
    using first_values_foldl [of "[]" pairs] by simp
  finally show ?thesis by (simp only: own_properties_map)
qed

lemma extra_pairs_first_values:
  "extra_pairs parsed
     = List.map_filter
         (\<lambda>p. if fst p \<in> set wellKnownKeys then None else map_option (Pair (fst p)) (snd p))
         (map (apsnd first_of) (query parsed))"
proof -
  have "List.map_filter
      (\<lambda>p. if fst p \<in> set wellKnownKeys then None
           else map_option (Pair (fst p)) (first_of (snd p))) xs
      = List.map_filter
          (\<lambda>p. if fst p \<in> set wellKnownKeys then None else map_option (Pair (fst p)) (snd p))
          (map (apsnd first_of) xs)"
    for xs :: "(string \<times> qvalue) list"
    by (induction xs) (auto split: option.splits)
  then show ?thesis by (simp only: extra_pairs_def)
qed

lemma extra_pairs_querystring_parse:
  assumes "query parsed = querystring_parse pairs"
  shows "extra_pairs parsed = extra_parameters pairs"
proof -
  have "List.map_filter
      (\<lambda>p. if fst p \<in> set wellKnownKeys then None else map_option (Pair (fst p)) (snd p))
      (map (apsnd Some) xs) = filter (\<lambda>p. fst p \<notin> set wellKnownKeys) xs"
    for xs :: "(string \<times> string) list"
    by (induction xs) (auto split: option.splits)
  then show ?thesis
    by (simp only: extra_pairs_first_values assms querystring_parse_first_values
        extra_parameters_def)
qed

lemma extra_parameters_plain:
  assumes "distinct (map fst pairs)" and "\<forall>k\<in>set (map fst pairs). array_index k = None"
  shows "extra_parameters pairs = filter (\<lambda>p. fst p \<notin> set wellKnownKeys) pairs"
proof -
  from assms(2) have "filter (\<lambda>p. array_index (fst p) \<noteq> None) pairs = []"
    and "filter (\<lambda>p. array_index (fst p) = None) pairs = pairs"
    by (auto simp: filter_empty_conv filter_id_conv)
  then have "own_properties pairs = pairs" by (simp add: own_properties_def)
  with assms(1) show ?thesis
    by (simp add: extra_parameters_def)
qed

text \<open>
  C6. In a registration (the six well-known values decoded, the request id not empty)
  whose query has the decoded pairs \<open>pairs\<close>, from left to right, the stored text is that
  of a descriptor whose query string is the decoded \<^verbatim>\<open>vscode-query\<close>, the empty string
  if there is none, followed by one \<^verbatim>\<open>key=value\<close> for every key outside the well-known
  set, with the first value of the key, in the order in which the query object is
  enumerated: the keys that are array indices in ascending order, then the others in the
  order of their first occurrence. The first pair follows without a separator, every
  later one after \<^verbatim>\<open>&\<close>; without such a key the query string is the decoded
  \<^verbatim>\<open>vscode-query\<close> as it is. When no key occurs twice and none is an array index,
  these are all the pairs outside the well-known set in the order of the URL.
\<close>

theorem extra_query_values_appended:
  assumes "query parsed = querystring_parse pairs"
    and "decodeWellKnown parsed =
      Some [Some R, vscodeScheme, vscodeAuthority, vscodePath, vscodeQuery, vscodeFragment]"
    and "R \<noteq> []"
  shows "(\<exists>out d.
        handleCallback h req parsed store = (out, store(R \<mapsto> descriptor_text d))
        \<and> uri_query d =
            (if extra_parameters pairs = [] then vscodeQuery
             else Some ((case vscodeQuery of None \<Rightarrow> [] | Some s \<Rightarrow> s)
                    @ joined_pairs (extra_parameters pairs))))
     \<and> (distinct (map fst pairs) \<and> (\<forall>k\<in>set (map fst pairs). array_index k = None)
        \<longrightarrow> extra_parameters pairs = filter (\<lambda>p. fst p \<notin> set wellKnownKeys) pairs)"
proof (intro conjI impI)
  let ?out = "Some
      (serveFile h req
         (path_join [APP_ROOT h, ''resources'', ''serverless'', ''callback.html''])
         [(''Content-Type'', ''text/html'')])"
  let ?d = "\<lparr>uri_scheme =
        (case vscodeScheme of
           None \<Rightarrow> ''code-oss''
         | Some s \<Rightarrow> if s = [] then ''code-oss'' else s),
      uri_authority = vscodeAuthority,
      uri_path = vscodePath,
      uri_query =
        appendQueryValues (getFirstQueryValues parsed (Some wellKnownKeys)) vscodeQuery 0,
      uri_fragment = vscodeFragment\<rparr>"
  have reg: "handleCallback h req parsed store = (?out, store(R \<mapsto> descriptor_text ?d))"
    using handleCallback_registers [OF assms(2,3), of h req store]
    by (simp only: JSON_stringify_descriptor_text)
  have "distinct (map fst (query parsed))"
    unfolding assms(1) by (rule querystring_parse_distinct)
  then have "getFirstQueryValues parsed (Some wellKnownKeys) = extra_pairs parsed"
    by (rule getFirstQueryValues_extra_pairs)
  also have "\<dots> = extra_parameters pairs"
    using assms(1) by (rule extra_pairs_querystring_parse)
  finally have q: "uri_query ?d =
      (if extra_parameters pairs = [] then vscodeQuery
       else Some ((case vscodeQuery of None \<Rightarrow> [] | Some s \<Rightarrow> s)
              @ joined_pairs (extra_parameters pairs)))"
    by (simp add: appendQueryValues_joined)
  show "\<exists>out d.
      handleCallback h req parsed store = (out, store(R \<mapsto> descriptor_text d))
      \<and> uri_query d =
          (if extra_parameters pairs = [] then vscodeQuery
           else Some ((case vscodeQuery of None \<Rightarrow> [] | Some s \<Rightarrow> s)
                  @ joined_pairs (extra_parameters pairs)))"
  proof (intro exI conjI)
    show "handleCallback h req parsed store = (?out, store(R \<mapsto> descriptor_text ?d))"
      by (rule reg)
    show "uri_query ?d =
        (if extra_parameters pairs = [] then vscodeQuery
         else Some ((case vscodeQuery of None \<Rightarrow> [] | Some s \<Rightarrow> s)
                @ joined_pairs (extra_parameters pairs)))"
      by (rule q)
  qed
next
  assume "distinct (map fst pairs) \<and> (\<forall>k\<in>set (map fst pairs). array_index k = None)"
  then show "extra_parameters pairs = filter (\<lambda>p. fst p \<notin> set wellKnownKeys) pairs"
    using extra_parameters_plain [of pairs] by blast
qed

lemma array_index_example:
  "array_index ''b'' = None"
  "array_index ''a'' = None"
  "array_index ''vscode-requestId'' = None"
  "array_index ''vscode-query'' = None"
  "array_index ''1'' = Some 1"
  "array_index ''2'' = Some 2"
  by (simp_all add: array_index_def decimal_digit_def)

lemma querystring_parse_forwarding:
  "querystring_parse forwarding_pairs
     = [(''b'', Single ''1''), (''vscode-requestId'', Single ''r''),
        (''vscode-query'', Single ''k%3Dv''), (''a'', Single ''x'')]"
  by (simp add: querystring_parse_def forwarding_pairs_def addKeyValue_def own_properties_def
      array_index_example)

theorem extra_query_values_appended_witness:
  "query forwarding_registration = querystring_parse forwarding_pairs
   \<and> decodeWellKnown forwarding_registration =
       Some [Some ''r'', None, None, None, Some ''k=v'', None]
   \<and> ''r'' \<noteq> []
   \<and> distinct (map fst forwarding_pairs)
   \<and> array_index ''b'' = None \<and> array_index ''vscode-requestId'' = None
   \<and> array_index ''vscode-query'' = None \<and> array_index ''a'' = None
   \<and> extra_parameters forwarding_pairs = [(''b'', ''1''), (''a'', ''x'')]
   \<and> (\<exists>out d.
         handleCallback example_host plain_request forwarding_registration Map.empty
           = (out, [''r'' \<mapsto> descriptor_text d])
         \<and> uri_query d = Some ''k=vb=1&a=x'')
   \<and> snd (handleCallback example_host plain_request forwarding_registration Map.empty)
       = [''r'' \<mapsto> ''{'' @ [CHR 0x22] @ ''scheme'' @ [CHR 0x22] @ '':'' @ [CHR 0x22] @ ''code-oss''
         @ [CHR 0x22] @ '','' @ [CHR 0x22] @ ''query'' @ [CHR 0x22] @ '':'' @ [CHR 0x22]
         @ ''k=vb=1&a=x'' @ [CHR 0x22] @ ''}'']"
proof -
  have r: "''r'' \<noteq> []" by simp
  have p: "query forwarding_registration = querystring_parse forwarding_pairs"
    by (simp add: forwarding_registration_def)
  have w: "decodeWellKnown forwarding_registration =
      Some [Some ''r'', None, None, None, Some ''k=v'', None]"
    by (simp add: callback_eval forwarding_registration_def querystring_parse_forwarding)
  have d: "distinct (map fst forwarding_pairs)"
    by (simp add: forwarding_pairs_def)
  have a: "\<forall>k\<in>set (map fst forwarding_pairs). array_index k = None"
    by (simp add: forwarding_pairs_def array_index_example)
  note t = extra_query_values_appended [OF p w r, of example_host plain_request Map.empty]
  from t d a have e: "extra_parameters forwarding_pairs
      = filter (\<lambda>p. fst p \<notin> set wellKnownKeys) forwarding_pairs"
    by blast
  then have e': "extra_parameters forwarding_pairs = [(''b'', ''1''), (''a'', ''x'')]"
    by (simp add: forwarding_pairs_def wellKnownKeys_def)
  from t obtain out d where
    h: "handleCallback example_host plain_request forwarding_registration Map.empty
       = (out, [''r'' \<mapsto> descriptor_text d])"
    and "uri_query d =
       (if extra_parameters forwarding_pairs = [] then Some ''k=v''
        else Some ((case Some ''k=v'' of None \<Rightarrow> [] | Some s \<Rightarrow> s)
               @ joined_pairs (extra_parameters forwarding_pairs)))"
    by blast
  then have u: "uri_query d = Some ''k=vb=1&a=x''"
    by (simp add: e' joined_pairs_def)
  have "getFirstQueryValues forwarding_registration (Some wellKnownKeys)
      = [(''b'', ''1''), (''a'', ''x'')]"
    by (simp add: getFirstQueryValues_def getFirstQueryValue_def first_of_def
        forwarding_registration_def querystring_parse_forwarding wellKnownKeys_def)
  then have s: "snd (handleCallback example_host plain_request forwarding_registration Map.empty)
      = [''r'' \<mapsto> ''{'' @ [CHR 0x22] @ ''scheme'' @ [CHR 0x22] @ '':'' @ [CHR 0x22] @ ''code-oss''
         @ [CHR 0x22] @ '','' @ [CHR 0x22] @ ''query'' @ [CHR 0x22] @ '':'' @ [CHR 0x22]
         @ ''k=vb=1&a=x'' @ [CHR 0x22] @ ''}'']"
    by (simp add: handleCallback_registers [OF w] JSON_stringify_descriptor_text
        descriptor_text_example)
  from h u have "\<exists>out d.
      handleCallback example_host plain_request forwarding_registration Map.empty
        = (out, [''r'' \<mapsto> descriptor_text d])
      \<and> uri_query d = Some ''k=vb=1&a=x''"
    by blast
  with p w r d e' s show ?thesis by (simp add: array_index_example)
qed

text \<open>
  Against C6 as stated. In \<^verbatim>\<open>/callback?b=1&2=x&1=y&vscode-requestId=r\<close> the parameters
  outside the well-known set are met in the order \<^verbatim>\<open>b\<close>, \<^verbatim>\<open>2\<close>, \<^verbatim>\<open>1\<close>, which
  would give \<^verbatim>\<open>b=1&2=x&1=y\<close>; the stored query string is \<^verbatim>\<open>1=y&2=x&b=1\<close>. In
  \<^verbatim>\<open>/callback?a=x&vscode-requestId=r&a=y\<close> the parameter \<^verbatim>\<open>a=y\<close> is not appended at
  all: the stored query string is \<^verbatim>\<open>a=x\<close>.
\<close>

theorem extra_query_values_not_in_url_order:
  "numbered_pairs = [(''b'', ''1''), (''2'', ''x''), (''1'', ''y''), (''vscode-requestId'', ''r'')]
   \<and> query numbered_registration = querystring_parse numbered_pairs
   \<and> joined_pairs [(''b'', ''1''), (''2'', ''x''), (''1'', ''y'')] = ''b=1&2=x&1=y''
   \<and> snd (handleCallback example_host plain_request numbered_registration Map.empty)
       = [''r'' \<mapsto> ''{'' @ [CHR 0x22] @ ''scheme'' @ [CHR 0x22] @ '':'' @ [CHR 0x22] @ ''code-oss''
         @ [CHR 0x22] @ '','' @ [CHR 0x22] @ ''query'' @ [CHR 0x22] @ '':'' @ [CHR 0x22]
         @ ''1=y&2=x&b=1'' @ [CHR 0x22] @ ''}'']
   \<and> repeated_pairs = [(''a'', ''x''), (''vscode-requestId'', ''r''), (''a'', ''y'')]
   \<and> query repeated_registration = querystring_parse repeated_pairs
   \<and> joined_pairs [(''a'', ''x''), (''a'', ''y'')] = ''a=x&a=y''
   \<and> snd (handleCallback example_host plain_request repeated_registration Map.empty)
       = [''r'' \<mapsto> ''{'' @ [CHR 0x22] @ ''scheme'' @ [CHR 0x22] @ '':'' @ [CHR 0x22] @ ''code-oss''
         @ [CHR 0x22] @ '','' @ [CHR 0x22] @ ''query'' @ [CHR 0x22] @ '':'' @ [CHR 0x22]
         @ ''a=x'' @ [CHR 0x22] @ ''}'']"
proof -
  have n: "decodeWellKnown numbered_registration = Some [Some ''r'', None, None, None, None, None]"
    by (simp add: callback_eval numbered_registration_def querystring_parse_numbered)
  have n': "getFirstQueryValues numbered_registration (Some wellKnownKeys)
      = [(''1'', ''y''), (''2'', ''x''), (''b'', ''1'')]"
    by (simp add: getFirstQueryValues_def getFirstQueryValue_def first_of_def
        numbered_registration_def querystring_parse_numbered wellKnownKeys_def)
  have r: "decodeWellKnown repeated_registration = Some [Some ''r'', None, None, None, None, None]"
    by (simp add: callback_eval repeated_registration_def querystring_parse_repeated)
  have r': "getFirstQueryValues repeated_registration (Some wellKnownKeys) = [(''a'', ''x'')]"
    by (simp add: getFirstQueryValues_def getFirstQueryValue_def first_of_def
        repeated_registration_def querystring_parse_repeated wellKnownKeys_def)
  have "snd (handleCallback example_host plain_request numbered_registration Map.empty)
      = [''r'' \<mapsto> ''{'' @ [CHR 0x22] @ ''scheme'' @ [CHR 0x22] @ '':'' @ [CHR 0x22] @ ''code-oss''
         @ [CHR 0x22] @ '','' @ [CHR 0x22] @ ''query'' @ [CHR 0x22] @ '':'' @ [CHR 0x22]
         @ ''1=y&2=x&b=1'' @ [CHR 0x22] @ ''}'']"
    by (simp add: handleCallback_registers [OF n] n' JSON_stringify_descriptor_text
        descriptor_text_example)
  moreover have "snd (handleCallback example_host plain_request repeated_registration Map.empty)
      = [''r'' \<mapsto> ''{'' @ [CHR 0x22] @ ''scheme'' @ [CHR 0x22] @ '':'' @ [CHR 0x22] @ ''code-oss''
         @ [CHR 0x22] @ '','' @ [CHR 0x22] @ ''query'' @ [CHR 0x22] @ '':'' @ [CHR 0x22]
         @ ''a=x'' @ [CHR 0x22] @ ''}'']"
    by (simp add: handleCallback_registers [OF r] r' JSON_stringify_descriptor_text
        descriptor_text_example)
  moreover have "joined_pairs [(''b'', ''1''), (''2'', ''x''), (''1'', ''y'')] = ''b=1&2=x&1=y''"
    and "joined_pairs [(''a'', ''x''), (''a'', ''y'')] = ''a=x&a=y''"
    by (simp_all add: joined_pairs_def)
  ultimately show ?thesis
    by (simp add: numbered_pairs_def repeated_pairs_def numbered_registration_def
        repeated_registration_def)
qed

subsection \<open>A value that is not a percent-encoding\<close>

text \<open>
  C7. The specification asks for status 400 exactly when \<^verbatim>\<open>vscode-requestId\<close> is absent
  or empty, whatever the other parameters are, and for a registration when it is present.
  \<^verbatim>\<open>handleCallback\<close> applies \<^verbatim>\<open>decodeURIComponent\<close> to the six well-known values before
  it looks at the request id. For \<^verbatim>\<open>/callback?vscode-scheme=%25\<close>, which has no request
  id, and for \<^verbatim>\<open>/callback?vscode-requestId=100%25\<close>, which has one, the decoding throws:
  the promise of the handler rejects, no response is written (so no 400), and nothing is
  registered.
\<close>

theorem callback_malformed_value_unanswered:
  "getFirstQueryValue malformed_scheme_callback ''vscode-requestId'' = None
   \<and> handleCallback example_host plain_request malformed_scheme_callback Map.empty
       = (None, Map.empty)
   \<and> getFirstQueryValue malformed_id_callback ''vscode-requestId'' = Some ''100%''
   \<and> handleCallback example_host plain_request malformed_id_callback Map.empty
       = (None, Map.empty)"
  by (simp add: handleCallback_def callback_eval malformed_scheme_callback_def
      malformed_id_callback_def)

text \<open>
  What does hold of the two handlers: \<^verbatim>\<open>handleFetchCallback\<close> always answers, with 400
  exactly when the request id is absent or empty; and \<^verbatim>\<open>handleCallback\<close> answers 400
  to a request without a request id whose well-known values all decode.
\<close>

lemma handleFetchCallback_status:
  "\<exists>r store'. handleFetchCallback parsed store = (Some r, store')
     \<and> (status r = 400) = (\<not> truthy (getFirstQueryValue parsed ''vscode-requestId''))
     \<and> (status r = 200) = truthy (getFirstQueryValue parsed ''vscode-requestId'')"
  by (auto simp: handleFetchCallback_def truthy_def serveError_def Let_def split: option.splits)

lemma handleCallback_no_id:
  assumes "decodeWellKnown parsed = Some decoded"
    and "\<not> truthy (getFirstQueryValue parsed ''vscode-requestId'')"
  shows "handleCallback h req parsed store = (Some (serveError 400 ''Bad request.'', []), store)"
proof -
  from those_map_eq_SomeD [OF assms(1) [unfolded decodeWellKnown_def]]
  have "decoded ! 0 = the (decodeQueryValue parsed ''vscode-requestId'')"
    by (simp add: wellKnownKeys_def)
  with assms(2) have "\<not> truthy (decoded ! 0)"
    by (auto simp: decodeQueryValue_def truthy_def split: option.splits)
  with assms(1) show ?thesis
    by (auto simp: handleCallback_def truthy_def Let_def split: option.splits)
qed

text \<open>
  At the listener the difference shows: the \<^verbatim>\<open>URIError\<close> of a static handler is thrown
  inside the \<^verbatim>\<open>try\<close> block and becomes a 500, while that of \<^verbatim>\<open>handleCallback\<close>
  rejects a promise and the request stays unanswered.
\<close>

lemma listener_static_malformed_500:
  "requestListener example_host (Some []) plain_request \<lparr>pathname = ''/static/%'', query = []\<rparr>
     Map.empty
   = (Some (serveError 500 ''Internal Server Error.'', []), Map.empty)"
  by (simp add: requestListener_def handleStatic_def)

lemma listener_callback_malformed_unanswered:
  "requestListener example_host (Some []) plain_request malformed_scheme_callback Map.empty
   = (None, Map.empty)"
proof -
  have "pathname malformed_scheme_callback = ''/callback''"
    by (simp add: malformed_scheme_callback_def)
  moreover have "handleCallback example_host plain_request malformed_scheme_callback Map.empty
      = (None, Map.empty)"
    by (simp add: handleCallback_def callback_eval malformed_scheme_callback_def)
  ultimately show ?thesis by (simp add: requestListener_def)
qed

subsection \<open>The scheme of the stored descriptor\<close>

text \<open>
  C9, as the code has it. In a registration (the six well-known values decoded, the
  request id not empty) the scheme of the stored descriptor is \<^verbatim>\<open>code-oss\<close> when
  \<^verbatim>\<open>vscode-scheme\<close> is absent or empty; a value that is not empty is stored as
  \<^verbatim>\<open>decodeURIComponent\<close> returns it, and so as it was given when it holds no
  \<^verbatim>\<open>%\<close>.
\<close>

theorem callback_scheme_default:
  assumes "decodeWellKnown parsed =
      Some [Some R, vscodeScheme, vscodeAuthority, vscodePath, vscodeQuery, vscodeFragment]"
    and "R \<noteq> []"
  shows "\<exists>out d.
      handleCallback h req parsed store = (out, store(R \<mapsto> JSON_stringify (descriptor_json d)))
      \<and> (case getFirstQueryValue parsed ''vscode-scheme'' of
            None \<Rightarrow> uri_scheme d = ''code-oss''
          | Some s \<Rightarrow>
              if s = [] then uri_scheme d = ''code-oss''
              else decodeURIComponent s = Some (uri_scheme d)
                \<and> (CHR ''%'' \<notin> set s \<longrightarrow> uri_scheme d = s))"
proof -
  let ?out = "Some
      (serveFile h req
         (path_join [APP_ROOT h, ''resources'', ''serverless'', ''callback.html''])
         [(''Content-Type'', ''text/html'')])"
  let ?scheme = "case vscodeScheme of
         None \<Rightarrow> ''code-oss''
       | Some s \<Rightarrow> if s = [] then ''code-oss'' else s"
  let ?d = "\<lparr>uri_scheme = ?scheme,
      uri_authority = vscodeAuthority,
      uri_path = vscodePath,
      uri_query =
        appendQueryValues (getFirstQueryValues parsed (Some wellKnownKeys)) vscodeQuery 0,
      uri_fragment = vscodeFragment\<rparr>"
  have reg: "handleCallback h req parsed store =
      (?out, store(R \<mapsto> JSON_stringify (descriptor_json ?d)))"
    using assms by (rule handleCallback_registers)
  have v: "decodeQueryValue parsed ''vscode-scheme'' = Some vscodeScheme"
    using assms(1) by (rule decodeWellKnown_values)
  have s: "case getFirstQueryValue parsed ''vscode-scheme'' of
        None \<Rightarrow> uri_scheme ?d = ''code-oss''
      | Some s \<Rightarrow>
          if s = [] then uri_scheme ?d = ''code-oss''
          else decodeURIComponent s = Some (uri_scheme ?d)
            \<and> (CHR ''%'' \<notin> set s \<longrightarrow> uri_scheme ?d = s)"
  proof (cases "getFirstQueryValue parsed ''vscode-scheme''")
    case None
    with v show ?thesis by (simp add: decodeQueryValue_def)
  next
    case (Some s)
    show ?thesis
    proof (cases "s = []")
      case True
      with v Some show ?thesis by (auto simp: decodeQueryValue_def)
    next
      case False
      with v Some obtain t where t: "decodeURIComponent s = Some t" and vs: "vscodeScheme = Some t"
        by (auto simp: decodeQueryValue_def)
      from decodeURIComponent_not_Nil [OF False t] have "t \<noteq> []" .
      with t vs Some False show ?thesis
        by (auto simp: decodeURIComponent_plain)
    qed
  qed
  show ?thesis
  proof (intro exI conjI)
    show "handleCallback h req parsed store =
        (?out, store(R \<mapsto> JSON_stringify (descriptor_json ?d)))"
      by (rule reg)
    show "case getFirstQueryValue parsed ''vscode-scheme'' of
        None \<Rightarrow> uri_scheme ?d = ''code-oss''
      | Some s \<Rightarrow>
          if s = [] then uri_scheme ?d = ''code-oss''
          else decodeURIComponent s = Some (uri_scheme ?d)
            \<and> (CHR ''%'' \<notin> set s \<longrightarrow> uri_scheme ?d = s)"
      by (rule s)
  qed
qed

theorem callback_scheme_default_witness:
  "decodeWellKnown example_registration =
     Some [Some ''r'', None, None, None, Some ''k=v'', None]
   \<and> decodeWellKnown plain_scheme_registration =
     Some [Some ''r'', Some ''vscode'', None, None, None, None]
   \<and> ''r'' \<noteq> []
   \<and> getFirstQueryValue example_registration ''vscode-scheme'' = None
   \<and> getFirstQueryValue plain_scheme_registration ''vscode-scheme'' = Some ''vscode''
   \<and> (\<exists>out d.
         handleCallback example_host plain_request example_registration Map.empty
           = (out, [''r'' \<mapsto> JSON_stringify (descriptor_json d)])
         \<and> uri_scheme d = ''code-oss'')
   \<and> (\<exists>out d.
         handleCallback example_host plain_request plain_scheme_registration Map.empty
           = (out, [''r'' \<mapsto> JSON_stringify (descriptor_json d)])
         \<and> uri_scheme d = ''vscode'')"
proof -
  have r: "''r'' \<noteq> []" by simp
  have p: "decodeWellKnown plain_scheme_registration =
      Some [Some ''r'', Some ''vscode'', None, None, None, None]"
    by (simp add: callback_eval plain_scheme_registration_def)
  have g: "getFirstQueryValue example_registration ''vscode-scheme'' = None"
    by (simp add: getFirstQueryValue_def example_registration_def)
  have g': "getFirstQueryValue plain_scheme_registration ''vscode-scheme'' = Some ''vscode''"
    by (simp add: getFirstQueryValue_def first_of_def plain_scheme_registration_def)
  have a: "\<exists>out d.
      handleCallback example_host plain_request example_registration Map.empty
        = (out, [''r'' \<mapsto> JSON_stringify (descriptor_json d)])
      \<and> uri_scheme d = ''code-oss''"
    using callback_scheme_default [OF decodeWellKnown_example r,
        of example_host plain_request Map.empty]
    by (simp add: g)
  have b: "\<exists>out d.
      handleCallback example_host plain_request plain_scheme_registration Map.empty
        = (out, [''r'' \<mapsto> JSON_stringify (descriptor_json d)])
      \<and> uri_scheme d = ''vscode''"
    using callback_scheme_default [OF p r, of example_host plain_request Map.empty]
    by (auto simp: g')
  from decodeWellKnown_example p r g g' a b show ?thesis by blast
qed

text \<open>
  C9, as it was stated: a scheme that is not empty is stored as given. This fails for a
  value with a percent escape: \<^verbatim>\<open>/callback?vscode-requestId=r&vscode-scheme=a%2541\<close> reaches the
  handler with the value \<^verbatim>\<open>a%41\<close>, and the descriptor stored under \<^verbatim>\<open>r\<close> has the
  scheme \<^verbatim>\<open>aA\<close>.
\<close>

theorem callback_scheme_decoded_again:
  "getFirstQueryValue escaped_scheme_registration ''vscode-scheme'' = Some ''a%41''
   \<and> snd (handleCallback example_host plain_request escaped_scheme_registration Map.empty) ''r''
       = Some (JSON_stringify
           (descriptor_json
              \<lparr>uri_scheme = ''aA'', uri_authority = None, uri_path = None,
               uri_query = None, uri_fragment = None\<rparr>))
   \<and> JSON_stringify
         (descriptor_json
            \<lparr>uri_scheme = ''aA'', uri_authority = None, uri_path = None,
             uri_query = None, uri_fragment = None\<rparr>)
       \<noteq> JSON_stringify
           (descriptor_json
              \<lparr>uri_scheme = ''a%41'', uri_authority = None, uri_path = None,
               uri_query = None, uri_fragment = None\<rparr>)"
proof -
  have d: "decodeWellKnown escaped_scheme_registration =
      Some [Some ''r'', Some ''aA'', None, None, None, None]"
    by (simp add: callback_eval escaped_scheme_registration_def)
  have g: "getFirstQueryValue escaped_scheme_registration ''vscode-scheme'' = Some ''a%41''"
    by (simp add: getFirstQueryValue_def first_of_def escaped_scheme_registration_def)
  have e: "getFirstQueryValues escaped_scheme_registration (Some wellKnownKeys) = []"
    by (simp add: getFirstQueryValues_def escaped_scheme_registration_def wellKnownKeys_def)
  have s: "snd (handleCallback example_host plain_request escaped_scheme_registration Map.empty)
        ''r''
      = Some (JSON_stringify
          (descriptor_json
             \<lparr>uri_scheme = ''aA'', uri_authority = None, uri_path = None,
              uri_query = None, uri_fragment = None\<rparr>))"
    by (simp add: handleCallback_registers [OF d] e)
  have n: "JSON_stringify
        (descriptor_json
           \<lparr>uri_scheme = ''aA'', uri_authority = None, uri_path = None,
            uri_query = None, uri_fragment = None\<rparr>)
      \<noteq> JSON_stringify
          (descriptor_json
             \<lparr>uri_scheme = ''a%41'', uri_authority = None, uri_path = None,
              uri_query = None, uri_fragment = None\<rparr>)"
    by (simp add: descriptor_json_def object_literal_def
        QuoteJSONString_def json_escape_def)
  from g s n show ?thesis by blast
qed

section \<open>Properties of extension discovery\<close>

lemma set_map_filter_Some:
  "set (List.map_filter f xs) = {y. \<exists>x. x \<in> set xs \<and> f x = Some y}"
  by (induction xs) (auto split: option.splits)

lemma discoverExtension_path:
  "discoverExtension h folderName = Some e \<Longrightarrow> ext_extensionPath e = folderName"
  by (auto simp: discoverExtension_def Let_def split: option.splits if_splits)

lemma native_only_excluded:
  assumes "fs_readJSON h (path_join [EXTENSIONS_ROOT h, folderName, ''package.json'']) = Some j"
    and "json_get j ''main'' = Some main" and "json_truthy main"
    and "json_get j ''browser'' = Some browser" and "\<not> json_truthy browser"
  shows "discoverExtension h folderName = None"
  using assms by (simp add: discoverExtension_def Let_def split: option.splits)

lemma web_capable_included:
  assumes "fs_readdir h (path_join [EXTENSIONS_ROOT h, folderName]) = Some children"
    and "fs_exists h (path_join [EXTENSIONS_ROOT h, folderName, ''package.json''])"
    and "fs_readJSON h (path_join [EXTENSIONS_ROOT h, folderName, ''package.json''])
      = Some (JObj ms)"
    and "(\<exists>s. map_of ms ''browser'' = Some (JStr s) \<and> s \<noteq> [])
      \<or> (\<not> json_truthy (map_of ms ''main'') \<and> \<not> json_truthy (map_of ms ''browser''))"
  shows "\<exists>e. discoverExtension h folderName = Some e \<and> ext_extensionPath e = folderName
     \<and> ext_packageJSON e =
         json_set
           (case map_of ms ''browser'' of
              Some (JStr s) \<Rightarrow> if s \<noteq> [] then json_set (JObj ms) ''main'' (JStr s) else JObj ms
            | _ \<Rightarrow> JObj ms)
           ''extensionKind'' (JArr [JStr ''web''])"
  using assms(4)
proof
  assume "\<exists>s. map_of ms ''browser'' = Some (JStr s) \<and> s \<noteq> []"
  then obtain s where "map_of ms ''browser'' = Some (JStr s)" and "s \<noteq> []" by blast
  with assms(1-3) show ?thesis
    by (simp add: discoverExtension_def Let_def json_get_def)
next
  assume a: "\<not> json_truthy (map_of ms ''main'') \<and> \<not> json_truthy (map_of ms ''browser'')"
  then have "(case map_of ms ''browser'' of
        Some (JStr s) \<Rightarrow> if s \<noteq> [] then json_set (JObj ms) ''main'' (JStr s) else JObj ms
      | _ \<Rightarrow> JObj ms) = JObj ms"
    by (auto split: option.splits json.splits)
  with a assms(1-3) show ?thesis
    by (auto simp: discoverExtension_def Let_def json_get_def split: option.splits)
qed

text \<open>
  Which folders contribute an entry: a folder that can be read and whose
  \<^verbatim>\<open>package.json\<close> exists and holds an object contributes one exactly when the
  \<^verbatim>\<open>browser\<close> property is a string that is not empty, or neither \<^verbatim>\<open>main\<close> nor
  \<^verbatim>\<open>browser\<close> is truthy.
\<close>

lemma discoverExtension_iff:
  assumes "fs_readdir h (path_join [EXTENSIONS_ROOT h, folderName]) = Some children"
    and "fs_exists h (path_join [EXTENSIONS_ROOT h, folderName, ''package.json''])"
    and "fs_readJSON h (path_join [EXTENSIONS_ROOT h, folderName, ''package.json''])
      = Some (JObj ms)"
  shows "(discoverExtension h folderName \<noteq> None)
     = ((\<exists>s. map_of ms ''browser'' = Some (JStr s) \<and> s \<noteq> [])
        \<or> (\<not> json_truthy (map_of ms ''main'') \<and> \<not> json_truthy (map_of ms ''browser'')))"
proof
  assume d: "discoverExtension h folderName \<noteq> None"
  show "(\<exists>s. map_of ms ''browser'' = Some (JStr s) \<and> s \<noteq> [])
      \<or> (\<not> json_truthy (map_of ms ''main'') \<and> \<not> json_truthy (map_of ms ''browser''))"
  proof (cases "json_truthy (map_of ms ''browser'')")
    case False
    with d assms show ?thesis
      by (auto simp: discoverExtension_def Let_def json_get_def split: if_splits)
  next
    case True
    with d assms have "case map_of ms ''browser'' of Some (JStr s) \<Rightarrow> True | _ \<Rightarrow> False"
      by (auto simp: discoverExtension_def Let_def json_get_def
          split: if_splits option.splits json.splits)
    with True show ?thesis by (auto split: option.splits json.splits)
  qed
next
  assume "(\<exists>s. map_of ms ''browser'' = Some (JStr s) \<and> s \<noteq> [])
      \<or> (\<not> json_truthy (map_of ms ''main'') \<and> \<not> json_truthy (map_of ms ''browser''))"
  with web_capable_included [OF assms] show "discoverExtension h folderName \<noteq> None"
    by auto
qed

text \<open>
  The catalog of a directory with the folders \<open>web\<close> and \<open>native\<close>, the first read as
  above, the second with \<^verbatim>\<open>main\<close> and no \<^verbatim>\<open>browser\<close>.
\<close>

lemma two_folders_catalog:
  assumes "fs_readdirWithFileTypes h (EXTENSIONS_ROOT h) = Some listing"
    and "set (map fst (filter (\<lambda>c. \<not> snd c) listing)) = {web, native}"
    and "fs_readdir h (path_join [EXTENSIONS_ROOT h, web]) = Some children"
    and "fs_exists h (path_join [EXTENSIONS_ROOT h, web, ''package.json''])"
    and "fs_readJSON h (path_join [EXTENSIONS_ROOT h, web, ''package.json'']) = Some (JObj ms)"
    and "(\<exists>s. map_of ms ''browser'' = Some (JStr s) \<and> s \<noteq> [])
      \<or> (\<not> json_truthy (map_of ms ''main'') \<and> \<not> json_truthy (map_of ms ''browser''))"
    and "fs_readJSON h (path_join [EXTENSIONS_ROOT h, native, ''package.json'']) = Some j"
    and "json_get j ''main'' = Some main" and "json_truthy main"
    and "json_get j ''browser'' = Some browser" and "\<not> json_truthy browser"
  shows "\<exists>catalog e.
      initialize h = Some catalog \<and> set catalog = {e}
      \<and> discoverExtension h web = Some e \<and> discoverExtension h native = None
      \<and> ext_extensionPath e = web
      \<and> ext_packageJSON e =
          json_set
            (case map_of ms ''browser'' of
               Some (JStr s) \<Rightarrow> if s \<noteq> [] then json_set (JObj ms) ''main'' (JStr s) else JObj ms
             | _ \<Rightarrow> JObj ms)
            ''extensionKind'' (JArr [JStr ''web''])"
proof -
  from web_capable_included [OF assms(3-6)] obtain e where
    e: "discoverExtension h web = Some e" and p: "ext_extensionPath e = web"
    and k: "ext_packageJSON e =
          json_set
            (case map_of ms ''browser'' of
               Some (JStr s) \<Rightarrow> if s \<noteq> [] then json_set (JObj ms) ''main'' (JStr s) else JObj ms
             | _ \<Rightarrow> JObj ms)
            ''extensionKind'' (JArr [JStr ''web''])"
    by blast
  have n: "discoverExtension h native = None"
    using assms(7-11) by (rule native_only_excluded)
  let ?folders = "filter (\<lambda>c. \<not> snd c) listing"
  let ?catalog = "List.map_filter (\<lambda>folder. discoverExtension h (fst folder)) ?folders"
  have i: "initialize h = Some ?catalog"
    using assms(1) by (simp add: initialize_def)
  have "set ?catalog = {y. \<exists>x. x \<in> set ?folders \<and> discoverExtension h (fst x) = Some y}"
    by (rule set_map_filter_Some)
  also have "\<dots> = {e}"
  proof (rule set_eqI)
    fix y
    show "(y \<in> {y. \<exists>x. x \<in> set ?folders \<and> discoverExtension h (fst x) = Some y}) = (y \<in> {e})"
    proof
      assume "y \<in> {y. \<exists>x. x \<in> set ?folders \<and> discoverExtension h (fst x) = Some y}"
      then obtain x where x: "x \<in> set ?folders" and y: "discoverExtension h (fst x) = Some y"
        by blast
      from x have "fst x \<in> fst ` set ?folders" by (rule imageI)
      then have "fst x \<in> set (map fst ?folders)" by (simp only: set_map)
      with assms(2) have "fst x = web \<or> fst x = native" by simp
      with y e n show "y \<in> {e}" by auto
    next
      assume "y \<in> {e}"
      then have ye: "y = e" by simp
      from assms(2) have "web \<in> set (map fst ?folders)" by simp
      then obtain x where "x \<in> set ?folders" and "fst x = web" by auto
      with e ye show "y \<in> {y. \<exists>x. x \<in> set ?folders \<and> discoverExtension h (fst x) = Some y}"
        by blast
    qed
  qed
  finally have s: "set ?catalog = {e}" .
  show ?thesis
  proof (intro exI conjI)
    show "initialize h = Some ?catalog" by (rule i)
    show "set ?catalog = {e}" by (rule s)
    show "discoverExtension h web = Some e" by (rule e)
    show "discoverExtension h native = None" by (rule n)
    show "ext_extensionPath e = web" by (rule p)
    show "ext_packageJSON e =
          json_set
            (case map_of ms ''browser'' of
               Some (JStr s) \<Rightarrow> if s \<noteq> [] then json_set (JObj ms) ''main'' (JStr s) else JObj ms
             | _ \<Rightarrow> JObj ms)
            ''extensionKind'' (JArr [JStr ''web''])"
      by (rule k)
  qed
qed

text \<open>Whatever the directory holds, a folder with \<^verbatim>\<open>main\<close> and no \<^verbatim>\<open>browser\<close> is left out.\<close>

lemma native_only_never_listed:
  assumes "initialize h = Some catalog"
    and "fs_readJSON h (path_join [EXTENSIONS_ROOT h, folderName, ''package.json'']) = Some j"
    and "json_get j ''main'' = Some main" and "json_truthy main"
    and "json_get j ''browser'' = Some browser" and "\<not> json_truthy browser"
  shows "folderName \<notin> ext_extensionPath ` set catalog"
proof
  assume "folderName \<in> ext_extensionPath ` set catalog"
  then obtain y where m: "y \<in> set catalog" and f: "ext_extensionPath y = folderName" by auto
  from assms(1) obtain listing where
    c: "catalog = List.map_filter (\<lambda>folder. discoverExtension h (fst folder))
          (filter (\<lambda>c. \<not> snd c) listing)"
    by (auto simp: initialize_def split: option.splits)
  from m have "y \<in> {y. \<exists>x. x \<in> set (filter (\<lambda>c. \<not> snd c) listing)
      \<and> discoverExtension h (fst x) = Some y}"
    unfolding c by (simp only: set_map_filter_Some)
  then obtain x :: "string \<times> bool" where "discoverExtension h (fst x) = Some y" by blast
  with f discoverExtension_path [of h "fst x" y]
  have "discoverExtension h folderName = Some y" by simp
  with native_only_excluded [OF assms(2-6)] show False by simp
qed

text \<open>
  C5. First, the extensions directory holds, besides files, the folders \<open>web\<close> and
  \<open>native\<close>. The folder \<open>web\<close> can be read and its descriptor is an object whose
  \<^verbatim>\<open>browser\<close> entry point is a string that is not empty, or which declares neither a
  \<^verbatim>\<open>main\<close> nor a \<^verbatim>\<open>browser\<close> entry point; the descriptor of \<open>native\<close> declares
  \<^verbatim>\<open>main\<close> and no \<^verbatim>\<open>browser\<close>. Then the catalog holds exactly the entry of \<open>web\<close>,
  whose descriptor has \<^verbatim>\<open>main\<close> set to the \<^verbatim>\<open>browser\<close> entry point and
  \<^verbatim>\<open>extensionKind\<close> set to \<^verbatim>\<open>['web']\<close>. Second, whatever the directory holds, no
  catalog has an entry for a folder whose descriptor declares \<^verbatim>\<open>main\<close> and no
  \<^verbatim>\<open>browser\<close>. Third, a readable folder whose descriptor is an object contributes an
  entry exactly under the condition on \<open>web\<close> above; so a descriptor without \<^verbatim>\<open>main\<close>
  whose \<^verbatim>\<open>browser\<close> is truthy and not a string is left out as well.
\<close>

theorem discovery_keeps_web_capable_only:
  "(fs_readdirWithFileTypes h (EXTENSIONS_ROOT h) = Some listing
      \<and> set (map fst (filter (\<lambda>c. \<not> snd c) listing)) = {web, native}
      \<and> fs_readdir h (path_join [EXTENSIONS_ROOT h, web]) = Some children
      \<and> fs_exists h (path_join [EXTENSIONS_ROOT h, web, ''package.json''])
      \<and> fs_readJSON h (path_join [EXTENSIONS_ROOT h, web, ''package.json'']) = Some (JObj ms)
      \<and> ((\<exists>s. map_of ms ''browser'' = Some (JStr s) \<and> s \<noteq> [])
           \<or> (\<not> json_truthy (map_of ms ''main'') \<and> \<not> json_truthy (map_of ms ''browser'')))
      \<and> fs_readJSON h (path_join [EXTENSIONS_ROOT h, native, ''package.json'']) = Some j
      \<and> json_get j ''main'' = Some main \<and> json_truthy main
      \<and> json_get j ''browser'' = Some browser \<and> \<not> json_truthy browser
    \<longrightarrow> (\<exists>catalog e.
          initialize h = Some catalog \<and> set catalog = {e}
          \<and> discoverExtension h web = Some e \<and> discoverExtension h native = None
          \<and> ext_extensionPath e = web
          \<and> ext_packageJSON e =
              json_set
                (case map_of ms ''browser'' of
                   Some (JStr s) \<Rightarrow>
                     if s \<noteq> [] then json_set (JObj ms) ''main'' (JStr s) else JObj ms
                 | _ \<Rightarrow> JObj ms)
                ''extensionKind'' (JArr [JStr ''web''])))
   \<and> (\<forall>catalog folderName j' main' browser'.
         initialize h = Some catalog
         \<and> fs_readJSON h (path_join [EXTENSIONS_ROOT h, folderName, ''package.json''])
             = Some j'
         \<and> json_get j' ''main'' = Some main' \<and> json_truthy main'
         \<and> json_get j' ''browser'' = Some browser' \<and> \<not> json_truthy browser'
         \<longrightarrow> folderName \<notin> ext_extensionPath ` set catalog)
   \<and> (fs_readdir h (path_join [EXTENSIONS_ROOT h, folder]) = Some entries
         \<and> fs_exists h (path_join [EXTENSIONS_ROOT h, folder, ''package.json''])
         \<and> fs_readJSON h (path_join [EXTENSIONS_ROOT h, folder, ''package.json''])
             = Some (JObj ps)
       \<longrightarrow> (discoverExtension h folder \<noteq> None)
           = ((\<exists>s. map_of ps ''browser'' = Some (JStr s) \<and> s \<noteq> [])
              \<or> (\<not> json_truthy (map_of ps ''main'')
                  \<and> \<not> json_truthy (map_of ps ''browser''))))"
proof (intro conjI allI impI)
  assume a: "fs_readdirWithFileTypes h (EXTENSIONS_ROOT h) = Some listing
      \<and> set (map fst (filter (\<lambda>c. \<not> snd c) listing)) = {web, native}
      \<and> fs_readdir h (path_join [EXTENSIONS_ROOT h, web]) = Some children
      \<and> fs_exists h (path_join [EXTENSIONS_ROOT h, web, ''package.json''])
      \<and> fs_readJSON h (path_join [EXTENSIONS_ROOT h, web, ''package.json'']) = Some (JObj ms)
      \<and> ((\<exists>s. map_of ms ''browser'' = Some (JStr s) \<and> s \<noteq> [])
           \<or> (\<not> json_truthy (map_of ms ''main'') \<and> \<not> json_truthy (map_of ms ''browser'')))
      \<and> fs_readJSON h (path_join [EXTENSIONS_ROOT h, native, ''package.json'']) = Some j
      \<and> json_get j ''main'' = Some main \<and> json_truthy main
      \<and> json_get j ''browser'' = Some browser \<and> \<not> json_truthy browser"
  show "\<exists>catalog e.
      initialize h = Some catalog \<and> set catalog = {e}
      \<and> discoverExtension h web = Some e \<and> discoverExtension h native = None
      \<and> ext_extensionPath e = web
      \<and> ext_packageJSON e =
          json_set
            (case map_of ms ''browser'' of
               Some (JStr s) \<Rightarrow>
                 if s \<noteq> [] then json_set (JObj ms) ''main'' (JStr s) else JObj ms
             | _ \<Rightarrow> JObj ms)
            ''extensionKind'' (JArr [JStr ''web''])"
    using a
    by (intro two_folders_catalog [of h listing web native children ms j main browser])
      simp_all
next
  fix catalog folderName j' main' browser'
  assume "initialize h = Some catalog
      \<and> fs_readJSON h (path_join [EXTENSIONS_ROOT h, folderName, ''package.json'']) = Some j'
      \<and> json_get j' ''main'' = Some main' \<and> json_truthy main'
      \<and> json_get j' ''browser'' = Some browser' \<and> \<not> json_truthy browser'"
  then show "folderName \<notin> ext_extensionPath ` set catalog"
    using native_only_never_listed [of h catalog folderName j' main' browser'] by blast
next
  assume "fs_readdir h (path_join [EXTENSIONS_ROOT h, folder]) = Some entries
      \<and> fs_exists h (path_join [EXTENSIONS_ROOT h, folder, ''package.json''])
      \<and> fs_readJSON h (path_join [EXTENSIONS_ROOT h, folder, ''package.json'']) = Some (JObj ps)"
  then show "(discoverExtension h folder \<noteq> None)
      = ((\<exists>s. map_of ps ''browser'' = Some (JStr s) \<and> s \<noteq> [])
         \<or> (\<not> json_truthy (map_of ps ''main'') \<and> \<not> json_truthy (map_of ps ''browser'')))"
    using discoverExtension_iff [of h folder entries ps] by blast
qed

lemma EXTENSIONS_ROOT_extensions_host [simp]:
  "EXTENSIONS_ROOT extensions_host = ''/app/extensions''"
  by (simp add: path_eval extensions_host_def)

lemma EXTENSIONS_ROOT_flag_host [simp]:
  "EXTENSIONS_ROOT flag_host = ''/app/extensions''"
  by (simp add: path_eval flag_host_def)

lemma extension_paths:
  "path_join [''/app/extensions'', ''web-ext''] = ''/app/extensions/web-ext''"
  "path_join [''/app/extensions'', ''web-ext'', ''package.json'']
     = ''/app/extensions/web-ext/package.json''"
  "path_join [''/app/extensions'', ''native-ext''] = ''/app/extensions/native-ext''"
  "path_join [''/app/extensions'', ''native-ext'', ''package.json'']
     = ''/app/extensions/native-ext/package.json''"
  "path_join [''/app/extensions'', ''flag-ext''] = ''/app/extensions/flag-ext''"
  "path_join [''/app/extensions'', ''flag-ext'', ''package.json'']
     = ''/app/extensions/flag-ext/package.json''"
  by (simp_all add: path_join_def path_normalize_def normalizeString_def normalize_step_def)

theorem discovery_keeps_web_capable_only_witness:
  "fs_readdirWithFileTypes extensions_host (EXTENSIONS_ROOT extensions_host)
     = Some [(''README.md'', True), (''web-ext'', False), (''native-ext'', False)]
   \<and> set (map fst (filter (\<lambda>c. \<not> snd c)
        [(''README.md'', True), (''web-ext'', False), (''native-ext'', False)]))
     = {''web-ext'', ''native-ext''}
   \<and> fs_readdir extensions_host (path_join [EXTENSIONS_ROOT extensions_host, ''web-ext''])
     = Some [''package.json'', ''README.md'']
   \<and> fs_exists extensions_host
       (path_join [EXTENSIONS_ROOT extensions_host, ''web-ext'', ''package.json''])
   \<and> fs_readJSON extensions_host
       (path_join [EXTENSIONS_ROOT extensions_host, ''web-ext'', ''package.json''])
     = Some web_descriptor
   \<and> fs_readJSON extensions_host
       (path_join [EXTENSIONS_ROOT extensions_host, ''native-ext'', ''package.json''])
     = Some native_descriptor
   \<and> json_get web_descriptor ''browser'' = Some (Some (JStr ''./dist/browser/main''))
   \<and> json_get native_descriptor ''main'' = Some (Some (JStr ''./out/main''))
   \<and> json_truthy (Some (JStr ''./out/main''))
   \<and> json_get native_descriptor ''browser'' = Some None
   \<and> \<not> json_truthy None
   \<and> (\<exists>catalog e.
         initialize extensions_host = Some catalog \<and> set catalog = {e}
         \<and> ext_extensionPath e = ''web-ext''
         \<and> ext_packageJSON e =
             JObj [(''name'', JStr ''web-ext''), (''main'', JStr ''./dist/browser/main''),
                   (''browser'', JStr ''./dist/browser/main''),
                   (''extensionKind'', JArr [JStr ''web''])]
         \<and> ''native-ext'' \<notin> ext_extensionPath ` set catalog)
   \<and> discoverExtension extensions_host ''web-ext'' \<noteq> None"
proof -
  let ?ms = "[(''name'', JStr ''web-ext''), (''main'', JStr ''./out/main''),
      (''browser'', JStr ''./dist/browser/main'')]"
  note t = discovery_keeps_web_capable_only [of extensions_host
      "[(''README.md'', True), (''web-ext'', False), (''native-ext'', False)]"
      "''web-ext''" "''native-ext''" "[''package.json'', ''README.md'']" ?ms
      native_descriptor "Some (JStr ''./out/main'')" None
      "''web-ext''" "[''package.json'', ''README.md'']" ?ms]
  have l: "fs_readdirWithFileTypes extensions_host (EXTENSIONS_ROOT extensions_host)
      = Some [(''README.md'', True), (''web-ext'', False), (''native-ext'', False)]"
    by simp (simp add: extensions_host_def)
  have f: "set (map fst (filter (\<lambda>c. \<not> snd c)
      [(''README.md'', True), (''web-ext'', False), (''native-ext'', False)]))
      = {''web-ext'', ''native-ext''}"
    by simp
  have c: "fs_readdir extensions_host (path_join [EXTENSIONS_ROOT extensions_host, ''web-ext''])
      = Some [''package.json'', ''README.md'']"
    by (simp add: extension_paths) (simp add: extensions_host_def)
  have x: "fs_exists extensions_host
      (path_join [EXTENSIONS_ROOT extensions_host, ''web-ext'', ''package.json''])"
    by (simp add: extension_paths) (simp add: extensions_host_def)
  have w: "fs_readJSON extensions_host
      (path_join [EXTENSIONS_ROOT extensions_host, ''web-ext'', ''package.json''])
      = Some (JObj ?ms)"
    by (simp add: extension_paths) (simp add: extensions_host_def web_descriptor_def)
  have b: "(\<exists>s. map_of ?ms ''browser'' = Some (JStr s) \<and> s \<noteq> [])
      \<or> (\<not> json_truthy (map_of ?ms ''main'') \<and> \<not> json_truthy (map_of ?ms ''browser''))"
    by simp
  have n: "fs_readJSON extensions_host
      (path_join [EXTENSIONS_ROOT extensions_host, ''native-ext'', ''package.json''])
      = Some native_descriptor"
    by (simp add: extension_paths) (simp add: extensions_host_def)
  have m: "json_get native_descriptor ''main'' = Some (Some (JStr ''./out/main''))"
    and m': "json_truthy (Some (JStr ''./out/main''))"
    and r: "json_get native_descriptor ''browser'' = Some None"
    and r': "\<not> json_truthy None"
    by (simp_all add: json_get_def native_descriptor_def)
  have g: "json_get web_descriptor ''browser'' = Some (Some (JStr ''./dist/browser/main''))"
    by (simp add: json_get_def web_descriptor_def)
  from t l f c x w b n m m' r r'
  obtain catalog e where
    i: "initialize extensions_host = Some catalog" and s: "set catalog = {e}"
    and p: "ext_extensionPath e = ''web-ext''"
    and k: "ext_packageJSON e =
        json_set
          (case map_of ?ms ''browser'' of
             Some (JStr s) \<Rightarrow> if s \<noteq> [] then json_set (JObj ?ms) ''main'' (JStr s) else JObj ?ms
           | _ \<Rightarrow> JObj ?ms)
          ''extensionKind'' (JArr [JStr ''web''])"
    by blast
  from t i n m m' r r' have o: "''native-ext'' \<notin> ext_extensionPath ` set catalog"
    by blast
  from t c x w b have d: "discoverExtension extensions_host ''web-ext'' \<noteq> None"
    by blast
  from k have "ext_packageJSON e =
      JObj [(''name'', JStr ''web-ext''), (''main'', JStr ''./dist/browser/main''),
            (''browser'', JStr ''./dist/browser/main''),
            (''extensionKind'', JArr [JStr ''web''])]"
    by (simp add: json_set_def)
  with i s p o have "\<exists>catalog e.
      initialize extensions_host = Some catalog \<and> set catalog = {e}
      \<and> ext_extensionPath e = ''web-ext''
      \<and> ext_packageJSON e =
          JObj [(''name'', JStr ''web-ext''), (''main'', JStr ''./dist/browser/main''),
                (''browser'', JStr ''./dist/browser/main''),
                (''extensionKind'', JArr [JStr ''web''])]
      \<and> ''native-ext'' \<notin> ext_extensionPath ` set catalog"
    by blast
  with l f c x w [folded web_descriptor_def] n g m m' r r' d show ?thesis by blast
qed

text \<open>
  Against C5 as stated: the directory of \<^const>\<open>flag_host\<close> holds the folder
  \<^verbatim>\<open>flag-ext\<close>, whose descriptor \<^verbatim>\<open>{"name": "flag-ext", "browser": true}\<close> declares a
  \<^verbatim>\<open>browser\<close> entry point and no \<^verbatim>\<open>main\<close>, and the folder \<^verbatim>\<open>native-ext\<close>, whose
  descriptor declares \<^verbatim>\<open>main\<close> only. \<^verbatim>\<open>path.join\<close> throws on the boolean, the
  \<^verbatim>\<open>catch\<close> logs it, and the catalog is empty instead of holding the first.
\<close>

theorem discovery_drops_boolean_browser:
  "fs_readdirWithFileTypes flag_host (EXTENSIONS_ROOT flag_host)
     = Some [(''flag-ext'', False), (''native-ext'', False)]
   \<and> fs_readJSON flag_host (path_join [EXTENSIONS_ROOT flag_host, ''flag-ext'', ''package.json''])
     = Some flag_descriptor
   \<and> json_get flag_descriptor ''main'' = Some None
   \<and> json_get flag_descriptor ''browser'' = Some (Some (JBool True))
   \<and> fs_readJSON flag_host
       (path_join [EXTENSIONS_ROOT flag_host, ''native-ext'', ''package.json''])
     = Some native_descriptor
   \<and> initialize flag_host = Some []"
proof -
  have "fs_readdirWithFileTypes flag_host ''/app/extensions''
      = Some [(''flag-ext'', False), (''native-ext'', False)]"
    and "fs_readJSON flag_host ''/app/extensions/flag-ext/package.json'' = Some flag_descriptor"
    and "fs_readJSON flag_host ''/app/extensions/native-ext/package.json''
      = Some native_descriptor"
    and "fs_readdir flag_host ''/app/extensions/flag-ext'' = Some [''package.json'']"
    and "fs_readdir flag_host ''/app/extensions/native-ext'' = Some [''package.json'']"
    and "fs_exists flag_host ''/app/extensions/flag-ext/package.json''"
    and "fs_exists flag_host ''/app/extensions/native-ext/package.json''"
    by (simp_all add: flag_host_def)
  moreover have "json_get flag_descriptor ''main'' = Some None"
    and "json_get flag_descriptor ''browser'' = Some (Some (JBool True))"
    and "json_get native_descriptor ''main'' = Some (Some (JStr ''./out/main''))"
    and "json_get native_descriptor ''browser'' = Some None"
    by (simp_all add: json_get_def flag_descriptor_def native_descriptor_def)
  ultimately show ?thesis
    by (simp add: initialize_def discoverExtension_def extension_paths List.map_filter_def
        isReadme_def isChangelog_def)
qed

section \<open>Properties of the document root\<close>

lemma split_at_no_sep: "c \<notin> set s \<Longrightarrow> split_at c s = [s]"
  by (induction s) auto

lemma percent_decode_plain: "CHR ''%'' \<notin> set s \<Longrightarrow> percent_decode s = s"
  by (induction s rule: percent_decode.induct) auto

lemma utf8_decode_ascii:
  "\<forall>c\<in>set s. (of_char c :: nat) < 128 \<Longrightarrow> utf8_decode utf8_idle s = s"
  by (induction s) (auto simp: utf8_idle_def utf8_first_def)

lemma form_decode_plain:
  assumes "\<forall>c\<in>set s. (of_char c :: nat) < 128" and "CHR ''+'' \<notin> set s" and "CHR ''%'' \<notin> set s"
  shows "form_decode s = s"
proof -
  from assms(2) have "map (\<lambda>c. if c = CHR ''+'' then CHR '' '' else c) s = s"
    by (induction s) auto
  with assms(1,3) show ?thesis
    by (simp add: form_decode_def percent_decode_plain utf8_decode_ascii)
qed

text \<open>
  The request \<^verbatim>\<open>/?gh=v\<close> for an ASCII text \<open>v\<close> that needs no escaping: the handler
  reads \<open>v\<close> back.
\<close>

lemma gh_query_plain:
  assumes "v \<noteq> []" and "\<forall>c\<in>set v. (of_char c :: nat) < 128"
    and "CHR ''#'' \<notin> set v" and "CHR ''&'' \<notin> set v" and "CHR ''+'' \<notin> set v"
    and "CHR ''%'' \<notin> set v"
  shows "match_query (''/?gh='' @ v) = Some (''gh='' @ v)"
    and "map_of (URLSearchParams (''gh='' @ v)) ''gh'' = Some v"
proof -
  from assms(3) have "takeWhile (\<lambda>x. x \<noteq> CHR ''#'') v = v" by (induction v) auto
  then show "match_query (''/?gh='' @ v) = Some (''gh='' @ v)" by simp
  from assms(4) have "split_at CHR ''&'' (''gh='' @ v) = [''gh='' @ v]"
    by (intro split_at_no_sep) simp
  moreover have "form_decode ''gh'' = ''gh''"
    by (simp add: form_decode_def utf8_idle_def utf8_first_def)
  moreover have "form_decode v = v" using assms(2,5,6) by (rule form_decode_plain)
  ultimately show "map_of (URLSearchParams (''gh='' @ v)) ''gh'' = Some v"
    by (simp add: URLSearchParams_def)
qed

lemma handleRoot_renders:
  assumes "fs_readFile h (WEB_MAIN h) = Some template"
  shows "handleRoot h req (Some builtinExtensions) =
     Some
       (\<lparr>status = 200, headers = [(''Content-Type'', ''text/html'')],
         body =
           Text
             (renderDocument template
                (escapeAttribute
                   (JSON_stringify
                      (JObj [(''folderUri'', folderUri (ghPath_of req)),
                             (''builtinExtensionsServiceUrl'',
                              JStr (SCHEME h @ ''://'' @ AUTHORITY h @ ''/static-extension''))])))
                (escapeAttribute
                   (JSON_stringify (JArr (map extension_json builtinExtensions)))))\<rparr>,
        [ReadFile (WEB_MAIN h)])"
  using assms by (simp add: handleRoot_def webConfig_def Let_def)

lemma folderUri_gh:
  assumes "match_query (req_url req) = Some m" and "map_of (URLSearchParams m) ''gh'' = Some gh"
    and "gh \<noteq> []"
  shows "folderUri (ghPath_of req) =
     JObj [(''scheme'', JStr ''github''), (''authority'', JStr ''HEAD''),
           (''path'', JStr (if prefix ''/'' gh then gh else CHR ''/'' # gh))]"
  using assms by (simp add: folderUri_def ghPath_of_def)

lemma folderUri_no_gh:
  assumes "match_query (req_url req) = None
      \<or> (\<exists>m. match_query (req_url req) = Some m \<and> map_of (URLSearchParams m) ''gh'' = None)"
  shows "folderUri (ghPath_of req) =
     JObj [(''scheme'', JStr ''memfs''), (''path'', JStr ''/sample-folder'')]"
  using assms by (auto simp: folderUri_def ghPath_of_def)

text \<open>
  C8. The document is the template with the configuration and the catalog substituted,
  both as JSON with every double quote written \<^verbatim>\<open>&quot;\<close>. The \<^verbatim>\<open>folderUri\<close> of the
  configuration is the remote folder \<^verbatim>\<open>{scheme: 'github', authority: 'HEAD', path}\<close>
  when the query of the request has a \<^verbatim>\<open>gh\<close> parameter that is not empty, its path the
  value of the parameter, after a \<^verbatim>\<open>/\<close> unless it starts with one; so it is for the
  request \<^verbatim>\<open>/?gh=v\<close> with an ASCII text \<open>v\<close> that needs no escaping. When the request
  has no query or the query has no \<^verbatim>\<open>gh\<close> parameter it is the sample folder
  \<^verbatim>\<open>{scheme: 'memfs', path: '/sample-folder'}\<close>. The query is what \<^verbatim>\<open>handleRoot\<close>
  takes from \<^verbatim>\<open>req.url\<close> with \<^verbatim>\<open>/\?([^#]+)/\<close>.
\<close>

theorem root_selects_folder:
  assumes "fs_readFile h (WEB_MAIN h) = Some template"
  shows "\<exists>selected.
      handleRoot h req (Some builtinExtensions) =
        Some
          (\<lparr>status = 200, headers = [(''Content-Type'', ''text/html'')],
            body =
              Text
                (renderDocument template
                   (escapeAttribute
                      (JSON_stringify
                         (JObj [(''folderUri'', selected),
                                (''builtinExtensionsServiceUrl'',
                                 JStr (SCHEME h @ ''://'' @ AUTHORITY h @ ''/static-extension''))])))
                   (escapeAttribute
                      (JSON_stringify (JArr (map extension_json builtinExtensions)))))\<rparr>,
           [ReadFile (WEB_MAIN h)])
      \<and> (\<forall>m gh.
            match_query (req_url req) = Some m \<and> map_of (URLSearchParams m) ''gh'' = Some gh
            \<and> gh \<noteq> []
            \<longrightarrow> selected =
                JObj [(''scheme'', JStr ''github''), (''authority'', JStr ''HEAD''),
                      (''path'', JStr (if prefix ''/'' gh then gh else CHR ''/'' # gh))])
      \<and> (\<forall>v. req_url req = ''/?gh='' @ v \<and> v \<noteq> []
            \<and> (\<forall>c\<in>set v. (of_char c :: nat) < 128)
            \<and> CHR ''#'' \<notin> set v \<and> CHR ''&'' \<notin> set v \<and> CHR ''+'' \<notin> set v \<and> CHR ''%'' \<notin> set v
            \<longrightarrow> selected =
                JObj [(''scheme'', JStr ''github''), (''authority'', JStr ''HEAD''),
                      (''path'', JStr (if prefix ''/'' v then v else CHR ''/'' # v))])
      \<and> (match_query (req_url req) = None
            \<or> (\<exists>m. match_query (req_url req) = Some m \<and> map_of (URLSearchParams m) ''gh'' = None)
          \<longrightarrow> selected = JObj [(''scheme'', JStr ''memfs''), (''path'', JStr ''/sample-folder'')])"
proof (intro exI conjI allI impI)
  show "handleRoot h req (Some builtinExtensions) =
        Some
          (\<lparr>status = 200, headers = [(''Content-Type'', ''text/html'')],
            body =
              Text
                (renderDocument template
                   (escapeAttribute
                      (JSON_stringify
                         (JObj [(''folderUri'', folderUri (ghPath_of req)),
                                (''builtinExtensionsServiceUrl'',
                                 JStr (SCHEME h @ ''://'' @ AUTHORITY h @ ''/static-extension''))])))
                   (escapeAttribute
                      (JSON_stringify (JArr (map extension_json builtinExtensions)))))\<rparr>,
           [ReadFile (WEB_MAIN h)])"
    using assms by (rule handleRoot_renders)
next
  fix m gh
  assume "match_query (req_url req) = Some m \<and> map_of (URLSearchParams m) ''gh'' = Some gh
      \<and> gh \<noteq> []"
  then have "match_query (req_url req) = Some m"
    and "map_of (URLSearchParams m) ''gh'' = Some gh" and "gh \<noteq> []"
    by simp_all
  then show "folderUri (ghPath_of req) =
      JObj [(''scheme'', JStr ''github''), (''authority'', JStr ''HEAD''),
            (''path'', JStr (if prefix ''/'' gh then gh else CHR ''/'' # gh))]"
    by (rule folderUri_gh)
next
  fix v
  assume a: "req_url req = ''/?gh='' @ v \<and> v \<noteq> []
      \<and> (\<forall>c\<in>set v. (of_char c :: nat) < 128)
      \<and> CHR ''#'' \<notin> set v \<and> CHR ''&'' \<notin> set v \<and> CHR ''+'' \<notin> set v \<and> CHR ''%'' \<notin> set v"
  then have "match_query (req_url req) = Some (''gh='' @ v)"
    and "map_of (URLSearchParams (''gh='' @ v)) ''gh'' = Some v" and "v \<noteq> []"
    using gh_query_plain [of v] by simp_all
  then show "folderUri (ghPath_of req) =
      JObj [(''scheme'', JStr ''github''), (''authority'', JStr ''HEAD''),
            (''path'', JStr (if prefix ''/'' v then v else CHR ''/'' # v))]"
    by (rule folderUri_gh)
next
  assume "match_query (req_url req) = None
      \<or> (\<exists>m. match_query (req_url req) = Some m \<and> map_of (URLSearchParams m) ''gh'' = None)"
  then show "folderUri (ghPath_of req) =
      JObj [(''scheme'', JStr ''memfs''), (''path'', JStr ''/sample-folder'')]"
    by (rule folderUri_no_gh)
qed

lemma WEB_MAIN_template_host [simp]:
  "WEB_MAIN template_host = ''/app/src/vs/code/browser/workbench/workbench-dev.html''"
  by (simp add: WEB_MAIN_def path_eval template_host_def)

lemmas document_eval =
  renderDocument_def escapeAttribute_def QuoteJSONString_def json_escape_def
  example_template_def

theorem root_selects_folder_witness:
  "fs_readFile template_host (WEB_MAIN template_host) = Some example_template
   \<and> match_query (req_url gh_request) = Some ''gh=owner/repo/path''
   \<and> map_of (URLSearchParams ''gh=owner/repo/path'') ''gh'' = Some ''owner/repo/path''
   \<and> handleRoot template_host gh_request (Some []) =
       Some
         (\<lparr>status = 200, headers = [(''Content-Type'', ''text/html'')],
           body =
             Text
               (''<meta data-settings=[{&quot;folderUri&quot;:{&quot;scheme&quot;:&quot;github&quot;,''
                @ ''&quot;authority&quot;:&quot;HEAD&quot;,&quot;path&quot;:&quot;/owner/repo/path&quot;},''
                @ ''&quot;builtinExtensionsServiceUrl&quot;:''
                @ ''&quot;http://localhost:8080/static-extension&quot;}]>''
                @ ''<meta data-extensions=[[]]><a href=[][]>'')\<rparr>,
          [ReadFile ''/app/src/vs/code/browser/workbench/workbench-dev.html''])
   \<and> match_query (req_url plain_request) = None
   \<and> handleRoot template_host plain_request (Some []) =
       Some
         (\<lparr>status = 200, headers = [(''Content-Type'', ''text/html'')],
           body =
             Text
               (''<meta data-settings=[{&quot;folderUri&quot;:{&quot;scheme&quot;:&quot;memfs&quot;,''
                @ ''&quot;path&quot;:&quot;/sample-folder&quot;},''
                @ ''&quot;builtinExtensionsServiceUrl&quot;:''
                @ ''&quot;http://localhost:8080/static-extension&quot;}]>''
                @ ''<meta data-extensions=[[]]><a href=[][]>'')\<rparr>,
          [ReadFile ''/app/src/vs/code/browser/workbench/workbench-dev.html''])"
proof -
  have t: "fs_readFile template_host (WEB_MAIN template_host) = Some example_template"
    by simp (simp add: template_host_def)
  have sa: "SCHEME template_host @ ''://'' @ AUTHORITY template_host @ ''/static-extension''
      = ''http://localhost:8080/static-extension''"
    by (simp add: template_host_def)
  have m: "match_query (req_url gh_request) = Some ''gh=owner/repo/path''"
    by (simp add: gh_request_def)
  have g: "map_of (URLSearchParams ''gh=owner/repo/path'') ''gh'' = Some ''owner/repo/path''"
    by (simp add: URLSearchParams_def form_decode_def utf8_idle_def utf8_first_def)
  have n: "match_query (req_url plain_request) = None"
    by (simp add: plain_request_def)
  from root_selects_folder [OF t, of gh_request "[]"] obtain selected where
    r: "handleRoot template_host gh_request (Some []) =
        Some
          (\<lparr>status = 200, headers = [(''Content-Type'', ''text/html'')],
            body =
              Text
                (renderDocument example_template
                   (escapeAttribute
                      (JSON_stringify
                         (JObj [(''folderUri'', selected),
                                (''builtinExtensionsServiceUrl'',
                                 JStr (SCHEME template_host @ ''://'' @ AUTHORITY template_host
                                   @ ''/static-extension''))])))
                   (escapeAttribute (JSON_stringify (JArr (map extension_json [])))))\<rparr>,
           [ReadFile (WEB_MAIN template_host)])"
    and s: "\<forall>m gh.
        match_query (req_url gh_request) = Some m \<and> map_of (URLSearchParams m) ''gh'' = Some gh
        \<and> gh \<noteq> []
        \<longrightarrow> selected =
            JObj [(''scheme'', JStr ''github''), (''authority'', JStr ''HEAD''),
                  (''path'', JStr (if prefix ''/'' gh then gh else CHR ''/'' # gh))]"
    by blast
  from s m g have "selected =
      JObj [(''scheme'', JStr ''github''), (''authority'', JStr ''HEAD''),
            (''path'', JStr (if prefix ''/'' ''owner/repo/path'' then ''owner/repo/path''
               else CHR ''/'' # ''owner/repo/path''))]"
    by blast
  then have sel: "selected =
      JObj [(''scheme'', JStr ''github''), (''authority'', JStr ''HEAD''),
            (''path'', JStr ''/owner/repo/path'')]"
    by simp
  have a: "handleRoot template_host gh_request (Some []) =
      Some
        (\<lparr>status = 200, headers = [(''Content-Type'', ''text/html'')],
          body =
            Text
              (renderDocument example_template
                 (escapeAttribute
                    (JSON_stringify
                       (JObj [(''folderUri'',
                               JObj [(''scheme'', JStr ''github''), (''authority'', JStr ''HEAD''),
                                     (''path'', JStr ''/owner/repo/path'')]),
                              (''builtinExtensionsServiceUrl'',
                               JStr ''http://localhost:8080/static-extension'')])))
                 (escapeAttribute (JSON_stringify (JArr []))))\<rparr>,
         [ReadFile ''/app/src/vs/code/browser/workbench/workbench-dev.html''])"
    using r by (simp only: sel sa WEB_MAIN_template_host list.map)
  from root_selects_folder [OF t, of plain_request "[]"] obtain selected' where
    r': "handleRoot template_host plain_request (Some []) =
        Some
          (\<lparr>status = 200, headers = [(''Content-Type'', ''text/html'')],
            body =
              Text
                (renderDocument example_template
                   (escapeAttribute
                      (JSON_stringify
                         (JObj [(''folderUri'', selected'),
                                (''builtinExtensionsServiceUrl'',
                                 JStr (SCHEME template_host @ ''://'' @ AUTHORITY template_host
                                   @ ''/static-extension''))])))
                   (escapeAttribute (JSON_stringify (JArr (map extension_json [])))))\<rparr>,
           [ReadFile (WEB_MAIN template_host)])"
    and s': "match_query (req_url plain_request) = None
        \<or> (\<exists>m. match_query (req_url plain_request) = Some m
              \<and> map_of (URLSearchParams m) ''gh'' = None)
        \<longrightarrow> selected' = JObj [(''scheme'', JStr ''memfs''), (''path'', JStr ''/sample-folder'')]"
    by blast
  from s' n have sel': "selected' =
      JObj [(''scheme'', JStr ''memfs''), (''path'', JStr ''/sample-folder'')]"
    by blast
  have b: "handleRoot template_host plain_request (Some []) =
      Some
        (\<lparr>status = 200, headers = [(''Content-Type'', ''text/html'')],
          body =
            Text
              (renderDocument example_template
                 (escapeAttribute
                    (JSON_stringify
                       (JObj [(''folderUri'',
                               JObj [(''scheme'', JStr ''memfs''),
                                     (''path'', JStr ''/sample-folder'')]),
                              (''builtinExtensionsServiceUrl'',
                               JStr ''http://localhost:8080/static-extension'')])))
                 (escapeAttribute (JSON_stringify (JArr []))))\<rparr>,
         [ReadFile ''/app/src/vs/code/browser/workbench/workbench-dev.html''])"
    using r' by (simp only: sel' sa WEB_MAIN_template_host list.map)
  have a': "renderDocument example_template
      (escapeAttribute
         (JSON_stringify
            (JObj [(''folderUri'',
                    JObj [(''scheme'', JStr ''github''), (''authority'', JStr ''HEAD''),
                          (''path'', JStr ''/owner/repo/path'')]),
                   (''builtinExtensionsServiceUrl'',
                    JStr ''http://localhost:8080/static-extension'')])))
      (escapeAttribute (JSON_stringify (JArr [])))
      = ''<meta data-settings=[{&quot;folderUri&quot;:{&quot;scheme&quot;:&quot;github&quot;,''
        @ ''&quot;authority&quot;:&quot;HEAD&quot;,&quot;path&quot;:&quot;/owner/repo/path&quot;},''
        @ ''&quot;builtinExtensionsServiceUrl&quot;:''
        @ ''&quot;http://localhost:8080/static-extension&quot;}]>''
        @ ''<meta data-extensions=[[]]><a href=[][]>''"
    by (simp add: document_eval)
  have b': "renderDocument example_template
      (escapeAttribute
         (JSON_stringify
            (JObj [(''folderUri'',
                    JObj [(''scheme'', JStr ''memfs''), (''path'', JStr ''/sample-folder'')]),
                   (''builtinExtensionsServiceUrl'',
                    JStr ''http://localhost:8080/static-extension'')])))
      (escapeAttribute (JSON_stringify (JArr [])))
      = ''<meta data-settings=[{&quot;folderUri&quot;:{&quot;scheme&quot;:&quot;memfs&quot;,''
        @ ''&quot;path&quot;:&quot;/sample-folder&quot;},''
        @ ''&quot;builtinExtensionsServiceUrl&quot;:''
        @ ''&quot;http://localhost:8080/static-extension&quot;}]>''
        @ ''<meta data-extensions=[[]]><a href=[][]>''"
    by (simp add: document_eval)
  from t m g n a [unfolded a'] b [unfolded b'] show ?thesis by blast
qed

end
